theory Spec2Isabelle
  imports Complex_Main "HOL-Library.Char_ord" "HOL-Library.List_Lexorder"
begin

section \<open>Well and group helpers: the data model\<close>

text \<open>
  The development embeds \<^verbatim>\<open>opm/simulators/wells/WellGroupHelpers.cpp\<close>.
  Conventions of the embedding:
  \<^item> a \<^verbatim>\<open>double\<close> is a \<^typ>\<open>real\<close>: rounding, infinities and NaN are not
    represented, and a quotient whose divisor is zero has the value HOL gives it;
  \<^item> \<^verbatim>\<open>schedule\<close> is the schedule at the report step of the call, and a control
    record is the one already evaluated against the summary state;
  \<^item> an exception is a value \<open>Inl e\<close>; reading a \<^verbatim>\<open>std::vector\<close> outside its
    bounds is the error \<open>OutOfRange\<close>;
  \<^item> recursion over the group tree follows names through the schedule, so it carries
    fuel: \<open>Inl OutOfFuel\<close> stands for a call that has not returned within that many
    nested calls;
  \<^item> \<^verbatim>\<open>assert\<close> is compiled out (\<^verbatim>\<open>NDEBUG\<close>); the condition of the one assertion
    that can fail is kept as a predicate of its own.
\<close>

type_synonym name = string

datatype error =
    OutOfFuel
  | OutOfRange
  | InvalidArgument string
  | LogicError string
  | RuntimeError string

definition bindE :: "error + 'a \<Rightarrow> ('a \<Rightarrow> error + 'b) \<Rightarrow> error + 'b" where
  "bindE m f = (case m of Inl e \<Rightarrow> Inl e | Inr v \<Rightarrow> f v)"

text \<open>A \<^verbatim>\<open>for\<close> loop over a container that updates local state and may throw.\<close>

fun foldE :: "('a \<Rightarrow> 's \<Rightarrow> error + 's) \<Rightarrow> 'a list \<Rightarrow> 's \<Rightarrow> error + 's" where
  "foldE f [] s = Inr s"
| "foldE f (x # xs) s = bindE (f x s) (foldE f xs)"

definition at_vec :: "'a list \<Rightarrow> nat \<Rightarrow> error + 'a" where
  "at_vec xs i = (if i < length xs then Inr (xs ! i) else Inl OutOfRange)"

datatype Phase = WATER | OIL | GAS

datatype BlackoilPhase = Aqua | Liquid | Vapour

text \<open>The enumerators of \<^verbatim>\<open>BlackoilPhases\<close> used as vector indices.\<close>

fun phaseIdx :: "BlackoilPhase \<Rightarrow> nat" where
  "phaseIdx Aqua = 0"
| "phaseIdx Liquid = 1"
| "phaseIdx Vapour = 2"

record PhaseUsage =
  num_phases :: nat
  phase_used :: "BlackoilPhase \<Rightarrow> bool"
  phase_pos :: "BlackoilPhase \<Rightarrow> nat"

datatype ProductionCMode =
  Prod_NONE | Prod_ORAT | Prod_WRAT | Prod_GRAT | Prod_LRAT | Prod_CRAT | Prod_RESV | Prod_PRBL | Prod_FLD

datatype InjectionCMode =
  Inj_NONE | Inj_RATE | Inj_RESV | Inj_REIN | Inj_VREP | Inj_FLD | Inj_SALE

text \<open>
  \<^verbatim>\<open>Group::GuideRateInjTarget\<close>; \<open>GRI_other\<close> stands for a value outside the
  enumeration, which the \<^verbatim>\<open>default\<close> label of a \<^verbatim>\<open>switch\<close> catches.
\<close>

datatype GuideRateInjTarget =
  GRI_RATE | GRI_VOID | GRI_NETV | GRI_RESV | GRI_POTN | GRI_NO_GUIDE_RATE | GRI_other

datatype GuideRateTarget =
  Target_OIL | Target_LIQ | Target_GAS | Target_WAT | Target_RES | Target_COMB | Target_NONE

datatype WellStatus = OPEN | STOP | SHUT | AUTO

datatype WellCMode = GRUP | OtherCMode

datatype ScheduleEvent = GROUP_INJECTION_UPDATE | GROUP_PRODUCTION_UPDATE

record RateVector =
  oil_rat :: real
  gas_rat :: real
  wat_rat :: real

record ProductionControls =
  prod_cmode :: ProductionCMode
  oil_target :: real
  water_target :: real
  gas_target :: real
  liquid_target :: real
  resv_target :: real

record InjectionControls =
  inj_cmode :: InjectionCMode
  guide_rate_def :: GuideRateInjTarget
  surface_max_rate :: real
  resv_max_rate :: real
  target_reinj_fraction :: real
  target_void_fraction :: real

text \<open>
  \<^verbatim>\<open>Group\<close>: \<open>injectionControls\<close> is defined exactly at the phases for which
  \<^verbatim>\<open>hasInjectionControl\<close> holds.
\<close>

record Group =
  gname :: name
  parent :: name
  groups :: "name list"
  wells :: "name list"
  getGroupEfficiencyFactor :: real
  isProductionGroup :: bool
  isInjectionGroup :: bool
  productionGroupControlAvailable :: bool
  injectionGroupControlAvailable :: "Phase \<Rightarrow> bool"
  productionControls :: ProductionControls
  injectionControls :: "Phase \<rightharpoonup> InjectionControls"

definition hasInjectionControl :: "Group \<Rightarrow> Phase \<Rightarrow> bool" where
  "hasInjectionControl grp phase = (injectionControls grp phase \<noteq> None)"

record Well =
  wname :: name
  isProducer :: bool
  getStatus :: WellStatus
  getEfficiencyFactor :: real
  groupName :: name

definition isInjector :: "Well \<Rightarrow> bool" where
  "isInjector w = (\<not> isProducer w)"

record GConSump =
  consumption_rate :: real
  import_rate :: real

record Schedule =
  sched_groups :: "name \<rightharpoonup> Group"
  sched_wells :: "name \<rightharpoonup> Well"
  hasEvent :: "name \<Rightarrow> ScheduleEvent \<Rightarrow> bool"
  gconsale :: "name \<rightharpoonup> real"
  gconsump :: "name \<rightharpoonup> GConSump"

definition getGroup :: "Schedule \<Rightarrow> name \<Rightarrow> error + Group" where
  "getGroup schedule n =
     (case sched_groups schedule n of None \<Rightarrow> Inl (InvalidArgument n) | Some g \<Rightarrow> Inr g)"

definition hasWell :: "Schedule \<Rightarrow> name \<Rightarrow> bool" where
  "hasWell schedule n = (sched_wells schedule n \<noteq> None)"

definition getWell :: "Schedule \<Rightarrow> name \<Rightarrow> error + Well" where
  "getWell schedule n =
     (case sched_wells schedule n of None \<Rightarrow> Inl (InvalidArgument n) | Some w \<Rightarrow> Inr w)"

text \<open>
  \<^verbatim>\<open>WellStateFullyImplicitBlackoil\<close>, by its access contract: \<open>wellMap\<close> gives the
  index of a well of this process, the rate vectors hold \<open>numPhases\<close> entries per well,
  and each per-name aggregate is a map whose getter throws on a name it does not hold.
\<close>

record WellState =
  numPhases :: nat
  wellMap :: "name \<rightharpoonup> nat"
  wellIsOwned :: "nat \<Rightarrow> name \<Rightarrow> bool"
  wellRates :: "real list"
  wellReservoirRates :: "real list"
  currentInjectionControls :: "WellCMode list"
  currentProductionControls :: "WellCMode list"
  isProductionGrup :: "name \<Rightarrow> bool"
  isInjectionGrup :: "name \<Rightarrow> bool"
  injectionGroupControl :: "Phase \<times> name \<rightharpoonup> InjectionCMode"
  productionGroupControl :: "name \<rightharpoonup> ProductionCMode"
  productionGroupReductionRates :: "name \<rightharpoonup> real list"
  injectionGroupReductionRates :: "name \<rightharpoonup> real list"
  injectionREINRates :: "name \<rightharpoonup> real list"
  injectionVREPRates :: "name \<rightharpoonup> real"
  injectionGroupReservoirRates :: "name \<rightharpoonup> real list"
  wellRatesByName :: "name \<rightharpoonup> real list"
  productionGroupRates :: "name \<rightharpoonup> real list"
  groupGratTargetFromSales :: "name \<rightharpoonup> real"
  getALQ :: "name \<Rightarrow> real"

definition lookupE :: "('k \<rightharpoonup> 'v) \<Rightarrow> 'k \<Rightarrow> string \<Rightarrow> error + 'v" where
  "lookupE m k msg = (case m k of None \<Rightarrow> Inl (LogicError msg) | Some v \<Rightarrow> Inr v)"

definition hasInjectionGroupControl :: "WellState \<Rightarrow> Phase \<Rightarrow> name \<Rightarrow> bool" where
  "hasInjectionGroupControl ws phase n = (injectionGroupControl ws (phase, n) \<noteq> None)"

definition setCurrentInjectionGroupControl ::
  "Phase \<Rightarrow> name \<Rightarrow> InjectionCMode \<Rightarrow> WellState \<Rightarrow> WellState" where
  "setCurrentInjectionGroupControl phase n c ws =
     ws\<lparr>injectionGroupControl := (injectionGroupControl ws)((phase, n) \<mapsto> c)\<rparr>"

definition currentInjectionGroupControl :: "WellState \<Rightarrow> Phase \<Rightarrow> name \<Rightarrow> error + InjectionCMode" where
  "currentInjectionGroupControl ws phase n = lookupE (injectionGroupControl ws) (phase, n) n"

definition hasProductionGroupControl :: "WellState \<Rightarrow> name \<Rightarrow> bool" where
  "hasProductionGroupControl ws n = (productionGroupControl ws n \<noteq> None)"

definition setCurrentProductionGroupControl :: "name \<Rightarrow> ProductionCMode \<Rightarrow> WellState \<Rightarrow> WellState" where
  "setCurrentProductionGroupControl n c ws =
     ws\<lparr>productionGroupControl := (productionGroupControl ws)(n \<mapsto> c)\<rparr>"

definition currentProductionGroupControl :: "WellState \<Rightarrow> name \<Rightarrow> error + ProductionCMode" where
  "currentProductionGroupControl ws n = lookupE (productionGroupControl ws) n n"

definition currentProductionGroupReductionRates :: "WellState \<Rightarrow> name \<Rightarrow> error + real list" where
  "currentProductionGroupReductionRates ws n = lookupE (productionGroupReductionRates ws) n n"

definition currentInjectionGroupReductionRates :: "WellState \<Rightarrow> name \<Rightarrow> error + real list" where
  "currentInjectionGroupReductionRates ws n = lookupE (injectionGroupReductionRates ws) n n"

definition currentInjectionVREPRates :: "WellState \<Rightarrow> name \<Rightarrow> error + real" where
  "currentInjectionVREPRates ws n = lookupE (injectionVREPRates ws) n n"

definition currentInjectionGroupReservoirRates :: "WellState \<Rightarrow> name \<Rightarrow> error + real list" where
  "currentInjectionGroupReservoirRates ws n = lookupE (injectionGroupReservoirRates ws) n n"

definition currentWellRates :: "WellState \<Rightarrow> name \<Rightarrow> error + real list" where
  "currentWellRates ws n = lookupE (wellRatesByName ws) n n"

definition currentProductionGroupRates :: "WellState \<Rightarrow> name \<Rightarrow> error + real list" where
  "currentProductionGroupRates ws n = lookupE (productionGroupRates ws) n n"

text \<open>The group state handed to \<^verbatim>\<open>setCmodeGroup\<close> beside the well state.\<close>

record GroupState =
  production_controls :: "name \<rightharpoonup> ProductionCMode"

definition has_production_control :: "GroupState \<Rightarrow> name \<Rightarrow> bool" where
  "has_production_control gs n = (production_controls gs n \<noteq> None)"

text \<open>
  The guide-rate registry \<^verbatim>\<open>GuideRate\<close> of the schedule library, by the four queries
  this file makes of it.
\<close>

record GuideRate =
  gr_has :: "name \<Rightarrow> bool"
  gr_has_inj :: "name \<Rightarrow> Phase \<Rightarrow> bool"
  gr_get :: "name \<Rightarrow> GuideRateTarget \<Rightarrow> RateVector \<Rightarrow> real"
  gr_get_inj :: "name \<Rightarrow> Phase \<Rightarrow> real"

section \<open>Rate aggregation\<close>

definition getGuideRateVector :: "real list \<Rightarrow> PhaseUsage \<Rightarrow> error + RateVector" where
  "getGuideRateVector rates pu =
     bindE (if phase_used pu Liquid then at_vec rates (phase_pos pu Liquid) else Inr 0) (\<lambda>oilRate.
     bindE (if phase_used pu Vapour then at_vec rates (phase_pos pu Vapour) else Inr 0) (\<lambda>gasRate.
     bindE (if phase_used pu Aqua then at_vec rates (phase_pos pu Aqua) else Inr 0) (\<lambda>waterRate.
     Inr \<lparr>oil_rat = oilRate, gas_rat = gasRate, wat_rat = waterRate\<rparr>)))"

text \<open>The body of the loop over \<^verbatim>\<open>group.wells()\<close> in \<^verbatim>\<open>sumWellPhaseRates\<close>.\<close>

definition sumWellPhaseRates_well ::
  "real list \<Rightarrow> Schedule \<Rightarrow> WellState \<Rightarrow> nat \<Rightarrow> bool \<Rightarrow> name \<Rightarrow> real \<Rightarrow> error + real" where
  "sumWellPhaseRates_well rates schedule wellState phasePos injector wellName rate =
     (case wellMap wellState wellName of
        None \<Rightarrow> Inr rate
      | Some well_index \<Rightarrow>
          if \<not> wellIsOwned wellState well_index wellName then Inr rate
          else bindE (getWell schedule wellName) (\<lambda>wellEcl.
            if (isProducer wellEcl \<and> injector) \<or> (isInjector wellEcl \<and> \<not> injector) then Inr rate
            else if getStatus wellEcl = SHUT then Inr rate
            else
              let factor = getEfficiencyFactor wellEcl;
                  wellrate_index = well_index * numPhases wellState
              in bindE (at_vec rates (wellrate_index + phasePos)) (\<lambda>r.
                   if injector then Inr (rate + factor * r) else Inr (rate - factor * r))))"

fun sumWellPhaseRates ::
  "nat \<Rightarrow> real list \<Rightarrow> Group \<Rightarrow> Schedule \<Rightarrow> WellState \<Rightarrow> nat \<Rightarrow> bool \<Rightarrow> error + real" where
  "sumWellPhaseRates 0 rates grp schedule wellState phasePos injector = Inl OutOfFuel"
| "sumWellPhaseRates (Suc fuel) rates grp schedule wellState phasePos injector =
     bindE (foldE (\<lambda>groupName rate.
              bindE (getGroup schedule groupName) (\<lambda>groupTmp.
              bindE (sumWellPhaseRates fuel rates groupTmp schedule wellState phasePos injector) (\<lambda>r.
              Inr (rate + r))))
            (groups grp) 0) (\<lambda>rate.
     bindE (foldE (sumWellPhaseRates_well rates schedule wellState phasePos injector)
            (wells grp) rate) (\<lambda>rate.
     Inr (getGroupEfficiencyFactor grp * rate)))"

definition sumWellRates ::
  "nat \<Rightarrow> Group \<Rightarrow> Schedule \<Rightarrow> WellState \<Rightarrow> nat \<Rightarrow> bool \<Rightarrow> error + real" where
  "sumWellRates fuel grp schedule wellState phasePos injector =
     sumWellPhaseRates fuel (wellRates wellState) grp schedule wellState phasePos injector"

definition sumWellResRates ::
  "nat \<Rightarrow> Group \<Rightarrow> Schedule \<Rightarrow> WellState \<Rightarrow> nat \<Rightarrow> bool \<Rightarrow> error + real" where
  "sumWellResRates fuel grp schedule wellState phasePos injector =
     sumWellPhaseRates fuel (wellReservoirRates wellState) grp schedule wellState phasePos injector"

section \<open>Group-controlled wells and the fraction calculator\<close>

text \<open>
  Whether a child takes part in the guide-rate split of its parent: the test that
  \<^verbatim>\<open>groupControlledWells\<close> and \<^verbatim>\<open>FractionCalculator::guideRateSum\<close> both make. The
  control of a child group is read before the disjunction is evaluated.
\<close>

definition childGroupIncluded :: "WellState \<Rightarrow> bool \<Rightarrow> Phase \<Rightarrow> name \<Rightarrow> name \<Rightarrow> error + bool" where
  "childGroupIncluded well_state is_production_group injection_phase always_included_child child_group =
     (if is_production_group then
        bindE (currentProductionGroupControl well_state child_group) (\<lambda>ctrl.
          Inr (child_group = always_included_child \<or> ctrl = Prod_FLD \<or> ctrl = Prod_NONE))
      else
        bindE (currentInjectionGroupControl well_state injection_phase child_group) (\<lambda>ctrl.
          Inr (child_group = always_included_child \<or> ctrl = Inj_FLD \<or> ctrl = Inj_NONE)))"

definition childWellIncluded :: "WellState \<Rightarrow> bool \<Rightarrow> name \<Rightarrow> name \<Rightarrow> bool" where
  "childWellIncluded well_state is_production_group always_included_child child_well =
     (child_well = always_included_child \<or>
      (if is_production_group then isProductionGrup well_state child_well
       else isInjectionGrup well_state child_well))"

fun groupControlledWells ::
  "nat \<Rightarrow> Schedule \<Rightarrow> WellState \<Rightarrow> name \<Rightarrow> name \<Rightarrow> bool \<Rightarrow> Phase \<Rightarrow> error + int" where
  "groupControlledWells 0 schedule well_state group_name always_included_child
     is_production_group injection_phase = Inl OutOfFuel"
| "groupControlledWells (Suc fuel) schedule well_state group_name always_included_child
     is_production_group injection_phase =
     bindE (getGroup schedule group_name) (\<lambda>grp.
     bindE (foldE (\<lambda>child_group num_wells.
              bindE (childGroupIncluded well_state is_production_group injection_phase
                       always_included_child child_group) (\<lambda>included.
              if included then
                bindE (groupControlledWells fuel schedule well_state child_group
                         always_included_child is_production_group injection_phase) (\<lambda>n.
                Inr (num_wells + n))
              else Inr num_wells))
            (groups grp) 0) (\<lambda>num_wells.
     Inr (fold (\<lambda>child_well num_wells.
                  if childWellIncluded well_state is_production_group always_included_child child_well
                  then num_wells + 1 else num_wells)
            (wells grp) num_wells)))"

definition getWellRateVector :: "WellState \<Rightarrow> PhaseUsage \<Rightarrow> name \<Rightarrow> error + RateVector" where
  "getWellRateVector well_state pu n =
     bindE (currentWellRates well_state n) (\<lambda>rates. getGuideRateVector rates pu)"

definition getProductionGroupRateVector :: "WellState \<Rightarrow> PhaseUsage \<Rightarrow> name \<Rightarrow> error + RateVector" where
  "getProductionGroupRateVector well_state pu group_name =
     bindE (currentProductionGroupRates well_state group_name) (\<lambda>rates. getGuideRateVector rates pu)"

record FractionCalculator =
  fc_schedule :: Schedule
  fc_well_state :: WellState
  fc_guide_rate :: GuideRate
  fc_target :: GuideRateTarget
  fc_pu :: PhaseUsage
  fc_is_producer :: bool
  fc_injection_phase :: Phase

definition fc_parent :: "FractionCalculator \<Rightarrow> name \<Rightarrow> error + name" where
  "fc_parent fc n =
     (if hasWell (fc_schedule fc) n then bindE (getWell (fc_schedule fc) n) (\<lambda>w. Inr (groupName w))
      else bindE (getGroup (fc_schedule fc) n) (\<lambda>g. Inr (parent g)))"

text \<open>
  \<^verbatim>\<open>guideRateSum\<close> and \<^verbatim>\<open>guideRate\<close> call each other. The sum is written over the
  function that gives a child its guide rate, and \<open>guideRate\<close> passes itself with one
  unit of fuel less.
\<close>

definition guideRateSumWith ::
  "(name \<Rightarrow> error + real) \<Rightarrow> FractionCalculator \<Rightarrow> Group \<Rightarrow> name \<Rightarrow> error + real" where
  "guideRateSumWith childGuideRate fc grp always_included_child =
     bindE (foldE (\<lambda>child_group total_guide_rate.
              bindE (childGroupIncluded (fc_well_state fc) (fc_is_producer fc) (fc_injection_phase fc)
                       always_included_child child_group) (\<lambda>included.
              if included then
                bindE (childGuideRate child_group) (\<lambda>v. Inr (total_guide_rate + v))
              else Inr total_guide_rate))
            (groups grp) 0) (\<lambda>total_guide_rate.
     foldE (\<lambda>child_well total_guide_rate.
              if childWellIncluded (fc_well_state fc) (fc_is_producer fc) always_included_child child_well
              then bindE (childGuideRate child_well) (\<lambda>v. Inr (total_guide_rate + v))
              else Inr total_guide_rate)
           (wells grp) total_guide_rate)"

fun guideRate :: "nat \<Rightarrow> FractionCalculator \<Rightarrow> name \<Rightarrow> name \<Rightarrow> error + real" where
  "guideRate 0 fc n always_included_child = Inl OutOfFuel"
| "guideRate (Suc fuel) fc n always_included_child =
     (if hasWell (fc_schedule fc) n then
        bindE (getWellRateVector (fc_well_state fc) (fc_pu fc) n) (\<lambda>rv.
          Inr (gr_get (fc_guide_rate fc) n (fc_target fc) rv))
      else
        bindE (groupControlledWells (Suc fuel) (fc_schedule fc) (fc_well_state fc) n
                 always_included_child (fc_is_producer fc) (fc_injection_phase fc)) (\<lambda>num.
        if num > 0 then
          (if fc_is_producer fc \<and> gr_has (fc_guide_rate fc) n then
             bindE (getProductionGroupRateVector (fc_well_state fc) (fc_pu fc) n) (\<lambda>rv.
               Inr (gr_get (fc_guide_rate fc) n (fc_target fc) rv))
           else if \<not> fc_is_producer fc \<and> gr_has_inj (fc_guide_rate fc) n (fc_injection_phase fc) then
             Inr (gr_get_inj (fc_guide_rate fc) n (fc_injection_phase fc))
           else
             bindE (getGroup (fc_schedule fc) n) (\<lambda>grp.
               guideRateSumWith (\<lambda>child. guideRate fuel fc child always_included_child)
                 fc grp always_included_child))
        else Inr 0))"

definition guideRateSum :: "nat \<Rightarrow> FractionCalculator \<Rightarrow> Group \<Rightarrow> name \<Rightarrow> error + real" where
  "guideRateSum fuel fc grp always_included_child =
     guideRateSumWith (\<lambda>child. guideRate fuel fc child always_included_child)
       fc grp always_included_child"

definition guide_rate_epsilon :: real where
  "guide_rate_epsilon = 1 / 10 ^ 12"

definition localFraction :: "nat \<Rightarrow> FractionCalculator \<Rightarrow> name \<Rightarrow> name \<Rightarrow> error + real" where
  "localFraction fuel fc n always_included_child =
     bindE (guideRate fuel fc n always_included_child) (\<lambda>my_guide_rate.
     bindE (fc_parent fc n) (\<lambda>p.
     bindE (getGroup (fc_schedule fc) p) (\<lambda>parent_group.
     bindE (guideRateSum fuel fc parent_group always_included_child) (\<lambda>total_guide_rate.
     Inr (if total_guide_rate > guide_rate_epsilon then my_guide_rate / total_guide_rate else 0)))))"

text \<open>
  The condition of \<^verbatim>\<open>assert(total_guide_rate >= my_guide_rate)\<close> in
  \<^verbatim>\<open>localFraction\<close>, on the values that \<open>localFraction\<close> computes.
\<close>

definition localFraction_assertion :: "nat \<Rightarrow> FractionCalculator \<Rightarrow> name \<Rightarrow> name \<Rightarrow> bool" where
  "localFraction_assertion fuel fc n always_included_child =
     (case bindE (guideRate fuel fc n always_included_child) (\<lambda>my_guide_rate.
           bindE (fc_parent fc n) (\<lambda>p.
           bindE (getGroup (fc_schedule fc) p) (\<lambda>parent_group.
           bindE (guideRateSum fuel fc parent_group always_included_child) (\<lambda>total_guide_rate.
           Inr (total_guide_rate \<ge> my_guide_rate))))) of
        Inl e \<Rightarrow> True
      | Inr b \<Rightarrow> b)"

text \<open>
  The \<^verbatim>\<open>while\<close> loop of \<^verbatim>\<open>fraction\<close>: \<open>k\<close> bounds its iterations, \<open>fuel\<close> the tree
  walks inside each one.
\<close>

fun fraction_loop ::
  "nat \<Rightarrow> nat \<Rightarrow> FractionCalculator \<Rightarrow> name \<Rightarrow> name \<Rightarrow> name \<Rightarrow> real \<Rightarrow> error + real" where
  "fraction_loop 0 fuel fc control_group_name included current fraction =
     (if current \<noteq> control_group_name then Inl OutOfFuel else Inr fraction)"
| "fraction_loop (Suc k) fuel fc control_group_name included current fraction =
     (if current \<noteq> control_group_name then
        bindE (localFraction fuel fc current included) (\<lambda>f.
        bindE (fc_parent fc current) (\<lambda>p.
        fraction_loop k fuel fc control_group_name included p (fraction * f)))
      else Inr fraction)"

definition fraction :: "nat \<Rightarrow> FractionCalculator \<Rightarrow> name \<Rightarrow> name \<Rightarrow> bool \<Rightarrow> error + real" where
  "fraction fuel fc n control_group_name always_include_this =
     fraction_loop fuel fuel fc control_group_name (if always_include_this then n else [])
       n 1"

section \<open>The chain of groups from the control group down to a well\<close>

fun groupChain_loop :: "nat \<Rightarrow> Schedule \<Rightarrow> name \<Rightarrow> name \<Rightarrow> name list \<Rightarrow> error + name list" where
  "groupChain_loop 0 schedule top_name par chain =
     (if par \<noteq> top_name then Inl OutOfFuel else Inr chain)"
| "groupChain_loop (Suc k) schedule top_name par chain =
     (if par \<noteq> top_name then
        bindE (getGroup schedule par) (\<lambda>g.
        groupChain_loop k schedule top_name (parent g) (chain @ [parent g]))
      else Inr chain)"

definition groupChainTopBot :: "nat \<Rightarrow> name \<Rightarrow> name \<Rightarrow> Schedule \<Rightarrow> error + name list" where
  "groupChainTopBot fuel bottom top_name schedule =
     bindE (if hasWell schedule bottom then bindE (getWell schedule bottom) (\<lambda>w. Inr (groupName w))
            else bindE (getGroup schedule bottom) (\<lambda>g. Inr (parent g))) (\<lambda>par.
     bindE (groupChain_loop fuel schedule top_name par [bottom, par]) (\<lambda>chain.
     Inr (rev chain)))"

section \<open>The constraint checkers\<close>

text \<open>
  \<^verbatim>\<open>TargetCalculator\<close> and \<^verbatim>\<open>InjectionTargetCalculator\<close> are declared in a header
  that is not part of the sources at hand. A checker therefore takes the constructor of
  its calculator as an argument; the calculator is the record of the three member
  functions the checker calls. The injection variant may throw from its constructor and
  from \<^verbatim>\<open>groupTarget\<close>.
\<close>

record TargetCalculator =
  calcModeRateFromRates :: "real list \<Rightarrow> real"
  groupTarget :: "ProductionControls \<Rightarrow> real"
  guideTargetMode :: GuideRateTarget

record InjectionTargetCalculator =
  inj_calcModeRateFromRates :: "real list \<Rightarrow> real"
  inj_groupTarget :: "InjectionControls \<Rightarrow> error + real"
  inj_guideTargetMode :: GuideRateTarget

type_synonym TargetCalculator_ctor =
  "ProductionCMode \<Rightarrow> PhaseUsage \<Rightarrow> real list \<Rightarrow> real \<Rightarrow> TargetCalculator"

type_synonym InjectionTargetCalculator_ctor =
  "InjectionCMode \<Rightarrow> PhaseUsage \<Rightarrow> real list \<Rightarrow> name \<Rightarrow> real \<Rightarrow> WellState \<Rightarrow> Phase
     \<Rightarrow> error + InjectionTargetCalculator"

text \<open>
  What a checker has found when it returns: no constraint applies, or the controlling
  group gave \<open>current_rate\<close> and \<open>target_rate\<close>. The pair the C++ function returns
  is \<open>outcome_pair\<close> of it.
\<close>

datatype CheckOutcome = Unconstrained | Constrained real real

fun outcome_pair :: "CheckOutcome \<Rightarrow> bool \<times> real" where
  "outcome_pair Unconstrained = (False, 1)"
| "outcome_pair (Constrained current_rate target_rate) =
     (current_rate > target_rate, target_rate / current_rate)"

text \<open>The first loop over the chain: the level at which the well's own rate is added back.\<close>

definition local_reduction_level :: "(name \<Rightarrow> bool) \<Rightarrow> name list \<Rightarrow> nat \<Rightarrow> nat" where
  "local_reduction_level has chain num_ancestors =
     fold (\<lambda>ii lvl. if ii = 0 \<or> has (chain ! ii) then ii else lvl) [0..<num_ancestors] 0"

text \<open>
  The body of the second loop over the chain. Both checkers have the same text here;
  they differ in the registry query \<open>has\<close>, in the stored reduction \<open>localReduction\<close>
  reads, and in the role passed to \<^verbatim>\<open>groupControlledWells\<close> and to the fraction
  calculator. Every index is below \<open>length chain\<close>, since \<open>ii < num_ancestors\<close>.
\<close>

definition target_step ::
  "(name \<Rightarrow> bool) \<Rightarrow> (name \<Rightarrow> error + real) \<Rightarrow> (name \<Rightarrow> error + int) \<Rightarrow> (name \<Rightarrow> error + real)
     \<Rightarrow> name list \<Rightarrow> nat \<Rightarrow> nat \<Rightarrow> real \<Rightarrow> real \<Rightarrow> nat \<Rightarrow> real \<Rightarrow> error + real" where
  "target_step has localReduction numGroupControlled localFrac chain num_ancestors
     lrl current_rate efficiencyFactorInclGroup ii target =
     bindE (if ii = 0 \<or> has (chain ! ii) then
              bindE (localReduction (chain ! ii)) (\<lambda>red.
                Inr (if lrl = ii then target - red + current_rate * efficiencyFactorInclGroup
                     else target - red))
            else Inr target) (\<lambda>target.
     bindE (if ii < num_ancestors - 1 then
              bindE (numGroupControlled (chain ! (ii + 1))) (\<lambda>num_gr_ctrl.
                if num_gr_ctrl = 0 then
                  (if has (chain ! (ii + 1)) then
                     bindE (localReduction (chain ! (ii + 1))) (\<lambda>red. Inr (target + red))
                   else Inr target)
                else Inr target)
            else Inr target) (\<lambda>target.
     bindE (localFrac (chain ! (ii + 1))) (\<lambda>f.
     Inr (target * f))))"

definition target_floor :: real where
  "target_floor = 1 / 10 ^ 12"

text \<open>
  \<^verbatim>\<open>checkGroupConstraintsProd\<close> from the construction of the target calculator on:
  the part that runs once the controlling group is reached.
\<close>

definition prodControllingGroup ::
  "nat \<Rightarrow> TargetCalculator_ctor \<Rightarrow> name \<Rightarrow> Group \<Rightarrow> WellState \<Rightarrow> GuideRate \<Rightarrow> real list
     \<Rightarrow> PhaseUsage \<Rightarrow> real \<Rightarrow> Schedule \<Rightarrow> real list \<Rightarrow> ProductionCMode \<Rightarrow> error + CheckOutcome" where
  "prodControllingGroup fuel ctor n grp wellState guide_rate rates pu efficiencyFactor schedule
     resv_coeff currentGroupControl =
     (let gratTargetFromSales =
            (case groupGratTargetFromSales wellState (gname grp) of Some v \<Rightarrow> v | None \<Rightarrow> 0);
          tcalc = ctor currentGroupControl pu resv_coeff gratTargetFromSales;
          fcalc = \<lparr>fc_schedule = schedule, fc_well_state = wellState, fc_guide_rate = guide_rate,
                   fc_target = guideTargetMode tcalc, fc_pu = pu, fc_is_producer = True,
                   fc_injection_phase = OIL\<rparr>;
          localReduction = (\<lambda>group_name.
            bindE (currentProductionGroupReductionRates wellState group_name) (\<lambda>red.
              Inr (calcModeRateFromRates tcalc red)));
          orig_target = groupTarget tcalc (productionControls grp);
          current_rate = - calcModeRateFromRates tcalc rates
      in bindE (groupChainTopBot fuel n (gname grp) schedule) (\<lambda>chain.
         let num_ancestors = length chain - 1;
             lrl = local_reduction_level (gr_has guide_rate) chain num_ancestors;
             efficiencyFactorInclGroup = efficiencyFactor * getGroupEfficiencyFactor grp
         in bindE (foldE (target_step (gr_has guide_rate) localReduction
                            (\<lambda>g. groupControlledWells fuel schedule wellState g [] True OIL)
                            (\<lambda>child. localFraction fuel fcalc child n)
                            chain num_ancestors lrl current_rate efficiencyFactorInclGroup)
                     [0..<num_ancestors] orig_target) (\<lambda>target.
            Inr (Constrained current_rate
                   (max target_floor (target / efficiencyFactorInclGroup))))))"

fun checkGroupConstraintsProd_outcome ::
  "nat \<Rightarrow> TargetCalculator_ctor \<Rightarrow> name \<Rightarrow> name \<Rightarrow> Group \<Rightarrow> WellState \<Rightarrow> GuideRate \<Rightarrow> real list
     \<Rightarrow> PhaseUsage \<Rightarrow> real \<Rightarrow> Schedule \<Rightarrow> real list \<Rightarrow> error + CheckOutcome" where
  "checkGroupConstraintsProd_outcome 0 ctor n par grp wellState guide_rate rates pu
     efficiencyFactor schedule resv_coeff = Inl OutOfFuel"
| "checkGroupConstraintsProd_outcome (Suc fuel) ctor n par grp wellState guide_rate rates pu
     efficiencyFactor schedule resv_coeff =
     bindE (currentProductionGroupControl wellState (gname grp)) (\<lambda>currentGroupControl.
     if currentGroupControl = Prod_FLD \<or> currentGroupControl = Prod_NONE then
       (if \<not> productionGroupControlAvailable grp then Inr Unconstrained
        else
          bindE (getGroup schedule (parent grp)) (\<lambda>parentGroup.
          checkGroupConstraintsProd_outcome fuel ctor n par parentGroup wellState guide_rate rates pu
            (efficiencyFactor * getGroupEfficiencyFactor grp) schedule resv_coeff))
     else if \<not> isProductionGroup grp then Inr Unconstrained
     else prodControllingGroup (Suc fuel) ctor n grp wellState guide_rate rates pu efficiencyFactor
            schedule resv_coeff currentGroupControl)"

definition checkGroupConstraintsProd ::
  "nat \<Rightarrow> TargetCalculator_ctor \<Rightarrow> name \<Rightarrow> name \<Rightarrow> Group \<Rightarrow> WellState \<Rightarrow> GuideRate \<Rightarrow> real list
     \<Rightarrow> PhaseUsage \<Rightarrow> real \<Rightarrow> Schedule \<Rightarrow> real list \<Rightarrow> error + bool \<times> real" where
  "checkGroupConstraintsProd fuel ctor n par grp wellState guide_rate rates pu efficiencyFactor
     schedule resv_coeff =
     bindE (checkGroupConstraintsProd_outcome fuel ctor n par grp wellState guide_rate rates pu
              efficiencyFactor schedule resv_coeff) (\<lambda>outcome. Inr (outcome_pair outcome))"

definition injControllingGroup ::
  "nat \<Rightarrow> InjectionTargetCalculator_ctor \<Rightarrow> name \<Rightarrow> Group \<Rightarrow> WellState \<Rightarrow> GuideRate \<Rightarrow> real list
     \<Rightarrow> Phase \<Rightarrow> PhaseUsage \<Rightarrow> real \<Rightarrow> Schedule \<Rightarrow> real list \<Rightarrow> InjectionCMode
     \<Rightarrow> error + CheckOutcome" where
  "injControllingGroup fuel ctor n grp wellState guide_rate rates injectionPhase pu efficiencyFactor
     schedule resv_coeff currentGroupControl =
     (let sales_target = (case gconsale schedule (gname grp) of Some v \<Rightarrow> v | None \<Rightarrow> 0)
      in bindE (ctor currentGroupControl pu resv_coeff (gname grp) sales_target wellState
                  injectionPhase) (\<lambda>tcalc.
         let fcalc = \<lparr>fc_schedule = schedule, fc_well_state = wellState, fc_guide_rate = guide_rate,
                      fc_target = inj_guideTargetMode tcalc, fc_pu = pu, fc_is_producer = False,
                      fc_injection_phase = injectionPhase\<rparr>;
             localReduction = (\<lambda>group_name.
               bindE (currentInjectionGroupReductionRates wellState group_name) (\<lambda>red.
                 Inr (inj_calcModeRateFromRates tcalc red)))
         in bindE (case injectionControls grp injectionPhase of
                     None \<Rightarrow> Inl (InvalidArgument (gname grp))
                   | Some ctrl \<Rightarrow> inj_groupTarget tcalc ctrl) (\<lambda>orig_target.
            let current_rate = inj_calcModeRateFromRates tcalc rates
            in bindE (groupChainTopBot fuel n (gname grp) schedule) (\<lambda>chain.
               let num_ancestors = length chain - 1;
                   lrl = local_reduction_level (\<lambda>g. gr_has_inj guide_rate g injectionPhase)
                           chain num_ancestors;
                   efficiencyFactorInclGroup = efficiencyFactor * getGroupEfficiencyFactor grp
               in bindE (foldE (target_step (\<lambda>g. gr_has_inj guide_rate g injectionPhase)
                                  localReduction
                                  (\<lambda>g. groupControlledWells fuel schedule wellState g [] False
                                          injectionPhase)
                                  (\<lambda>child. localFraction fuel fcalc child n)
                                  chain num_ancestors lrl current_rate efficiencyFactorInclGroup)
                           [0..<num_ancestors] orig_target) (\<lambda>target.
                  Inr (Constrained current_rate
                         (max target_floor (target / efficiencyFactorInclGroup))))))))"

fun checkGroupConstraintsInj_outcome ::
  "nat \<Rightarrow> InjectionTargetCalculator_ctor \<Rightarrow> name \<Rightarrow> name \<Rightarrow> Group \<Rightarrow> WellState \<Rightarrow> GuideRate
     \<Rightarrow> real list \<Rightarrow> Phase \<Rightarrow> PhaseUsage \<Rightarrow> real \<Rightarrow> Schedule \<Rightarrow> real list
     \<Rightarrow> error + CheckOutcome" where
  "checkGroupConstraintsInj_outcome 0 ctor n par grp wellState guide_rate rates injectionPhase pu
     efficiencyFactor schedule resv_coeff = Inl OutOfFuel"
| "checkGroupConstraintsInj_outcome (Suc fuel) ctor n par grp wellState guide_rate rates
     injectionPhase pu efficiencyFactor schedule resv_coeff =
     bindE (currentInjectionGroupControl wellState injectionPhase (gname grp)) (\<lambda>currentGroupControl.
     if currentGroupControl = Inj_FLD \<or> currentGroupControl = Inj_NONE then
       (if \<not> injectionGroupControlAvailable grp injectionPhase then Inr Unconstrained
        else
          bindE (getGroup schedule (parent grp)) (\<lambda>parentGroup.
          checkGroupConstraintsInj_outcome fuel ctor n par parentGroup wellState guide_rate rates
            injectionPhase pu (efficiencyFactor * getGroupEfficiencyFactor grp) schedule resv_coeff))
     else if \<not> isInjectionGroup grp then Inr Unconstrained
     else injControllingGroup (Suc fuel) ctor n grp wellState guide_rate rates injectionPhase pu
            efficiencyFactor schedule resv_coeff currentGroupControl)"

definition checkGroupConstraintsInj ::
  "nat \<Rightarrow> InjectionTargetCalculator_ctor \<Rightarrow> name \<Rightarrow> name \<Rightarrow> Group \<Rightarrow> WellState \<Rightarrow> GuideRate
     \<Rightarrow> real list \<Rightarrow> Phase \<Rightarrow> PhaseUsage \<Rightarrow> real \<Rightarrow> Schedule \<Rightarrow> real list
     \<Rightarrow> error + bool \<times> real" where
  "checkGroupConstraintsInj fuel ctor n par grp wellState guide_rate rates injectionPhase pu
     efficiencyFactor schedule resv_coeff =
     bindE (checkGroupConstraintsInj_outcome fuel ctor n par grp wellState guide_rate rates
              injectionPhase pu efficiencyFactor schedule resv_coeff)
       (\<lambda>outcome. Inr (outcome_pair outcome))"

section \<open>Seeding the group controls\<close>

text \<open>What \<^verbatim>\<open>setCmodeGroup\<close> does for the group itself, after its subgroups.\<close>

definition setCmodeGroup_local :: "Group \<Rightarrow> Schedule \<Rightarrow> GroupState \<Rightarrow> WellState \<Rightarrow> WellState" where
  "setCmodeGroup_local grp schedule group_state wellState =
     (let wellState =
           fold (\<lambda>phase ws.
                   if \<not> hasInjectionGroupControl ws phase (gname grp)
                   then setCurrentInjectionGroupControl phase (gname grp) Inj_NONE ws else ws)
             [WATER, OIL, GAS] wellState;
         wellState =
           (if \<not> has_production_control group_state (gname grp)
            then setCurrentProductionGroupControl (gname grp) Prod_NONE wellState else wellState);
         wellState =
           (if isInjectionGroup grp \<and> hasEvent schedule (gname grp) GROUP_INJECTION_UPDATE then
              fold (\<lambda>phase ws.
                      case injectionControls grp phase of
                        None \<Rightarrow> ws
                      | Some controls \<Rightarrow>
                          setCurrentInjectionGroupControl phase (gname grp) (inj_cmode controls) ws)
                [WATER, OIL, GAS] wellState
            else wellState);
         wellState =
           (if isProductionGroup grp \<and> hasEvent schedule (gname grp) GROUP_PRODUCTION_UPDATE then
              setCurrentProductionGroupControl (gname grp) (prod_cmode (productionControls grp))
                wellState
            else wellState);
         wellState =
           (if gconsale schedule (gname grp) \<noteq> None
            then setCurrentInjectionGroupControl GAS (gname grp) Inj_SALE wellState else wellState)
     in wellState)"

fun setCmodeGroup ::
  "nat \<Rightarrow> Group \<Rightarrow> Schedule \<Rightarrow> WellState \<Rightarrow> GroupState \<Rightarrow> error + WellState" where
  "setCmodeGroup 0 grp schedule wellState group_state = Inl OutOfFuel"
| "setCmodeGroup (Suc fuel) grp schedule wellState group_state =
     bindE (foldE (\<lambda>groupName ws.
              bindE (getGroup schedule groupName) (\<lambda>g.
              setCmodeGroup fuel g schedule ws group_state))
            (groups grp) wellState) (\<lambda>wellState.
     Inr (setCmodeGroup_local grp schedule group_state wellState))"

section \<open>Guide rates of injection groups\<close>

text \<open>
  The \<^verbatim>\<open>switch\<close> on \<^verbatim>\<open>controls.guide_rate_def\<close>: the value handed to
  \<^verbatim>\<open>guideRate->compute\<close>, or the exception thrown in its place.
\<close>

definition resvNotImplemented :: "name \<Rightarrow> string" where
  "resvNotImplemented group_name = ''GUIDE PHASE RESV not implemented. Group '' @ group_name"

definition guideRateValue ::
  "Group \<Rightarrow> PhaseUsage \<Rightarrow> WellState \<Rightarrow> Phase \<Rightarrow> InjectionControls \<Rightarrow> error + real" where
  "guideRateValue grp pu wellState phase controls =
     (case guide_rate_def controls of
        GRI_RATE \<Rightarrow> Inr 0
      | GRI_VOID \<Rightarrow> currentInjectionVREPRates wellState (gname grp)
      | GRI_NETV \<Rightarrow>
          bindE (currentInjectionVREPRates wellState (gname grp)) (\<lambda>v.
          bindE (currentInjectionGroupReservoirRates wellState (gname grp)) (\<lambda>injRES.
          bindE (if phase \<noteq> OIL \<and> phase_used pu Liquid
                 then bindE (at_vec injRES (phase_pos pu Liquid)) (\<lambda>r. Inr (v - r))
                 else Inr v) (\<lambda>v.
          bindE (if phase \<noteq> GAS \<and> phase_used pu Vapour
                 then bindE (at_vec injRES (phase_pos pu Vapour)) (\<lambda>r. Inr (v - r))
                 else Inr v) (\<lambda>v.
          if phase \<noteq> WATER \<and> phase_used pu Aqua
          then bindE (at_vec injRES (phase_pos pu Aqua)) (\<lambda>r. Inr (v - r))
          else Inr v))))
      | GRI_RESV \<Rightarrow> Inl (RuntimeError (resvNotImplemented (gname grp)))
      | GRI_POTN \<Rightarrow> Inr 0
      | GRI_NO_GUIDE_RATE \<Rightarrow> Inr 0
      | GRI_other \<Rightarrow>
          Inl (LogicError ''Invalid GuideRateInjTarget in updateGuideRatesForInjectionGroups''))"

text \<open>
  \<^verbatim>\<open>GuideRate::compute\<close> belongs to the schedule library; it is the argument
  \<open>compute\<close>, a function of the group, the phase, the value and the registry.
\<close>

definition updateGuideRates_phase ::
  "(name \<Rightarrow> Phase \<Rightarrow> real \<Rightarrow> 'g \<Rightarrow> 'g) \<Rightarrow> Group \<Rightarrow> PhaseUsage \<Rightarrow> WellState \<Rightarrow> Phase \<Rightarrow> 'g
     \<Rightarrow> error + 'g" where
  "updateGuideRates_phase compute grp pu wellState phase guide_rate =
     (case injectionControls grp phase of
        None \<Rightarrow> Inr guide_rate
      | Some controls \<Rightarrow>
          bindE (guideRateValue grp pu wellState phase controls) (\<lambda>guideRateValue.
          Inr (compute (gname grp) phase guideRateValue guide_rate)))"

fun updateGuideRatesForInjectionGroups ::
  "nat \<Rightarrow> (name \<Rightarrow> Phase \<Rightarrow> real \<Rightarrow> 'g \<Rightarrow> 'g) \<Rightarrow> Group \<Rightarrow> Schedule \<Rightarrow> PhaseUsage \<Rightarrow> WellState \<Rightarrow> 'g
     \<Rightarrow> error + 'g" where
  "updateGuideRatesForInjectionGroups 0 compute grp schedule pu wellState guide_rate = Inl OutOfFuel"
| "updateGuideRatesForInjectionGroups (Suc fuel) compute grp schedule pu wellState guide_rate =
     bindE (foldE (\<lambda>groupName gr.
              bindE (getGroup schedule groupName) (\<lambda>groupTmp.
              updateGuideRatesForInjectionGroups fuel compute groupTmp schedule pu wellState gr))
            (groups grp) guide_rate) (\<lambda>guide_rate.
     foldE (updateGuideRates_phase compute grp pu wellState) [WATER, OIL, GAS] guide_rate)"

section \<open>Refreshing the derived aggregates\<close>

fun mapE :: "('a \<Rightarrow> error + 'b) \<Rightarrow> 'a list \<Rightarrow> error + 'b list" where
  "mapE f [] = Inr []"
| "mapE f (x # xs) = bindE (f x) (\<lambda>y. bindE (mapE f xs) (\<lambda>ys. Inr (y # ys)))"

text \<open>\<^verbatim>\<open>v[i] += x\<close> on a vector.\<close>

definition add_at :: "real list \<Rightarrow> nat \<Rightarrow> real \<Rightarrow> error + real list" where
  "add_at v i x = (if i < length v then Inr (v[i := v ! i + x]) else Inl OutOfRange)"

definition setCurrentInjectionGroupReductionRates :: "name \<Rightarrow> real list \<Rightarrow> WellState \<Rightarrow> WellState" where
  "setCurrentInjectionGroupReductionRates n v ws =
     ws\<lparr>injectionGroupReductionRates := (injectionGroupReductionRates ws)(n \<mapsto> v)\<rparr>"

definition setCurrentProductionGroupReductionRates :: "name \<Rightarrow> real list \<Rightarrow> WellState \<Rightarrow> WellState" where
  "setCurrentProductionGroupReductionRates n v ws =
     ws\<lparr>productionGroupReductionRates := (productionGroupReductionRates ws)(n \<mapsto> v)\<rparr>"

definition setCurrentInjectionVREPRates :: "name \<Rightarrow> real \<Rightarrow> WellState \<Rightarrow> WellState" where
  "setCurrentInjectionVREPRates n v ws =
     ws\<lparr>injectionVREPRates := (injectionVREPRates ws)(n \<mapsto> v)\<rparr>"

definition setCurrentInjectionGroupReservoirRates :: "name \<Rightarrow> real list \<Rightarrow> WellState \<Rightarrow> WellState" where
  "setCurrentInjectionGroupReservoirRates n v ws =
     ws\<lparr>injectionGroupReservoirRates := (injectionGroupReservoirRates ws)(n \<mapsto> v)\<rparr>"

definition setCurrentWellRates :: "name \<Rightarrow> real list \<Rightarrow> WellState \<Rightarrow> WellState" where
  "setCurrentWellRates n v ws = ws\<lparr>wellRatesByName := (wellRatesByName ws)(n \<mapsto> v)\<rparr>"

definition setCurrentProductionGroupRates :: "name \<Rightarrow> real list \<Rightarrow> WellState \<Rightarrow> WellState" where
  "setCurrentProductionGroupRates n v ws =
     ws\<lparr>productionGroupRates := (productionGroupRates ws)(n \<mapsto> v)\<rparr>"

definition setCurrentInjectionREINRates :: "name \<Rightarrow> real list \<Rightarrow> WellState \<Rightarrow> WellState" where
  "setCurrentInjectionREINRates n v ws =
     ws\<lparr>injectionREINRates := (injectionREINRates ws)(n \<mapsto> v)\<rparr>"

text \<open>
  \<^verbatim>\<open>updateGroupTargetReduction\<close>, in three parts: what one subgroup adds to the
  reduction of its parent once its own reduction is known, what one well adds, and the
  recursion. The in-out vector \<^verbatim>\<open>groupTargetReduction\<close> is an argument and a result.
\<close>

definition reduction_phasePos :: "PhaseUsage \<Rightarrow> Phase \<Rightarrow> nat option" where
  "reduction_phasePos pu phase =
     (if phase = GAS \<and> phase_used pu Vapour then Some (phase_pos pu Vapour)
      else if phase = OIL \<and> phase_used pu Liquid then Some (phase_pos pu Liquid)
      else if phase = WATER \<and> phase_used pu Aqua then Some (phase_pos pu Aqua)
      else None)"

definition reduction_subGroup ::
  "nat \<Rightarrow> Schedule \<Rightarrow> bool \<Rightarrow> PhaseUsage \<Rightarrow> GuideRate \<Rightarrow> WellState \<Rightarrow> WellState \<Rightarrow> nat
     \<Rightarrow> name \<Rightarrow> Group \<Rightarrow> real list \<Rightarrow> real list \<Rightarrow> error + real list" where
  "reduction_subGroup fuel schedule is_injector pu guide_rate wellStateNupcol wellState np
     subGroupName subGroup subGroupTargetReduction groupTargetReduction =
     (if is_injector then
        foldE (\<lambda>phase red.
                 bindE (currentInjectionGroupControl wellState phase subGroupName) (\<lambda>currentGroupControl.
                 case reduction_phasePos pu phase of
                   None \<Rightarrow> Inr red
                 | Some phasePos \<Rightarrow>
                     if currentGroupControl \<noteq> Inj_FLD \<and> currentGroupControl \<noteq> Inj_NONE then
                       bindE (sumWellRates fuel subGroup schedule wellStateNupcol phasePos is_injector)
                         (\<lambda>v. add_at red phasePos v)
                     else
                       bindE (at_vec subGroupTargetReduction phasePos) (\<lambda>v. add_at red phasePos v)))
          [WATER, OIL, GAS] groupTargetReduction
      else
        bindE (currentProductionGroupControl wellState subGroupName) (\<lambda>currentGroupControl.
        let individual_control =
              (currentGroupControl \<noteq> Prod_FLD \<and> currentGroupControl \<noteq> Prod_NONE)
        in bindE (groupControlledWells fuel schedule wellStateNupcol subGroupName []
                    (\<not> is_injector) OIL) (\<lambda>num_group_controlled_wells.
           if individual_control \<or> num_group_controlled_wells = 0 then
             foldE (\<lambda>phase red.
                      bindE (sumWellRates fuel subGroup schedule wellStateNupcol phase is_injector)
                        (\<lambda>v. add_at red phase v))
               [0..<np] groupTargetReduction
           else if \<not> gr_has guide_rate subGroupName then
             foldE (\<lambda>phase red.
                      bindE (at_vec subGroupTargetReduction phase) (\<lambda>v. add_at red phase v))
               [0..<np] groupTargetReduction
           else Inr groupTargetReduction)))"

definition reduction_well ::
  "Schedule \<Rightarrow> bool \<Rightarrow> WellState \<Rightarrow> WellState \<Rightarrow> nat \<Rightarrow> name \<Rightarrow> real list \<Rightarrow> error + real list" where
  "reduction_well schedule is_injector wellStateNupcol wellState np wellName groupTargetReduction =
     bindE (getWell schedule wellName) (\<lambda>wellTmp.
     if isProducer wellTmp \<and> is_injector then Inr groupTargetReduction
     else if isInjector wellTmp \<and> \<not> is_injector then Inr groupTargetReduction
     else if getStatus wellTmp = SHUT then Inr groupTargetReduction
     else
       (case wellMap wellState wellName of
          None \<Rightarrow> Inr groupTargetReduction
        | Some well_index \<Rightarrow>
            if \<not> wellIsOwned wellState well_index wellName then Inr groupTargetReduction
            else
              let wellrate_index = well_index * numPhases wellState;
                  efficiency = getEfficiencyFactor wellTmp
              in if is_injector then
                   bindE (at_vec (currentInjectionControls wellState) well_index) (\<lambda>c.
                   if c \<noteq> GRUP then
                     foldE (\<lambda>phase red.
                              bindE (at_vec (wellRates wellStateNupcol) (wellrate_index + phase))
                                (\<lambda>r. add_at red phase (r * efficiency)))
                       [0..<np] groupTargetReduction
                   else Inr groupTargetReduction)
                 else
                   bindE (at_vec (currentProductionControls wellState) well_index) (\<lambda>c.
                   if c \<noteq> GRUP then
                     foldE (\<lambda>phase red.
                              bindE (at_vec (wellRates wellStateNupcol) (wellrate_index + phase))
                                (\<lambda>r. add_at red phase (- (r * efficiency))))
                       [0..<np] groupTargetReduction
                   else Inr groupTargetReduction)))"

fun updateGroupTargetReduction ::
  "nat \<Rightarrow> Group \<Rightarrow> Schedule \<Rightarrow> bool \<Rightarrow> PhaseUsage \<Rightarrow> GuideRate \<Rightarrow> WellState \<Rightarrow> WellState
     \<Rightarrow> real list \<Rightarrow> error + WellState \<times> real list" where
  "updateGroupTargetReduction 0 grp schedule is_injector pu guide_rate wellStateNupcol wellState
     groupTargetReduction = Inl OutOfFuel"
| "updateGroupTargetReduction (Suc fuel) grp schedule is_injector pu guide_rate wellStateNupcol
     wellState groupTargetReduction =
     (let np = numPhases wellState
      in bindE (foldE (\<lambda>subGroupName (ws, red).
                  bindE (getGroup schedule subGroupName) (\<lambda>subGroup.
                  bindE (updateGroupTargetReduction fuel subGroup schedule is_injector pu guide_rate
                           wellStateNupcol ws (replicate np 0)) (\<lambda>(ws, subGroupTargetReduction).
                  bindE (reduction_subGroup fuel schedule is_injector pu guide_rate wellStateNupcol
                           ws np subGroupName subGroup subGroupTargetReduction red) (\<lambda>red.
                  Inr (ws, red)))))
                (groups grp) (wellState, groupTargetReduction)) (\<lambda>(wellState, groupTargetReduction).
         bindE (foldE (reduction_well schedule is_injector wellStateNupcol wellState np)
                  (wells grp) groupTargetReduction) (\<lambda>groupTargetReduction.
         let groupEfficiency = getGroupEfficiencyFactor grp;
             groupTargetReduction = map (\<lambda>elem. elem * groupEfficiency) groupTargetReduction
         in if is_injector then
              Inr (setCurrentInjectionGroupReductionRates (gname grp) groupTargetReduction wellState,
                   groupTargetReduction)
            else
              Inr (setCurrentProductionGroupReductionRates (gname grp) groupTargetReduction wellState,
                   groupTargetReduction))))"

fun updateVREPForGroups ::
  "nat \<Rightarrow> Group \<Rightarrow> Schedule \<Rightarrow> WellState \<Rightarrow> WellState \<Rightarrow> error + WellState" where
  "updateVREPForGroups 0 grp schedule wellStateNupcol wellState = Inl OutOfFuel"
| "updateVREPForGroups (Suc fuel) grp schedule wellStateNupcol wellState =
     bindE (foldE (\<lambda>groupName ws.
              bindE (getGroup schedule groupName) (\<lambda>groupTmp.
              updateVREPForGroups fuel groupTmp schedule wellStateNupcol ws))
            (groups grp) wellState) (\<lambda>wellState.
     let np = numPhases wellState
     in bindE (foldE (\<lambda>phase resv.
                 bindE (sumWellPhaseRates (Suc fuel) (wellReservoirRates wellStateNupcol) grp schedule
                          wellState phase False) (\<lambda>v. Inr (resv + v)))
               [0..<np] 0) (\<lambda>resv.
        Inr (setCurrentInjectionVREPRates (gname grp) resv wellState)))"

fun updateReservoirRatesInjectionGroups ::
  "nat \<Rightarrow> Group \<Rightarrow> Schedule \<Rightarrow> WellState \<Rightarrow> WellState \<Rightarrow> error + WellState" where
  "updateReservoirRatesInjectionGroups 0 grp schedule wellStateNupcol wellState = Inl OutOfFuel"
| "updateReservoirRatesInjectionGroups (Suc fuel) grp schedule wellStateNupcol wellState =
     bindE (foldE (\<lambda>groupName ws.
              bindE (getGroup schedule groupName) (\<lambda>groupTmp.
              updateReservoirRatesInjectionGroups fuel groupTmp schedule wellStateNupcol ws))
            (groups grp) wellState) (\<lambda>wellState.
     let np = numPhases wellState
     in bindE (mapE (\<lambda>phase.
                 sumWellPhaseRates (Suc fuel) (wellReservoirRates wellStateNupcol) grp schedule
                   wellState phase True)
               [0..<np]) (\<lambda>resv.
        Inr (setCurrentInjectionGroupReservoirRates (gname grp) resv wellState)))"

definition updateWellRates_well ::
  "Schedule \<Rightarrow> WellState \<Rightarrow> nat \<Rightarrow> name \<Rightarrow> WellState \<Rightarrow> error + WellState" where
  "updateWellRates_well schedule wellStateNupcol np wellName wellState =
     bindE (case wellMap wellState wellName of
              None \<Rightarrow> Inr (replicate np 0)
            | Some well_index \<Rightarrow>
                bindE (getWell schedule wellName) (\<lambda>wellTmp.
                let sgn = (if \<not> isInjector wellTmp then - 1 else 1)
                in mapE (\<lambda>phase.
                     bindE (at_vec (wellRates wellStateNupcol) (well_index * np + phase))
                       (\<lambda>r. Inr (sgn * r)))
                   [0..<np])) (\<lambda>rates.
     Inr (setCurrentWellRates wellName rates wellState))"

fun updateWellRates ::
  "nat \<Rightarrow> Group \<Rightarrow> Schedule \<Rightarrow> WellState \<Rightarrow> WellState \<Rightarrow> error + WellState" where
  "updateWellRates 0 grp schedule wellStateNupcol wellState = Inl OutOfFuel"
| "updateWellRates (Suc fuel) grp schedule wellStateNupcol wellState =
     bindE (foldE (\<lambda>groupName ws.
              bindE (getGroup schedule groupName) (\<lambda>groupTmp.
              updateWellRates fuel groupTmp schedule wellStateNupcol ws))
            (groups grp) wellState) (\<lambda>wellState.
     let np = numPhases wellState
     in foldE (updateWellRates_well schedule wellStateNupcol np) (wells grp) wellState)"

fun updateGroupProductionRates ::
  "nat \<Rightarrow> Group \<Rightarrow> Schedule \<Rightarrow> WellState \<Rightarrow> WellState \<Rightarrow> error + WellState" where
  "updateGroupProductionRates 0 grp schedule wellStateNupcol wellState = Inl OutOfFuel"
| "updateGroupProductionRates (Suc fuel) grp schedule wellStateNupcol wellState =
     bindE (foldE (\<lambda>groupName ws.
              bindE (getGroup schedule groupName) (\<lambda>groupTmp.
              updateGroupProductionRates fuel groupTmp schedule wellStateNupcol ws))
            (groups grp) wellState) (\<lambda>wellState.
     let np = numPhases wellState
     in bindE (mapE (\<lambda>phase.
                 sumWellPhaseRates (Suc fuel) (wellRates wellStateNupcol) grp schedule wellState
                   phase False)
               [0..<np]) (\<lambda>rates.
        Inr (setCurrentProductionGroupRates (gname grp) rates wellState)))"

fun updateREINForGroups ::
  "nat \<Rightarrow> Group \<Rightarrow> Schedule \<Rightarrow> PhaseUsage \<Rightarrow> WellState \<Rightarrow> WellState \<Rightarrow> error + WellState" where
  "updateREINForGroups 0 grp schedule pu wellStateNupcol wellState = Inl OutOfFuel"
| "updateREINForGroups (Suc fuel) grp schedule pu wellStateNupcol wellState =
     (let np = numPhases wellState
      in bindE (foldE (\<lambda>groupName ws.
                  bindE (getGroup schedule groupName) (\<lambda>groupTmp.
                  updateREINForGroups fuel groupTmp schedule pu wellStateNupcol ws))
                (groups grp) wellState) (\<lambda>wellState.
         bindE (mapE (\<lambda>phase.
                  sumWellPhaseRates (Suc fuel) (wellRates wellStateNupcol) grp schedule wellState
                    phase False)
                [0..<np]) (\<lambda>rein.
         bindE (case gconsump schedule (gname grp) of
                  None \<Rightarrow> Inr rein
                | Some gc \<Rightarrow>
                    if phase_used pu Vapour then
                      bindE (add_at rein (phase_pos pu Vapour) (import_rate gc)) (\<lambda>rein.
                      add_at rein (phase_pos pu Vapour) (- consumption_rate gc))
                    else Inr rein) (\<lambda>rein.
         Inr (setCurrentInjectionREINRates (gname grp) rein wellState)))))"

section \<open>Network pressures\<close>

record Branch =
  downtree_node :: name
  uptree_node :: name
  vfp_table :: "int option"

record NetworkNode =
  terminal_pressure :: "real option"
  add_gas_lift_gas :: bool

record ExtNetwork =
  net_active :: bool
  net_root :: name
  downtree_branches :: "name \<Rightarrow> Branch list"
  uptree_branch :: "name \<Rightarrow> Branch option"
  net_node :: "name \<rightharpoonup> NetworkNode"

text \<open>
  The first loop: \<open>children\<close> is the stack, its head the top; \<open>leaf_nodes\<close> collects
  the leaves in the order found, and \<open>root_to_child_nodes\<close> every node popped.
\<close>

fun network_discover ::
  "nat \<Rightarrow> ExtNetwork \<Rightarrow> name list \<Rightarrow> name list \<Rightarrow> name list \<Rightarrow> error + name list \<times> name list" where
  "network_discover fuel network [] leaf_nodes root_to_child_nodes =
     Inr (leaf_nodes, root_to_child_nodes)"
| "network_discover 0 network (nd # children) leaf_nodes root_to_child_nodes = Inl OutOfFuel"
| "network_discover (Suc fuel) network (nd # children) leaf_nodes root_to_child_nodes =
     (let branches = downtree_branches network nd
      in network_discover fuel network (rev (map downtree_node branches) @ children)
           (if branches = [] then leaf_nodes @ [nd] else leaf_nodes)
           (root_to_child_nodes @ [nd]))"

text \<open>
  \<^verbatim>\<open>node_inflows\<close> is a \<^verbatim>\<open>std::map\<close> read with \<^verbatim>\<open>operator[]\<close>, which gives an
  absent key the empty vector: a total function. The set of leaves is walked in the
  order of \<^verbatim>\<open>std::set\<close>, by name.
\<close>

definition network_leaf ::
  "ExtNetwork \<Rightarrow> WellState \<Rightarrow> Schedule \<Rightarrow> name \<Rightarrow> (name \<Rightarrow> real list) \<Rightarrow> error + (name \<Rightarrow> real list)" where
  "network_leaf network well_state schedule nd node_inflows =
     bindE (currentProductionGroupRates well_state nd) (\<lambda>rates.
     let node_inflows = node_inflows(nd := rates)
     in case net_node network nd of
          None \<Rightarrow> Inl (InvalidArgument nd)
        | Some nn \<Rightarrow>
            if add_gas_lift_gas nn then
              bindE (getGroup schedule nd) (\<lambda>grp.
              foldE (\<lambda>wellname inflows.
                       bindE (add_at (inflows nd) (phaseIdx Vapour) (getALQ well_state wellname))
                         (\<lambda>v. Inr (inflows(nd := v))))
                (wells grp) node_inflows)
            else Inr node_inflows)"

definition network_accumulate ::
  "ExtNetwork \<Rightarrow> name \<Rightarrow> (name \<Rightarrow> real list) \<Rightarrow> error + (name \<Rightarrow> real list)" where
  "network_accumulate network nd node_inflows =
     (case uptree_branch network nd of
        None \<Rightarrow> Inr node_inflows
      | Some upbranch \<Rightarrow>
          let up = node_inflows (uptree_node upbranch);
              down = node_inflows nd
          in if up = [] then Inr (node_inflows(uptree_node upbranch := down))
             else
               bindE (mapE (\<lambda>ii. bindE (at_vec down ii) (\<lambda>d. Inr (up ! ii + d))) [0..<length up])
                 (\<lambda>up. Inr (node_inflows(uptree_node upbranch := up))))"

text \<open>
  The last loop. \<^verbatim>\<open>node_pressures\<close> is read with \<^verbatim>\<open>operator[]\<close> too: a parent
  without an entry gets the pressure 0, and keeps it in the map that is returned.
  \<open>bhp\<close> is the lookup in the VFP tables, an argument. A node with neither a terminal
  pressure nor an uptree branch is the error \<open>LogicError\<close>.
\<close>

definition network_pressure ::
  "(int \<Rightarrow> real \<Rightarrow> real \<Rightarrow> real \<Rightarrow> real \<Rightarrow> real \<Rightarrow> real) \<Rightarrow> ExtNetwork \<Rightarrow> (name \<Rightarrow> real list)
     \<Rightarrow> name \<Rightarrow> (name \<rightharpoonup> real) \<Rightarrow> error + (name \<rightharpoonup> real)" where
  "network_pressure bhp network node_inflows nd node_pressures =
     (case net_node network nd of
        None \<Rightarrow> Inl (InvalidArgument nd)
      | Some nn \<Rightarrow>
          (case terminal_pressure nn of
             Some press \<Rightarrow> Inr (node_pressures(nd \<mapsto> press))
           | None \<Rightarrow>
               (case uptree_branch network nd of
                  None \<Rightarrow> Inl (LogicError ''upbranch'')
                | Some upbranch \<Rightarrow>
                    let up_press =
                          (case node_pressures (uptree_node upbranch) of None \<Rightarrow> 0 | Some p \<Rightarrow> p);
                        node_pressures = node_pressures(uptree_node upbranch \<mapsto> up_press)
                    in (case vfp_table upbranch of
                          Some table \<Rightarrow>
                            let rates = map (\<lambda>r. r * (- 1)) (node_inflows nd);
                                alq = 0
                            in bindE (at_vec rates (phaseIdx Aqua)) (\<lambda>aqua.
                               bindE (at_vec rates (phaseIdx Liquid)) (\<lambda>liquid.
                               bindE (at_vec rates (phaseIdx Vapour)) (\<lambda>vapour.
                               Inr (node_pressures(nd \<mapsto> bhp table aqua liquid vapour up_press alq)))))
                        | None \<Rightarrow> Inr (node_pressures(nd \<mapsto> up_press))))))"

definition computeNetworkPressures ::
  "nat \<Rightarrow> (int \<Rightarrow> real \<Rightarrow> real \<Rightarrow> real \<Rightarrow> real \<Rightarrow> real \<Rightarrow> real) \<Rightarrow> ExtNetwork \<Rightarrow> WellState
     \<Rightarrow> Schedule \<Rightarrow> error + (name \<rightharpoonup> real)" where
  "computeNetworkPressures fuel bhp network well_state schedule =
     (if \<not> net_active network then Inr Map.empty
      else
        bindE (network_discover fuel network [net_root network] [] []) (\<lambda>(leaf_nodes, root_to_child_nodes).
        bindE (foldE (network_leaf network well_state schedule) (sort (remdups leaf_nodes))
                 (\<lambda>nd. [])) (\<lambda>node_inflows.
        bindE (foldE (network_accumulate network) (rev root_to_child_nodes) node_inflows)
          (\<lambda>node_inflows.
        foldE (network_pressure bhp network node_inflows) root_to_child_nodes Map.empty))))"

section \<open>Notions used to state the properties\<close>

subsection \<open>Chains of transparent groups\<close>

text \<open>
  \<open>fldChainProd schedule wellState grp ancestors\<close>: \<open>grp\<close> and each of
  \<open>ancestors\<close>, which are its parent, grandparent and so on, are under \<^verbatim>\<open>FLD\<close> or
  \<^verbatim>\<open>NONE\<close> production control; group control is available for all of them but the
  last, for which it is not. \<open>fldChainInj\<close> is the same for injection of one phase.
\<close>

fun fldChainProd :: "Schedule \<Rightarrow> WellState \<Rightarrow> Group \<Rightarrow> Group list \<Rightarrow> bool" where
  "fldChainProd schedule wellState grp [] =
     ((productionGroupControl wellState (gname grp) = Some Prod_FLD
       \<or> productionGroupControl wellState (gname grp) = Some Prod_NONE)
      \<and> \<not> productionGroupControlAvailable grp)"
| "fldChainProd schedule wellState grp (p # ps) =
     ((productionGroupControl wellState (gname grp) = Some Prod_FLD
       \<or> productionGroupControl wellState (gname grp) = Some Prod_NONE)
      \<and> productionGroupControlAvailable grp
      \<and> sched_groups schedule (parent grp) = Some p
      \<and> fldChainProd schedule wellState p ps)"

fun fldChainInj :: "Schedule \<Rightarrow> WellState \<Rightarrow> Phase \<Rightarrow> Group \<Rightarrow> Group list \<Rightarrow> bool" where
  "fldChainInj schedule wellState phase grp [] =
     ((injectionGroupControl wellState (phase, gname grp) = Some Inj_FLD
       \<or> injectionGroupControl wellState (phase, gname grp) = Some Inj_NONE)
      \<and> \<not> injectionGroupControlAvailable grp phase)"
| "fldChainInj schedule wellState phase grp (p # ps) =
     ((injectionGroupControl wellState (phase, gname grp) = Some Inj_FLD
       \<or> injectionGroupControl wellState (phase, gname grp) = Some Inj_NONE)
      \<and> injectionGroupControlAvailable grp phase
      \<and> sched_groups schedule (parent grp) = Some p
      \<and> fldChainInj schedule wellState phase p ps)"

subsection \<open>The tree \<open>FIELD\<close>, \<open>G1\<close>, \<open>W1\<close> and \<open>W2\<close>\<close>

text \<open>
  The scenario of the specification: the group \<open>G1\<close> below \<open>FIELD\<close> holds the
  producers \<open>W1\<close> and \<open>W2\<close>, all efficiency factors are 1, \<open>G1\<close> is under the
  production control \<open>mode\<close> with every target 100, the wells are under group control
  with guide rates 3 and 1, and the reduction stored for \<open>G1\<close> is zero. \<open>rates1\<close> and
  \<open>rates2\<close> are the current rates of the two wells, positive for production.
\<close>

definition scn_pu :: PhaseUsage where
  "scn_pu = \<lparr>num_phases = 3, phase_used = (\<lambda>p. True), phase_pos = phaseIdx\<rparr>"

definition scn_FIELD :: Group where
  "scn_FIELD = \<lparr>gname = ''FIELD'', parent = [], groups = [''G1''], wells = [],
     getGroupEfficiencyFactor = 1, isProductionGroup = True, isInjectionGroup = False,
     productionGroupControlAvailable = False, injectionGroupControlAvailable = (\<lambda>p. False),
     productionControls = \<lparr>prod_cmode = Prod_NONE, oil_target = 0, water_target = 0,
       gas_target = 0, liquid_target = 0, resv_target = 0\<rparr>,
     injectionControls = Map.empty\<rparr>"

definition scn_G1 :: "ProductionCMode \<Rightarrow> Group" where
  "scn_G1 mode = \<lparr>gname = ''G1'', parent = ''FIELD'', groups = [], wells = [''W1'', ''W2''],
     getGroupEfficiencyFactor = 1, isProductionGroup = True, isInjectionGroup = False,
     productionGroupControlAvailable = True, injectionGroupControlAvailable = (\<lambda>p. False),
     productionControls = \<lparr>prod_cmode = mode, oil_target = 100, water_target = 100,
       gas_target = 100, liquid_target = 100, resv_target = 100\<rparr>,
     injectionControls = Map.empty\<rparr>"

definition scn_well :: "name \<Rightarrow> Well" where
  "scn_well n = \<lparr>wname = n, isProducer = True, getStatus = OPEN, getEfficiencyFactor = 1,
     groupName = ''G1''\<rparr>"

definition scn_schedule :: "ProductionCMode \<Rightarrow> Schedule" where
  "scn_schedule mode = \<lparr>sched_groups = [''FIELD'' \<mapsto> scn_FIELD, ''G1'' \<mapsto> scn_G1 mode],
     sched_wells = [''W1'' \<mapsto> scn_well ''W1'', ''W2'' \<mapsto> scn_well ''W2''],
     hasEvent = (\<lambda>n e. False), gconsale = Map.empty, gconsump = Map.empty\<rparr>"

definition scn_wellState :: "ProductionCMode \<Rightarrow> real list \<Rightarrow> real list \<Rightarrow> WellState" where
  "scn_wellState mode rates1 rates2 = \<lparr>numPhases = 3, wellMap = [''W1'' \<mapsto> 0, ''W2'' \<mapsto> 1],
     wellIsOwned = (\<lambda>i n. True), wellRates = map uminus (rates1 @ rates2),
     wellReservoirRates = map uminus (rates1 @ rates2),
     currentInjectionControls = [OtherCMode, OtherCMode],
     currentProductionControls = [GRUP, GRUP],
     isProductionGrup = (\<lambda>n. True), isInjectionGrup = (\<lambda>n. False),
     injectionGroupControl = Map.empty,
     productionGroupControl = [''FIELD'' \<mapsto> Prod_NONE, ''G1'' \<mapsto> mode],
     productionGroupReductionRates = [''FIELD'' \<mapsto> [0, 0, 0], ''G1'' \<mapsto> [0, 0, 0]],
     injectionGroupReductionRates = Map.empty, injectionREINRates = Map.empty,
     injectionVREPRates = Map.empty, injectionGroupReservoirRates = Map.empty,
     wellRatesByName = [''W1'' \<mapsto> rates1, ''W2'' \<mapsto> rates2],
     productionGroupRates = Map.empty, groupGratTargetFromSales = Map.empty,
     getALQ = (\<lambda>n. 0)\<rparr>"

definition scn_guideRate :: GuideRate where
  "scn_guideRate = \<lparr>gr_has = (\<lambda>n. False), gr_has_inj = (\<lambda>n p. False),
     gr_get = (\<lambda>n t rv. if n = ''W1'' then 3 else if n = ''W2'' then 1 else 0),
     gr_get_inj = (\<lambda>n p. 0)\<rparr>"

text \<open>
  Modelled from the spec: \<^verbatim>\<open>TargetCalculator\<close> for the oil-rate mode, which is
  missing from the sources. By section 4.2 a rate mode picks one phase of a rate
  vector; its target is the oil target of the controls, and it splits by oil guide
  rates.
\<close>

definition oratCalculator :: TargetCalculator_ctor where
  "oratCalculator cmode pu resv_coeff group_grat_target_from_sales =
     \<lparr>calcModeRateFromRates = (\<lambda>rates. rates ! phase_pos pu Liquid),
      groupTarget = oil_target, guideTargetMode = Target_OIL\<rparr>"

text \<open>
  The same tree for the injection of water: \<open>G1\<close> is an injection group under
  \<^verbatim>\<open>RATE\<close> control with the surface rate 100, and both wells count as injectors under
  group control.
\<close>

definition scn_inj_G1 :: Group where
  "scn_inj_G1 = (scn_G1 Prod_NONE)\<lparr>isInjectionGroup := True,
     injectionGroupControlAvailable := (\<lambda>p. True),
     injectionControls := [WATER \<mapsto> \<lparr>inj_cmode = Inj_RATE, guide_rate_def = GRI_RATE,
       surface_max_rate = 100, resv_max_rate = 0, target_reinj_fraction = 0,
       target_void_fraction = 0\<rparr>]\<rparr>"

definition scn_inj_schedule :: Schedule where
  "scn_inj_schedule = (scn_schedule Prod_NONE)\<lparr>sched_groups :=
     [''FIELD'' \<mapsto> scn_FIELD, ''G1'' \<mapsto> scn_inj_G1]\<rparr>"

definition scn_inj_wellState :: "real list \<Rightarrow> real list \<Rightarrow> WellState" where
  "scn_inj_wellState rates1 rates2 = (scn_wellState Prod_NONE rates1 rates2)\<lparr>
     isInjectionGrup := (\<lambda>n. True),
     injectionGroupControl := [(WATER, ''FIELD'') \<mapsto> Inj_NONE, (WATER, ''G1'') \<mapsto> Inj_RATE],
     injectionGroupReductionRates := [''FIELD'' \<mapsto> [0, 0, 0], ''G1'' \<mapsto> [0, 0, 0]]\<rparr>"

text \<open>
  Modelled from the spec: \<^verbatim>\<open>InjectionTargetCalculator\<close> for water under
  \<^verbatim>\<open>RATE\<close> control, which is missing from the sources: the mode rate is the water
  component and the target the surface rate of the controls.
\<close>

definition waterRateCalculator :: InjectionTargetCalculator_ctor where
  "waterRateCalculator cmode pu resv_coeff group_name sales_target well_state injection_phase =
     Inr \<lparr>inj_calcModeRateFromRates = (\<lambda>rates. rates ! phase_pos pu Aqua),
          inj_groupTarget = (\<lambda>ctrl. Inr (surface_max_rate ctrl)),
          inj_guideTargetMode = Target_WAT\<rparr>"

subsection \<open>Acyclic group trees\<close>

text \<open>
  \<open>acyclicWithin fuel schedule grp\<close>: every name among the subgroups of \<open>grp\<close>, of
  their subgroups and so on is a group of the schedule, and no path of subgroups
  below \<open>grp\<close> has more than \<open>fuel\<close> groups. A group tree is acyclic exactly when
  this holds for some \<open>fuel\<close>. \<open>subtreeGroups\<close> lists the groups of the subtree,
  \<open>grp\<close> first.
\<close>

fun acyclicWithin :: "nat \<Rightarrow> Schedule \<Rightarrow> Group \<Rightarrow> bool" where
  "acyclicWithin 0 schedule grp = False"
| "acyclicWithin (Suc fuel) schedule grp =
     list_all (\<lambda>c. case sched_groups schedule c of
                      None \<Rightarrow> False
                    | Some cg \<Rightarrow> acyclicWithin fuel schedule cg)
       (groups grp)"

fun subtreeGroups :: "nat \<Rightarrow> Schedule \<Rightarrow> Group \<Rightarrow> Group list" where
  "subtreeGroups 0 schedule grp = []"
| "subtreeGroups (Suc fuel) schedule grp =
     grp # concat (map (\<lambda>c. case sched_groups schedule c of
                               None \<Rightarrow> []
                             | Some cg \<Rightarrow> subtreeGroups fuel schedule cg)
                     (groups grp))"

subsection \<open>Guide-rate targets of injection groups\<close>

text \<open>
  \<open>declaresRESV grp\<close>: the injection controls of \<open>grp\<close> for some phase declare
  the guide-rate target \<^verbatim>\<open>RESV\<close>. \<open>guideRateInputsOk\<close>: no injection control of
  \<open>grp\<close> holds a value outside the enumeration, and where one declares \<^verbatim>\<open>VOID\<close>
  or \<^verbatim>\<open>NETV\<close> the well state holds the voidage rate of the group and a vector of
  reservoir rates with an entry for every phase in use.
\<close>

definition declaresRESV :: "Group \<Rightarrow> bool" where
  "declaresRESV grp =
     list_ex (\<lambda>phase. case injectionControls grp phase of
                         None \<Rightarrow> False
                       | Some c \<Rightarrow> guide_rate_def c = GRI_RESV)
       [WATER, OIL, GAS]"

definition voidageReadable :: "PhaseUsage \<Rightarrow> WellState \<Rightarrow> Group \<Rightarrow> bool" where
  "voidageReadable pu wellState grp =
     (injectionVREPRates wellState (gname grp) \<noteq> None
      \<and> (case injectionGroupReservoirRates wellState (gname grp) of
           None \<Rightarrow> False
         | Some injRES \<Rightarrow>
             list_all (\<lambda>bp. phase_used pu bp \<longrightarrow> phase_pos pu bp < length injRES)
               [Aqua, Liquid, Vapour]))"

definition guideRateInputsOk :: "PhaseUsage \<Rightarrow> WellState \<Rightarrow> Group \<Rightarrow> bool" where
  "guideRateInputsOk pu wellState grp =
     list_all (\<lambda>phase. case injectionControls grp phase of
                          None \<Rightarrow> True
                        | Some c \<Rightarrow>
                            guide_rate_def c \<noteq> GRI_other
                            \<and> (guide_rate_def c = GRI_VOID \<or> guide_rate_def c = GRI_NETV
                                 \<longrightarrow> voidageReadable pu wellState grp))
       [WATER, OIL, GAS]"

text \<open>
  The injection tree with the guide-rate target of \<open>G1\<close> for water set to
  \<^verbatim>\<open>RESV\<close>.
\<close>

definition scn_resv_G1 :: Group where
  "scn_resv_G1 = scn_inj_G1\<lparr>injectionControls :=
     [WATER \<mapsto> \<lparr>inj_cmode = Inj_RATE, guide_rate_def = GRI_RESV,
       surface_max_rate = 100, resv_max_rate = 0, target_reinj_fraction = 0,
       target_void_fraction = 0\<rparr>]\<rparr>"

definition scn_resv_schedule :: Schedule where
  "scn_resv_schedule = (scn_schedule Prod_NONE)\<lparr>sched_groups :=
     [''FIELD'' \<mapsto> scn_FIELD, ''G1'' \<mapsto> scn_resv_G1]\<rparr>"

subsection \<open>Controls supplied by the schedule\<close>

text \<open>
  \<open>suppliesInjectionControl schedule grp phase\<close>: at this report step the schedule
  gives \<open>grp\<close> an injection control for \<open>phase\<close>, by an injection update event of
  an injection group that has a control for the phase or, for gas, by a gas-sale
  declaration. \<open>suppliesProductionControl\<close>: a production update event of a
  production group.
\<close>

definition suppliesInjectionControl :: "Schedule \<Rightarrow> Group \<Rightarrow> Phase \<Rightarrow> bool" where
  "suppliesInjectionControl schedule grp phase =
     ((isInjectionGroup grp \<and> hasEvent schedule (gname grp) GROUP_INJECTION_UPDATE
        \<and> injectionControls grp phase \<noteq> None)
      \<or> (phase = GAS \<and> gconsale schedule (gname grp) \<noteq> None))"

definition suppliesProductionControl :: "Schedule \<Rightarrow> Group \<Rightarrow> bool" where
  "suppliesProductionControl schedule grp =
     (isProductionGroup grp \<and> hasEvent schedule (gname grp) GROUP_PRODUCTION_UPDATE)"

subsection \<open>A network of two nodes\<close>

text \<open>
  The network scenario of the specification: the root \<open>PLAT\<close> has the terminal
  pressure 50, and the group \<open>G1\<close> hangs below it on a branch without a VFP table.
  \<open>rates\<close> are the production rates stored for \<open>G1\<close>.
\<close>

definition scn_branch :: Branch where
  "scn_branch = \<lparr>downtree_node = ''G1'', uptree_node = ''PLAT'', vfp_table = None\<rparr>"

definition scn_network :: ExtNetwork where
  "scn_network = \<lparr>net_active = True, net_root = ''PLAT'',
     downtree_branches = (\<lambda>n. if n = ''PLAT'' then [scn_branch] else []),
     uptree_branch = (\<lambda>n. if n = ''G1'' then Some scn_branch else None),
     net_node = [''PLAT'' \<mapsto> \<lparr>terminal_pressure = Some 50, add_gas_lift_gas = False\<rparr>,
                 ''G1'' \<mapsto> \<lparr>terminal_pressure = None, add_gas_lift_gas = False\<rparr>]\<rparr>"

definition scn_net_wellState :: "real list \<Rightarrow> WellState" where
  "scn_net_wellState rates =
     (scn_wellState Prod_NONE [] [])\<lparr>productionGroupRates := [''G1'' \<mapsto> rates]\<rparr>"

subsection \<open>The wells of a group tree and their share in a sum of rates\<close>

text \<open>
  \<open>treeWells fuel schedule factor grp\<close> lists the wells of the subtree of \<open>grp\<close>,
  each with \<open>factor\<close> times the product of the efficiency factors of the groups on
  its chain of ancestors, from \<open>grp\<close> down to the group that holds the well.
  \<open>wellCounts\<close>: the well is in the well-state map, owned by this process, of the
  role asked for and not shut. \<open>wellTerm\<close>: the rate of the well for the phase, with
  the sign that makes production positive when producers are summed, times the well's
  own efficiency factor. \<open>treeRateSum\<close> adds \<open>wellTerm\<close> times the chain factor over
  the wells that count. \<open>wellReadable\<close> excludes the two exceptions of the well loop:
  an owned well of the map is a well of the schedule, and the rate of a well that
  counts lies within the rate vector.
\<close>

fun treeWells :: "nat \<Rightarrow> Schedule \<Rightarrow> real \<Rightarrow> Group \<Rightarrow> (name \<times> real) list" where
  "treeWells 0 schedule factor grp = []"
| "treeWells (Suc fuel) schedule factor grp =
     concat (map (\<lambda>c. case sched_groups schedule c of
                         None \<Rightarrow> []
                       | Some cg \<Rightarrow>
                           treeWells fuel schedule (factor * getGroupEfficiencyFactor grp) cg)
               (groups grp))
     @ map (\<lambda>w. (w, factor * getGroupEfficiencyFactor grp)) (wells grp)"

definition wellCounts :: "Schedule \<Rightarrow> WellState \<Rightarrow> bool \<Rightarrow> name \<Rightarrow> bool" where
  "wellCounts schedule wellState injector w =
     (case wellMap wellState w of
        None \<Rightarrow> False
      | Some well_index \<Rightarrow>
          wellIsOwned wellState well_index w
          \<and> (case sched_wells schedule w of
                None \<Rightarrow> False
              | Some wellEcl \<Rightarrow> isInjector wellEcl = injector \<and> getStatus wellEcl \<noteq> SHUT))"

definition wellTerm :: "real list \<Rightarrow> Schedule \<Rightarrow> WellState \<Rightarrow> nat \<Rightarrow> bool \<Rightarrow> name \<Rightarrow> real" where
  "wellTerm rates schedule wellState phasePos injector w =
     (case (wellMap wellState w, sched_wells schedule w) of
        (Some well_index, Some wellEcl) \<Rightarrow>
          (if injector then 1 else - 1)
          * rates ! (well_index * numPhases wellState + phasePos)
          * getEfficiencyFactor wellEcl
      | _ \<Rightarrow> 0)"

definition treeRateSum ::
  "real list \<Rightarrow> Schedule \<Rightarrow> WellState \<Rightarrow> nat \<Rightarrow> bool \<Rightarrow> (name \<times> real) list \<Rightarrow> real" where
  "treeRateSum rates schedule wellState phasePos injector ws =
     sum_list (map (\<lambda>(w, f). wellTerm rates schedule wellState phasePos injector w * f)
                 (filter (\<lambda>(w, f). wellCounts schedule wellState injector w) ws))"

definition wellReadable :: "real list \<Rightarrow> Schedule \<Rightarrow> WellState \<Rightarrow> nat \<Rightarrow> bool \<Rightarrow> name \<Rightarrow> bool" where
  "wellReadable rates schedule wellState phasePos injector w =
     (case wellMap wellState w of
        None \<Rightarrow> True
      | Some well_index \<Rightarrow>
          wellIsOwned wellState well_index w \<longrightarrow>
            sched_wells schedule w \<noteq> None
            \<and> (wellCounts schedule wellState injector w \<longrightarrow>
                 well_index * numPhases wellState + phasePos < length rates))"

text \<open>The tree of the scenario with efficiency factors below 1.\<close>

definition scn_eff_FIELD :: Group where
  "scn_eff_FIELD = scn_FIELD\<lparr>getGroupEfficiencyFactor := 1 / 4\<rparr>"

definition scn_eff_G1 :: Group where
  "scn_eff_G1 = (scn_G1 Prod_ORAT)\<lparr>getGroupEfficiencyFactor := 1 / 2\<rparr>"

definition scn_eff_schedule :: Schedule where
  "scn_eff_schedule = (scn_schedule Prod_ORAT)\<lparr>
     sched_groups := [''FIELD'' \<mapsto> scn_eff_FIELD, ''G1'' \<mapsto> scn_eff_G1],
     sched_wells := [''W1'' \<mapsto> (scn_well ''W1'')\<lparr>getEfficiencyFactor := 1 / 2\<rparr>,
                     ''W2'' \<mapsto> scn_well ''W2'']\<rparr>"

subsection \<open>Names that the sum of their parent counts\<close>

text \<open>
  \<open>countedByParent fc n always_included_child\<close>: the name \<open>n\<close> is a child of its
  parent group and passes the test of \<^verbatim>\<open>guideRateSum\<close>, so that the sum over the children
  of the parent has a term for it: a child group that is the always-included child or
  whose control is \<open>FLD\<close> or \<open>NONE\<close>, a child well that is the always-included child or
  is under group control.

  \<open>fraction_counted k fc control_group_name included current\<close>: in the first \<open>k\<close>
  iterations of the loop of \<open>fraction\<close> that starts at \<open>current\<close>, the name at which
  \<open>localFraction\<close> is called is counted by its parent.
\<close>

definition countedByParent :: "FractionCalculator \<Rightarrow> name \<Rightarrow> name \<Rightarrow> bool" where
  "countedByParent fc n always_included_child =
     (case bindE (fc_parent fc n) (getGroup (fc_schedule fc)) of
        Inl e \<Rightarrow> False
      | Inr parent_group \<Rightarrow>
          (n \<in> set (groups parent_group)
           \<and> childGroupIncluded (fc_well_state fc) (fc_is_producer fc) (fc_injection_phase fc)
                always_included_child n = Inr True)
          \<or> (n \<in> set (wells parent_group)
              \<and> childWellIncluded (fc_well_state fc) (fc_is_producer fc) always_included_child n))"

fun fraction_counted :: "nat \<Rightarrow> FractionCalculator \<Rightarrow> name \<Rightarrow> name \<Rightarrow> name \<Rightarrow> bool" where
  "fraction_counted 0 fc control_group_name included current = True"
| "fraction_counted (Suc k) fc control_group_name included current =
     (current = control_group_name
      \<or> (countedByParent fc current included
          \<and> (case fc_parent fc current of
                Inl e \<Rightarrow> True
              | Inr p \<Rightarrow> fraction_counted k fc control_group_name included p)))"

text \<open>
  The fraction calculator of the production scenario; \<open>grup\<close> tells which wells are
  under group control.
\<close>

definition scn_fcalc :: "(name \<Rightarrow> bool) \<Rightarrow> FractionCalculator" where
  "scn_fcalc grup =
     \<lparr>fc_schedule = scn_schedule Prod_ORAT,
      fc_well_state = (scn_wellState Prod_ORAT [0, 40, 0] [0, 10, 0])\<lparr>isProductionGrup := grup\<rparr>,
      fc_guide_rate = scn_guideRate, fc_target = Target_OIL, fc_pu = scn_pu,
      fc_is_producer = True, fc_injection_phase = OIL\<rparr>"

subsection \<open>Writing one aggregate of the well state\<close>

text \<open>
  \<open>put m ws\<close> stands for \<open>ws\<close> with one of its per-name aggregates replaced by the
  map \<open>m\<close>. \<open>writesOnly put h\<close>: whatever that aggregate holds when \<open>h\<close> starts,
  \<open>h\<close> fails with the same error, or it overwrites the aggregate at the same names
  with the same values and changes nothing else. \<open>writesOnlyWith\<close> is the same for a
  function that also takes and returns a value beside the state. \<open>putReduction\<close>
  replaces the reductions for injection or those for production.
\<close>

definition writesOnly ::
  "((name \<rightharpoonup> 'v) \<Rightarrow> WellState \<Rightarrow> WellState) \<Rightarrow> (WellState \<Rightarrow> error + WellState) \<Rightarrow> bool" where
  "writesOnly put h =
     (\<forall>ws. (\<exists>e. \<forall>m. h (put m ws) = Inl e) \<or> (\<exists>U. \<forall>m. h (put m ws) = Inr (put (m ++ U) ws)))"

definition writesOnlyWith ::
  "((name \<rightharpoonup> 'v) \<Rightarrow> WellState \<Rightarrow> WellState) \<Rightarrow> (WellState \<times> 'a \<Rightarrow> error + WellState \<times> 'a) \<Rightarrow> bool" where
  "writesOnlyWith put h =
     (\<forall>ws a. (\<exists>e. \<forall>m. h (put m ws, a) = Inl e)
            \<or> (\<exists>U a'. \<forall>m. h (put m ws, a) = Inr (put (m ++ U) ws, a')))"

definition putReduction :: "bool \<Rightarrow> (name \<rightharpoonup> real list) \<Rightarrow> WellState \<Rightarrow> WellState" where
  "putReduction is_injector m ws =
     (if is_injector then ws\<lparr>injectionGroupReductionRates := m\<rparr>
      else ws\<lparr>productionGroupReductionRates := m\<rparr>)"

section \<open>Properties\<close>

lemma bindE_Inr [simp]: "bindE (Inr v) f = f v"
  by (simp add: bindE_def)

lemma bindE_Inl [simp]: "bindE (Inl e) f = Inl e"
  by (simp add: bindE_def)

lemma bindE_eq_Inr: "bindE m f = Inr y \<longleftrightarrow> (\<exists>v. m = Inr v \<and> f v = Inr y)"
  by (cases m) simp_all

subsection \<open>The two-well scenario\<close>

lemmas scn_defs = scn_pu_def scn_FIELD_def scn_G1_def scn_well_def scn_schedule_def
  scn_wellState_def scn_guideRate_def

lemmas fc_defs = localFraction_def getWellRateVector_def currentWellRates_def
  getGuideRateVector_def at_vec_def fc_parent_def getGroup_def guideRateSum_def
  guideRateSumWith_def childWellIncluded_def guide_rate_epsilon_def hasWell_def getWell_def lookupE_def

lemma scn_localFraction_W1:
  assumes "length ratesA = 3" "length ratesB = 3"
  shows "localFraction (Suc fuel)
      \<lparr>fc_schedule = scn_schedule mode, fc_well_state = scn_wellState mode ratesA ratesB,
       fc_guide_rate = scn_guideRate, fc_target = t, fc_pu = scn_pu, fc_is_producer = True,
       fc_injection_phase = OIL\<rparr> ''W1'' ''W1'' = Inr (3 / 4)"
  using assms by (auto simp: fc_defs scn_defs)

lemma scn_chain: "groupChainTopBot fuel ''W1'' ''G1'' (scn_schedule mode) = Inr [''G1'', ''W1'']"
  by (cases fuel) (simp_all add: groupChainTopBot_def hasWell_def getWell_def scn_defs)

lemma scn_outcome:
  assumes "length ratesA = 3" "length ratesB = 3"
   and "mode \<noteq> Prod_FLD" "mode \<noteq> Prod_NONE"
   and "groupTarget (ctor mode scn_pu resv_coeff 0) (productionControls (scn_G1 mode)) = 100"
   and "calcModeRateFromRates (ctor mode scn_pu resv_coeff 0) [0, 0, 0] = 0"
  shows "checkGroupConstraintsProd_outcome (Suc fuel) ctor ''W1'' ''G1'' (scn_G1 mode)
     (scn_wellState mode ratesA ratesB) scn_guideRate rates scn_pu 1 (scn_schedule mode) resv_coeff
   = Inr (Constrained (- calcModeRateFromRates (ctor mode scn_pu resv_coeff 0) rates)
        (max target_floor (3 / 4 * (100 - calcModeRateFromRates (ctor mode scn_pu resv_coeff 0) rates))))"
proof -
  have ctl: "currentProductionGroupControl (scn_wellState mode ratesA ratesB) ''G1'' = Inr mode"
    by (simp add: currentProductionGroupControl_def lookupE_def scn_defs)
  have red: "currentProductionGroupReductionRates (scn_wellState mode ratesA ratesB) ''G1'' = Inr [0, 0, 0]"
    by (simp add: currentProductionGroupReductionRates_def lookupE_def scn_defs)
  have g: "gname (scn_G1 mode) = ''G1''" "isProductionGroup (scn_G1 mode)"
    "getGroupEfficiencyFactor (scn_G1 mode) = 1"
    "groupGratTargetFromSales (scn_wellState mode ratesA ratesB) ''G1'' = None"
    "gr_has scn_guideRate = (\<lambda>n. False)"
    by (simp_all add: scn_defs)
  show ?thesis
    using assms(3-6)
    by (simp add: ctl prodControllingGroup_def Let_def g scn_chain local_reduction_level_def
        target_step_def red scn_localFraction_W1 [OF assms(1,2)] algebra_simps)
qed

text \<open>
  Claim C1, as amended. In the scenario \<open>FIELD\<close>, \<open>G1\<close>, \<open>W1\<close>, \<open>W2\<close> with
  \<open>G1\<close> under a production control with target 100, guide rates 3 and 1, both wells
  under group control, efficiency factors 1 and a zero reduction stored for \<open>G1\<close>, the
  check of \<open>W1\<close> against \<open>G1\<close> adds the current rate of \<open>W1\<close> to the target before
  it takes the share of \<open>W1\<close>: the target rate is the larger of \<open>1e-12\<close> and
  \<open>3/4 * (100 + current_rate)\<close>, where \<open>current_rate\<close> is the mode rate of the
  rates passed for \<open>W1\<close> with its sign switched. It is 75 when that current rate is 0.
  The statement holds for every target calculator that gives the target 100 and the
  mode rate 0 for a zero reduction.
\<close>

theorem checkGroupConstraintsProd_two_wells:
  assumes "length ratesA = 3" and "length ratesB = 3"
    and "mode \<noteq> Prod_FLD" and "mode \<noteq> Prod_NONE"
    and "groupTarget (ctor mode scn_pu resv_coeff 0) (productionControls (scn_G1 mode)) = 100"
    and "calcModeRateFromRates (ctor mode scn_pu resv_coeff 0) [0, 0, 0] = 0"
    and "current_rate = - calcModeRateFromRates (ctor mode scn_pu resv_coeff 0) rates"
  shows "checkGroupConstraintsProd_outcome (Suc fuel) ctor ''W1'' ''G1'' (scn_G1 mode)
           (scn_wellState mode ratesA ratesB) scn_guideRate rates scn_pu 1 (scn_schedule mode)
           resv_coeff
         = Inr (Constrained current_rate (max target_floor (3 / 4 * (100 + current_rate))))
       \<and> (current_rate = 0 \<longrightarrow>
           checkGroupConstraintsProd_outcome (Suc fuel) ctor ''W1'' ''G1'' (scn_G1 mode)
             (scn_wellState mode ratesA ratesB) scn_guideRate rates scn_pu 1 (scn_schedule mode)
             resv_coeff
           = Inr (Constrained 0 75))"
  using scn_outcome [of ratesA ratesB mode ctor resv_coeff fuel rates] assms
  by (simp add: target_floor_def)

theorem checkGroupConstraintsProd_two_wells_witness:
  "checkGroupConstraintsProd_outcome (Suc 0) oratCalculator ''W1'' ''G1'' (scn_G1 Prod_ORAT)
     (scn_wellState Prod_ORAT [0, 0, 0] [0, 10, 0]) scn_guideRate [0, 0, 0] scn_pu 1
     (scn_schedule Prod_ORAT) []
   = Inr (Constrained 0 75)"
proof -
  have a: "length [0, 0, 0 :: real] = 3" "length [0, 10, 0 :: real] = 3"
    by simp_all
  have b: "Prod_ORAT \<noteq> Prod_FLD" "Prod_ORAT \<noteq> Prod_NONE"
    by simp_all
  have c: "groupTarget (oratCalculator Prod_ORAT scn_pu [] 0)
             (productionControls (scn_G1 Prod_ORAT)) = 100"
    by (simp add: oratCalculator_def scn_G1_def)
  have d: "calcModeRateFromRates (oratCalculator Prod_ORAT scn_pu [] 0) [0, 0, 0] = 0"
    by (simp add: oratCalculator_def scn_pu_def)
  have e: "(0::real) = - calcModeRateFromRates (oratCalculator Prod_ORAT scn_pu [] 0) [0, 0, 0]"
    by (simp add: oratCalculator_def scn_pu_def)
  from checkGroupConstraintsProd_two_wells
         [where ratesA = "[0, 0, 0]" and ratesB = "[0, 10, 0]" and mode = Prod_ORAT
            and ctor = oratCalculator and resv_coeff = "[]" and current_rate = 0
            and rates = "[0, 0, 0]" and fuel = 0, OF a b c d e]
  show ?thesis by blast
qed

theorem checkGroupConstraintsProd_two_wells_not_75:
  "checkGroupConstraintsProd_outcome (Suc 0) oratCalculator ''W1'' ''G1'' (scn_G1 Prod_ORAT)
     (scn_wellState Prod_ORAT [0, 40, 0] [0, 10, 0]) scn_guideRate [0, - 40, 0] scn_pu 1
     (scn_schedule Prod_ORAT) []
   = Inr (Constrained 40 105)"
proof -
  have c: "groupTarget (oratCalculator Prod_ORAT scn_pu [] 0)
             (productionControls (scn_G1 Prod_ORAT)) = 100"
    by (simp add: oratCalculator_def scn_G1_def)
  have d: "calcModeRateFromRates (oratCalculator Prod_ORAT scn_pu [] 0) [0, 0, 0] = 0"
    by (simp add: oratCalculator_def scn_pu_def)
  have e: "calcModeRateFromRates (oratCalculator Prod_ORAT scn_pu [] 0) [0, - 40, 0] = - 40"
    by (simp add: oratCalculator_def scn_pu_def)
  have "checkGroupConstraintsProd_outcome (Suc 0) oratCalculator ''W1'' ''G1'' (scn_G1 Prod_ORAT)
     (scn_wellState Prod_ORAT [0, 40, 0] [0, 10, 0]) scn_guideRate [0, - 40, 0] scn_pu 1
     (scn_schedule Prod_ORAT) []
   = Inr (Constrained (- calcModeRateFromRates (oratCalculator Prod_ORAT scn_pu [] 0) [0, - 40, 0])
        (max target_floor (3 / 4 * (100 - calcModeRateFromRates (oratCalculator Prod_ORAT scn_pu [] 0) [0, - 40, 0]))))"
    by (rule scn_outcome [where ratesA = "[0, 40, 0]" and ratesB = "[0, 10, 0]"
          and mode = Prod_ORAT and ctor = oratCalculator and resv_coeff = "[]"
          and rates = "[0, - 40, 0]" and fuel = 0, OF _ _ _ _ c d]) simp_all
  then show ?thesis
    by (simp add: e target_floor_def)
qed

subsection \<open>Transparent chains\<close>

lemma prod_unconstrained:
  "fldChainProd schedule wellState grp ancestors \<Longrightarrow> length ancestors < fuel \<Longrightarrow>
   checkGroupConstraintsProd_outcome fuel ctor n par grp wellState guide_rate rates pu
     efficiencyFactor schedule resv_coeff = Inr Unconstrained"
proof (induction ancestors arbitrary: fuel grp efficiencyFactor)
  case Nil
  then obtain k where "fuel = Suc k" by (cases fuel) auto
  with Nil show ?case
    by (auto simp: currentProductionGroupControl_def lookupE_def)
next
  case (Cons p ps)
  then obtain k where k: "fuel = Suc k" by (cases fuel) auto
  with Cons.prems have "length ps < k" by simp
  with Cons.IH Cons.prems k show ?case
    by (auto simp: currentProductionGroupControl_def lookupE_def getGroup_def)
qed

lemma inj_unconstrained:
  "fldChainInj schedule wellState phase grp ancestors \<Longrightarrow> length ancestors < fuel \<Longrightarrow>
   checkGroupConstraintsInj_outcome fuel ctor n par grp wellState guide_rate rates phase pu
     efficiencyFactor schedule resv_coeff = Inr Unconstrained"
proof (induction ancestors arbitrary: fuel grp efficiencyFactor)
  case Nil
  then obtain k where "fuel = Suc k" by (cases fuel) auto
  with Nil show ?case
    by (auto simp: currentInjectionGroupControl_def lookupE_def)
next
  case (Cons p ps)
  then obtain k where k: "fuel = Suc k" by (cases fuel) auto
  with Cons.prems have "length ps < k" by simp
  with Cons.IH Cons.prems k show ?case
    by (auto simp: currentInjectionGroupControl_def lookupE_def getGroup_def)
qed

text \<open>
  Claim C6. When the group handed to a checker and its ancestors are under \<^verbatim>\<open>FLD\<close>
  or \<^verbatim>\<open>NONE\<close> control up to one for which group control is not available, the
  checker returns \<open>(False, 1)\<close> and no target is computed: the outcome is
  \<open>Unconstrained\<close>. This holds for production and for the injection of any phase,
  with fuel for the length of the chain.
\<close>

theorem checkers_unconstrained:
  "(fldChainProd schedule wellState grp ancestors \<and> length ancestors < fuel \<longrightarrow>
      checkGroupConstraintsProd_outcome fuel ctorP n par grp wellState guide_rate rates pu
        efficiencyFactor schedule resv_coeff = Inr Unconstrained
      \<and> checkGroupConstraintsProd fuel ctorP n par grp wellState guide_rate rates pu
          efficiencyFactor schedule resv_coeff = Inr (False, 1))
   \<and> (fldChainInj schedule wellState phase grp ancestors \<and> length ancestors < fuel \<longrightarrow>
      checkGroupConstraintsInj_outcome fuel ctorI n par grp wellState guide_rate rates phase pu
        efficiencyFactor schedule resv_coeff = Inr Unconstrained
      \<and> checkGroupConstraintsInj fuel ctorI n par grp wellState guide_rate rates phase pu
          efficiencyFactor schedule resv_coeff = Inr (False, 1))"
  by (auto simp: checkGroupConstraintsProd_def checkGroupConstraintsInj_def prod_unconstrained
      inj_unconstrained)

theorem checkers_unconstrained_witness:
  "checkGroupConstraintsProd (Suc (Suc 0)) oratCalculator ''W1'' ''G1'' (scn_G1 Prod_NONE)
     (scn_wellState Prod_NONE [0, 40, 0] [0, 10, 0]) scn_guideRate [0, - 40, 0] scn_pu 1
     (scn_schedule Prod_NONE) [] = Inr (False, 1)
   \<and> checkGroupConstraintsInj (Suc (Suc 0)) waterRateCalculator ''W1'' ''G1'' scn_inj_G1
     ((scn_inj_wellState [30, 0, 0] [10, 0, 0])\<lparr>injectionGroupControl :=
        [(WATER, ''FIELD'') \<mapsto> Inj_NONE, (WATER, ''G1'') \<mapsto> Inj_FLD]\<rparr>)
     scn_guideRate [30, 0, 0] WATER scn_pu 1 scn_inj_schedule [] = Inr (False, 1)"
proof -
  have p: "fldChainProd (scn_schedule Prod_NONE) (scn_wellState Prod_NONE [0, 40, 0] [0, 10, 0])
             (scn_G1 Prod_NONE) [scn_FIELD] \<and> length [scn_FIELD] < Suc (Suc 0)"
    by (simp add: scn_defs)
  have i: "fldChainInj scn_inj_schedule
             ((scn_inj_wellState [30, 0, 0] [10, 0, 0])\<lparr>injectionGroupControl :=
                [(WATER, ''FIELD'') \<mapsto> Inj_NONE, (WATER, ''G1'') \<mapsto> Inj_FLD]\<rparr>)
             WATER scn_inj_G1 [scn_FIELD] \<and> length [scn_FIELD] < Suc (Suc 0)"
    by (simp add: scn_defs scn_inj_G1_def scn_inj_schedule_def scn_inj_wellState_def)
  from checkers_unconstrained
         [where schedule = "scn_schedule Prod_NONE" and grp = "scn_G1 Prod_NONE"
            and ancestors = "[scn_FIELD]" and fuel = "Suc (Suc 0)", THEN conjunct1, rule_format, OF p]
       checkers_unconstrained
         [where schedule = scn_inj_schedule and grp = scn_inj_G1
            and ancestors = "[scn_FIELD]" and fuel = "Suc (Suc 0)", THEN conjunct2, rule_format, OF i]
  show ?thesis by blast
qed

subsection \<open>The floor of the target rate\<close>

lemma prod_floor:
  "checkGroupConstraintsProd_outcome fuel ctor n par grp wellState guide_rate rates pu
     efficiencyFactor schedule resv_coeff = Inr (Constrained cur t) \<Longrightarrow> target_floor \<le> t"
proof (induction fuel arbitrary: grp efficiencyFactor)
  case 0
  then show ?case by simp
next
  case (Suc fuel)
  then show ?case
    by (auto simp: bindE_eq_Inr prodControllingGroup_def Let_def split: if_splits)
qed

lemma inj_floor:
  "checkGroupConstraintsInj_outcome fuel ctor n par grp wellState guide_rate rates phase pu
     efficiencyFactor schedule resv_coeff = Inr (Constrained cur t) \<Longrightarrow> target_floor \<le> t"
proof (induction fuel arbitrary: grp efficiencyFactor)
  case 0
  then show ?case by simp
next
  case (Suc fuel)
  then show ?case
    by (auto simp: bindE_eq_Inr injControllingGroup_def Let_def split: if_splits)
qed

text \<open>
  Claim C3. Whenever a checker reaches the controlling group, so that its outcome is a
  current rate and a target rate, the target rate is at least \<open>1e-12\<close>, and the pair
  returned is \<open>(current_rate > target_rate, target_rate / current_rate)\<close>; no
  assumption is made on the reductions stored.
\<close>

theorem target_rate_at_least_floor:
  "(checkGroupConstraintsProd_outcome fuel ctorP n par grp wellState guide_rate rates pu
      efficiencyFactor schedule resv_coeff = Inr (Constrained current_rate target_rate) \<longrightarrow>
      1 / 10 ^ 12 \<le> target_rate
      \<and> checkGroupConstraintsProd fuel ctorP n par grp wellState guide_rate rates pu
          efficiencyFactor schedule resv_coeff
        = Inr (current_rate > target_rate, target_rate / current_rate))
   \<and> (checkGroupConstraintsInj_outcome fuel ctorI n par grp wellState guide_rate rates phase pu
      efficiencyFactor schedule resv_coeff = Inr (Constrained current_rate target_rate) \<longrightarrow>
      1 / 10 ^ 12 \<le> target_rate
      \<and> checkGroupConstraintsInj fuel ctorI n par grp wellState guide_rate rates phase pu
          efficiencyFactor schedule resv_coeff
        = Inr (current_rate > target_rate, target_rate / current_rate))"
  using prod_floor [of fuel ctorP n par grp wellState guide_rate rates pu efficiencyFactor
      schedule resv_coeff current_rate target_rate]
    inj_floor [of fuel ctorI n par grp wellState guide_rate rates phase pu efficiencyFactor
      schedule resv_coeff current_rate target_rate]
  by (simp add: checkGroupConstraintsProd_def checkGroupConstraintsInj_def target_floor_def)

lemma scn_inj_localFraction_W1:
  "localFraction (Suc fuel)
      \<lparr>fc_schedule = scn_inj_schedule, fc_well_state = scn_inj_wellState [30, 0, 0] [10, 0, 0],
       fc_guide_rate = scn_guideRate, fc_target = t, fc_pu = scn_pu, fc_is_producer = False,
       fc_injection_phase = WATER\<rparr> ''W1'' ''W1'' = Inr (3 / 4)"
  by (simp add: fc_defs scn_defs scn_inj_schedule_def scn_inj_wellState_def scn_inj_G1_def)

lemma scn_inj_chain: "groupChainTopBot fuel ''W1'' ''G1'' scn_inj_schedule = Inr [''G1'', ''W1'']"
  by (cases fuel)
    (simp_all add: groupChainTopBot_def hasWell_def getWell_def scn_defs scn_inj_schedule_def)

lemma scn_inj_outcome:
  "checkGroupConstraintsInj_outcome (Suc 0) waterRateCalculator ''W1'' ''G1'' scn_inj_G1
     (scn_inj_wellState [30, 0, 0] [10, 0, 0]) scn_guideRate [30, 0, 0] WATER scn_pu 1
     scn_inj_schedule [] = Inr (Constrained 30 (195 / 2))"
proof -
  have ctl: "currentInjectionGroupControl (scn_inj_wellState [30, 0, 0] [10, 0, 0]) WATER ''G1''
               = Inr Inj_RATE"
    by (simp add: currentInjectionGroupControl_def lookupE_def scn_inj_wellState_def)
  have red: "currentInjectionGroupReductionRates (scn_inj_wellState [30, 0, 0] [10, 0, 0]) ''G1''
               = Inr [0, 0, 0]"
    by (simp add: currentInjectionGroupReductionRates_def lookupE_def scn_inj_wellState_def)
  have g: "gname scn_inj_G1 = ''G1''" "isInjectionGroup scn_inj_G1"
    "getGroupEfficiencyFactor scn_inj_G1 = 1"
    "gconsale scn_inj_schedule ''G1'' = None"
    "gr_has_inj scn_guideRate = (\<lambda>n p. False)"
    "phase_pos scn_pu Aqua = 0"
    "injectionControls scn_inj_G1 WATER = Some \<lparr>inj_cmode = Inj_RATE, guide_rate_def = GRI_RATE,
       surface_max_rate = 100, resv_max_rate = 0, target_reinj_fraction = 0,
       target_void_fraction = 0\<rparr>"
    by (simp_all add: scn_defs scn_inj_G1_def scn_inj_schedule_def)
  show ?thesis
    by (simp add: ctl injControllingGroup_def Let_def g scn_inj_chain local_reduction_level_def
        target_step_def red scn_inj_localFraction_W1 waterRateCalculator_def
        target_floor_def)
qed

theorem target_rate_at_least_floor_witness:
  "checkGroupConstraintsProd (Suc 0) oratCalculator ''W1'' ''G1'' (scn_G1 Prod_ORAT)
     (scn_wellState Prod_ORAT [0, 40, 0] [0, 10, 0]) scn_guideRate [0, - 40, 0] scn_pu 1
     (scn_schedule Prod_ORAT) [] = Inr (False, 105 / 40)
   \<and> 1 / 10 ^ 12 \<le> (105 :: real)
   \<and> checkGroupConstraintsInj (Suc 0) waterRateCalculator ''W1'' ''G1'' scn_inj_G1
     (scn_inj_wellState [30, 0, 0] [10, 0, 0]) scn_guideRate [30, 0, 0] WATER scn_pu 1
     scn_inj_schedule [] = Inr (False, (195 / 2) / 30)
   \<and> 1 / 10 ^ 12 \<le> (195 / 2 :: real)"
proof -
  have c: "groupTarget (oratCalculator Prod_ORAT scn_pu [] 0)
             (productionControls (scn_G1 Prod_ORAT)) = 100"
    by (simp add: oratCalculator_def scn_G1_def)
  have d: "calcModeRateFromRates (oratCalculator Prod_ORAT scn_pu [] 0) [0, 0, 0] = 0"
    by (simp add: oratCalculator_def scn_pu_def)
  have e: "calcModeRateFromRates (oratCalculator Prod_ORAT scn_pu [] 0) [0, - 40, 0] = - 40"
    by (simp add: oratCalculator_def scn_pu_def)
  have "checkGroupConstraintsProd_outcome (Suc 0) oratCalculator ''W1'' ''G1'' (scn_G1 Prod_ORAT)
     (scn_wellState Prod_ORAT [0, 40, 0] [0, 10, 0]) scn_guideRate [0, - 40, 0] scn_pu 1
     (scn_schedule Prod_ORAT) []
   = Inr (Constrained (- calcModeRateFromRates (oratCalculator Prod_ORAT scn_pu [] 0) [0, - 40, 0])
        (max target_floor (3 / 4 * (100 - calcModeRateFromRates (oratCalculator Prod_ORAT scn_pu [] 0) [0, - 40, 0]))))"
    by (rule scn_outcome [where ratesA = "[0, 40, 0]" and ratesB = "[0, 10, 0]"
          and mode = Prod_ORAT and ctor = oratCalculator and resv_coeff = "[]"
          and rates = "[0, - 40, 0]" and fuel = 0, OF _ _ _ _ c d]) simp_all
  then have p: "checkGroupConstraintsProd_outcome (Suc 0) oratCalculator ''W1'' ''G1''
     (scn_G1 Prod_ORAT) (scn_wellState Prod_ORAT [0, 40, 0] [0, 10, 0]) scn_guideRate
     [0, - 40, 0] scn_pu 1 (scn_schedule Prod_ORAT) [] = Inr (Constrained 40 105)"
    by (simp add: e target_floor_def)
  from target_rate_at_least_floor [THEN conjunct1, rule_format, OF p]
       target_rate_at_least_floor [THEN conjunct2, rule_format, OF scn_inj_outcome]
  show ?thesis by simp
qed

subsection \<open>The guard of the division in \<open>localFraction\<close>\<close>

text \<open>
  Claim C5. For a name whose guide rate, parent group and sibling sum are computed,
  \<open>localFraction\<close> returns 0 when the sum of the guide rates of the eligible
  siblings is below \<open>1e-12\<close>; it returns the quotient only when the sum is
  strictly greater than \<open>1e-12\<close>, so it never divides by anything smaller.
\<close>

theorem localFraction_guards_division:
  assumes "guideRate fuel fc n always_included_child = Inr my_guide_rate"
    and "fc_parent fc n = Inr p"
    and "getGroup (fc_schedule fc) p = Inr parent_group"
    and "guideRateSum fuel fc parent_group always_included_child = Inr total_guide_rate"
  shows "(total_guide_rate < 1 / 10 ^ 12 \<longrightarrow>
            localFraction fuel fc n always_included_child = Inr 0)
       \<and> localFraction fuel fc n always_included_child
           = Inr (if 1 / 10 ^ 12 < total_guide_rate then my_guide_rate / total_guide_rate else 0)"
  using assms by (simp add: localFraction_def guide_rate_epsilon_def)

theorem localFraction_guards_division_witness:
  "localFraction (Suc 0)
      \<lparr>fc_schedule = scn_schedule Prod_ORAT,
       fc_well_state = scn_wellState Prod_ORAT [0, 40, 0] [0, 10, 0],
       fc_guide_rate = scn_guideRate\<lparr>gr_get := (\<lambda>n t rv. 0)\<rparr>, fc_target = Target_OIL,
       fc_pu = scn_pu, fc_is_producer = True, fc_injection_phase = OIL\<rparr> ''W1'' ''W1'' = Inr 0"
proof -
  let ?fc = "\<lparr>fc_schedule = scn_schedule Prod_ORAT,
       fc_well_state = scn_wellState Prod_ORAT [0, 40, 0] [0, 10, 0],
       fc_guide_rate = scn_guideRate\<lparr>gr_get := (\<lambda>n t rv. 0)\<rparr>, fc_target = Target_OIL,
       fc_pu = scn_pu, fc_is_producer = True, fc_injection_phase = OIL\<rparr>"
  have a: "guideRate (Suc 0) ?fc ''W1'' ''W1'' = Inr 0"
    by (simp add: fc_defs scn_defs)
  have b: "fc_parent ?fc ''W1'' = Inr ''G1''"
    by (simp add: fc_defs scn_defs)
  have c: "getGroup (fc_schedule ?fc) ''G1'' = Inr (scn_G1 Prod_ORAT)"
    by (simp add: fc_defs scn_defs)
  have d: "guideRateSum (Suc 0) ?fc (scn_G1 Prod_ORAT) ''W1'' = Inr 0"
    by (simp add: fc_defs scn_defs)
  from localFraction_guards_division [OF a b c d]
  show ?thesis by simp
qed

subsection \<open>The unsupported guide-rate target\<close>

lemma guideRateValue_RESV:
  "guide_rate_def c = GRI_RESV \<Longrightarrow>
   guideRateValue grp pu wellState phase c
     = Inl (RuntimeError (resvNotImplemented (gname grp)))"
  by (simp add: guideRateValue_def)

lemma guideRateValue_supported:
  assumes "guide_rate_def c \<noteq> GRI_other" and "guide_rate_def c \<noteq> GRI_RESV"
    and "guide_rate_def c = GRI_VOID \<or> guide_rate_def c = GRI_NETV
           \<longrightarrow> voidageReadable pu wellState grp"
  shows "\<exists>v. guideRateValue grp pu wellState phase c = Inr v"
proof (cases "guide_rate_def c")
  case GRI_VOID
  with assms(3) show ?thesis
    by (auto simp: guideRateValue_def voidageReadable_def currentInjectionVREPRates_def
        lookupE_def)
next
  case GRI_NETV
  with assms(3) have rd: "voidageReadable pu wellState grp" by simp
  then obtain v where v: "injectionVREPRates wellState (gname grp) = Some v"
    by (auto simp: voidageReadable_def)
  from rd obtain injRES where r: "injectionGroupReservoirRates wellState (gname grp) = Some injRES"
    by (auto simp: voidageReadable_def split: option.splits)
  from rd r have l: "phase_used pu Aqua \<longrightarrow> phase_pos pu Aqua < length injRES"
    "phase_used pu Liquid \<longrightarrow> phase_pos pu Liquid < length injRES"
    "phase_used pu Vapour \<longrightarrow> phase_pos pu Vapour < length injRES"
    by (simp_all add: voidageReadable_def)
  show ?thesis
    using l
    by (simp add: guideRateValue_def GRI_NETV currentInjectionVREPRates_def
        currentInjectionGroupReservoirRates_def lookupE_def v r at_vec_def)
qed (use assms in \<open>simp_all add: guideRateValue_def\<close>)

lemma phases_fold:
  assumes "\<forall>phase\<in>set ps. case injectionControls grp phase of
              None \<Rightarrow> True
            | Some c \<Rightarrow> guide_rate_def c \<noteq> GRI_other
                \<and> (guide_rate_def c = GRI_VOID \<or> guide_rate_def c = GRI_NETV
                      \<longrightarrow> voidageReadable pu wellState grp)"
  shows "if list_ex (\<lambda>phase. case injectionControls grp phase of
                       None \<Rightarrow> False | Some c \<Rightarrow> guide_rate_def c = GRI_RESV) ps
         then foldE (updateGuideRates_phase compute grp pu wellState) ps gr
                = Inl (RuntimeError (resvNotImplemented (gname grp)))
         else \<exists>gr'. foldE (updateGuideRates_phase compute grp pu wellState) ps gr = Inr gr'"
  using assms
proof (induction ps arbitrary: gr)
  case Nil
  then show ?case by simp
next
  case (Cons p ps)
  show ?case
  proof (cases "injectionControls grp p")
    case None
    then have "updateGuideRates_phase compute grp pu wellState p gr = Inr gr"
      by (simp add: updateGuideRates_phase_def)
    with None Cons show ?thesis
      by simp
  next
    case (Some c)
    show ?thesis
    proof (cases "guide_rate_def c = GRI_RESV")
      case True
      with Some have "updateGuideRates_phase compute grp pu wellState p gr
                        = Inl (RuntimeError (resvNotImplemented (gname grp)))"
        by (simp add: updateGuideRates_phase_def guideRateValue_RESV)
      with Some True show ?thesis
        by simp
    next
      case False
      with Some Cons.prems obtain v where "guideRateValue grp pu wellState p c = Inr v"
        using guideRateValue_supported [of c pu wellState grp p] by auto
      with Some have "updateGuideRates_phase compute grp pu wellState p gr
                        = Inr (compute (gname grp) p v gr)"
        by (simp add: updateGuideRates_phase_def)
      with Some False Cons show ?thesis
        by simp
    qed
  qed
qed

lemma foldE_first_error:
  assumes "\<And>x s. x \<in> set xs \<Longrightarrow>
             (if \<exists>b\<in>set (S x). bad b then \<exists>b\<in>set (S x). bad b \<and> f x s = Inl (err b)
              else \<exists>s'. f x s = Inr s')"
  shows "if \<exists>b\<in>set (concat (map S xs)). bad b
         then \<exists>b\<in>set (concat (map S xs)). bad b \<and> foldE f xs s = Inl (err b)
         else \<exists>s'. foldE f xs s = Inr s'"
  using assms
proof (induction xs arbitrary: s)
  case Nil
  then show ?case by simp
next
  case (Cons x xs)
  have hd: "if \<exists>b\<in>set (S x). bad b then \<exists>b\<in>set (S x). bad b \<and> f x s = Inl (err b)
            else \<exists>s'. f x s = Inr s'"
    by (rule Cons.prems) simp
  show ?case
  proof (cases "\<exists>b\<in>set (S x). bad b")
    case True
    with hd obtain b where "b \<in> set (S x)" "bad b" "f x s = Inl (err b)"
      by auto
    then show ?thesis
      by auto
  next
    case False
    with hd obtain s1 where s1: "f x s = Inr s1"
      by auto
    have tl: "if \<exists>b\<in>set (concat (map S xs)). bad b
         then \<exists>b\<in>set (concat (map S xs)). bad b \<and> foldE f xs s1 = Inl (err b)
         else \<exists>s'. foldE f xs s1 = Inr s'"
      by (rule Cons.IH) (simp add: Cons.prems)
    show ?thesis
    proof (cases "\<exists>b\<in>set (concat (map S xs)). bad b")
      case True
      with tl obtain b where "b \<in> set (concat (map S xs))" "bad b" "foldE f xs s1 = Inl (err b)"
        by auto
      with s1 show ?thesis
        by auto
    next
      case no: False
      with tl obtain s2 where "foldE f xs s1 = Inr s2"
        by auto
      with s1 False no show ?thesis
        by auto
    qed
  qed
qed

lemma updateGuideRates_dichotomy:
  assumes "acyclicWithin fuel schedule grp"
    and "\<forall>g\<in>set (subtreeGroups fuel schedule grp). guideRateInputsOk pu wellState g"
  shows "if \<exists>g\<in>set (subtreeGroups fuel schedule grp). declaresRESV g
         then \<exists>g\<in>set (subtreeGroups fuel schedule grp). declaresRESV g
                \<and> updateGuideRatesForInjectionGroups fuel compute grp schedule pu wellState gr
                    = Inl (RuntimeError (resvNotImplemented (gname g)))
         else \<exists>gr'. updateGuideRatesForInjectionGroups fuel compute grp schedule pu wellState gr
                = Inr gr'"
  using assms
proof (induction fuel arbitrary: grp gr)
  case 0
  then show ?case by simp
next
  case (Suc fuel)
  define sub where "sub = (\<lambda>c. case sched_groups schedule c of
                                  None \<Rightarrow> [] | Some cg \<Rightarrow> subtreeGroups fuel schedule cg)"
  define step where "step = (\<lambda>groupName gr.
              bindE (getGroup schedule groupName) (\<lambda>groupTmp.
              updateGuideRatesForInjectionGroups fuel compute groupTmp schedule pu wellState gr))"
  have one: "if \<exists>b\<in>set (sub c). declaresRESV b
             then \<exists>b\<in>set (sub c). declaresRESV b
                    \<and> step c s = Inl (RuntimeError (resvNotImplemented (gname b)))
             else \<exists>s'. step c s = Inr s'"
    if "c \<in> set (groups grp)" for c s
  proof -
    from that Suc.prems(1) obtain cg where
        cg: "sched_groups schedule c = Some cg" and ac: "acyclicWithin fuel schedule cg"
      by (auto simp: list_all_iff split: option.splits)
    from that cg Suc.prems(2)
    have ok: "\<forall>g\<in>set (subtreeGroups fuel schedule cg). guideRateInputsOk pu wellState g"
      by (fastforce simp: cg)
    have "step c s = updateGuideRatesForInjectionGroups fuel compute cg schedule pu wellState s"
      by (simp add: step_def getGroup_def cg)
    moreover have "sub c = subtreeGroups fuel schedule cg"
      by (simp add: sub_def cg)
    ultimately show ?thesis
      using Suc.IH [OF ac ok, of s] by simp
  qed
  have children: "if \<exists>b\<in>set (concat (map sub (groups grp))). declaresRESV b
         then \<exists>b\<in>set (concat (map sub (groups grp))). declaresRESV b
                \<and> foldE step (groups grp) gr = Inl (RuntimeError (resvNotImplemented (gname b)))
         else \<exists>s'. foldE step (groups grp) gr = Inr s'"
    by (rule foldE_first_error) (rule one)
  have unfold: "updateGuideRatesForInjectionGroups (Suc fuel) compute grp schedule pu wellState gr
      = bindE (foldE step (groups grp) gr)
          (foldE (updateGuideRates_phase compute grp pu wellState) [WATER, OIL, GAS])"
    by (simp add: step_def)
  have subtree: "subtreeGroups (Suc fuel) schedule grp = grp # concat (map sub (groups grp))"
    by (simp add: sub_def)
  from Suc.prems(2) have okg: "guideRateInputsOk pu wellState grp" by simp
  then have okp: "\<forall>phase\<in>set [WATER, OIL, GAS]. case injectionControls grp phase of
              None \<Rightarrow> True
            | Some c \<Rightarrow> guide_rate_def c \<noteq> GRI_other
                \<and> (guide_rate_def c = GRI_VOID \<or> guide_rate_def c = GRI_NETV
                      \<longrightarrow> voidageReadable pu wellState grp)"
    by (simp add: guideRateInputsOk_def)
  note ph = phases_fold [OF okp, of compute, unfolded declaresRESV_def [symmetric]]
  show ?case
    unfolding unfold subtree
  proof (cases "\<exists>b\<in>set (concat (map sub (groups grp))). declaresRESV b")
    case True
    with children obtain b where "b \<in> set (concat (map sub (groups grp)))" "declaresRESV b"
      "foldE step (groups grp) gr = Inl (RuntimeError (resvNotImplemented (gname b)))"
      by auto
    then show "if \<exists>g\<in>set (grp # concat (map sub (groups grp))). declaresRESV g
      then \<exists>g\<in>set (grp # concat (map sub (groups grp))). declaresRESV g \<and>
         bindE (foldE step (groups grp) gr)
            (foldE (updateGuideRates_phase compute grp pu wellState) [WATER, OIL, GAS]) =
           Inl (RuntimeError (resvNotImplemented (gname g)))
      else \<exists>gr'. bindE (foldE step (groups grp) gr)
            (foldE (updateGuideRates_phase compute grp pu wellState) [WATER, OIL, GAS]) = Inr gr'"
      by auto
  next
    case False
    with children obtain gr1 where f: "foldE step (groups grp) gr = Inr gr1"
      by auto
    show "if \<exists>g\<in>set (grp # concat (map sub (groups grp))). declaresRESV g
      then \<exists>g\<in>set (grp # concat (map sub (groups grp))). declaresRESV g \<and>
         bindE (foldE step (groups grp) gr)
            (foldE (updateGuideRates_phase compute grp pu wellState) [WATER, OIL, GAS]) =
           Inl (RuntimeError (resvNotImplemented (gname g)))
      else \<exists>gr'. bindE (foldE step (groups grp) gr)
            (foldE (updateGuideRates_phase compute grp pu wellState) [WATER, OIL, GAS]) = Inr gr'"
    proof (cases "declaresRESV grp")
      case True
      with ph [of gr1] have "foldE (updateGuideRates_phase compute grp pu wellState)
          [WATER, OIL, GAS] gr1 = Inl (RuntimeError (resvNotImplemented (gname grp)))"
        by simp
      with True show ?thesis
        by (auto simp: f)
    next
      case no: False
      with ph [of gr1] obtain gr2 where "foldE (updateGuideRates_phase compute grp pu wellState)
          [WATER, OIL, GAS] gr1 = Inr gr2"
        by auto
      with no False show ?thesis
        by (auto simp: f)
    qed
  qed
qed

text \<open>
  Claim C7. Let the group tree below \<open>grp\<close> be acyclic, let no injection control in
  it hold a value outside the enumeration, and let the well state hold the rates that
  the targets \<^verbatim>\<open>VOID\<close> and \<^verbatim>\<open>NETV\<close> read. If some group of the tree declares the
  guide-rate target \<^verbatim>\<open>RESV\<close> for a phase, \<open>updateGuideRatesForInjectionGroups\<close>
  throws the runtime error whose message ends with the name of such a group, and
  returns no registry. If no group does, it returns a registry and throws nothing.
\<close>

theorem updateGuideRates_RESV_is_fatal:
  assumes "acyclicWithin fuel schedule grp"
    and "\<forall>g\<in>set (subtreeGroups fuel schedule grp). guideRateInputsOk pu wellState g"
  shows "((\<exists>g\<in>set (subtreeGroups fuel schedule grp). declaresRESV g) \<longrightarrow>
            (\<exists>g\<in>set (subtreeGroups fuel schedule grp). declaresRESV g
               \<and> updateGuideRatesForInjectionGroups fuel compute grp schedule pu wellState gr
                   = Inl (RuntimeError (''GUIDE PHASE RESV not implemented. Group '' @ gname g))))
       \<and> ((\<forall>g\<in>set (subtreeGroups fuel schedule grp). \<not> declaresRESV g) \<longrightarrow>
            (\<exists>gr'. updateGuideRatesForInjectionGroups fuel compute grp schedule pu wellState gr
                     = Inr gr'))"
  using updateGuideRates_dichotomy [OF assms, of compute gr]
  by (auto simp: resvNotImplemented_def split: if_splits)

theorem updateGuideRates_RESV_is_fatal_witness:
  "updateGuideRatesForInjectionGroups (Suc (Suc 0)) (\<lambda>n p v gr. (n, p, v) # gr) scn_FIELD
     scn_resv_schedule scn_pu (scn_inj_wellState [30, 0, 0] [10, 0, 0]) []
     = Inl (RuntimeError ''GUIDE PHASE RESV not implemented. Group G1'')
   \<and> (\<exists>gr'. updateGuideRatesForInjectionGroups (Suc (Suc 0)) (\<lambda>n p v gr. (n, p, v) # gr) scn_FIELD
     scn_inj_schedule scn_pu (scn_inj_wellState [30, 0, 0] [10, 0, 0]) [] = Inr gr')"
proof -
  let ?ws = "scn_inj_wellState [30, 0, 0] [10, 0, 0]"
  have sub1: "subtreeGroups (Suc (Suc 0)) scn_resv_schedule scn_FIELD = [scn_FIELD, scn_resv_G1]"
    by (simp add: scn_resv_schedule_def scn_resv_G1_def scn_inj_G1_def scn_defs)
  have sub2: "subtreeGroups (Suc (Suc 0)) scn_inj_schedule scn_FIELD = [scn_FIELD, scn_inj_G1]"
    by (simp add: scn_inj_schedule_def scn_inj_G1_def scn_defs)
  have d: "\<not> declaresRESV scn_FIELD" "declaresRESV scn_resv_G1" "\<not> declaresRESV scn_inj_G1"
    by (simp_all add: declaresRESV_def scn_resv_G1_def scn_inj_G1_def scn_defs)
  have ok: "guideRateInputsOk scn_pu ?ws scn_FIELD" "guideRateInputsOk scn_pu ?ws scn_resv_G1"
    "guideRateInputsOk scn_pu ?ws scn_inj_G1"
    by (simp_all add: guideRateInputsOk_def scn_resv_G1_def scn_inj_G1_def scn_defs)
  have a1: "acyclicWithin (Suc (Suc 0)) scn_resv_schedule scn_FIELD"
    by (simp add: scn_resv_schedule_def scn_resv_G1_def scn_inj_G1_def scn_defs)
  have a2: "acyclicWithin (Suc (Suc 0)) scn_inj_schedule scn_FIELD"
    by (simp add: scn_inj_schedule_def scn_inj_G1_def scn_defs)
  have o1: "\<forall>g\<in>set (subtreeGroups (Suc (Suc 0)) scn_resv_schedule scn_FIELD).
              guideRateInputsOk scn_pu ?ws g"
    unfolding sub1 using ok by simp
  have o2: "\<forall>g\<in>set (subtreeGroups (Suc (Suc 0)) scn_inj_schedule scn_FIELD).
              guideRateInputsOk scn_pu ?ws g"
    unfolding sub2 using ok by simp
  have n: "gname scn_resv_G1 = ''G1''"
    by (simp add: scn_resv_G1_def scn_inj_G1_def scn_defs)
  from updateGuideRates_RESV_is_fatal [OF a1 o1, of "\<lambda>n p v gr. (n, p, v) # gr" "[]", unfolded sub1]
       updateGuideRates_RESV_is_fatal [OF a2 o2, of "\<lambda>n p v gr. (n, p, v) # gr" "[]", unfolded sub2]
  show ?thesis
    using d n by simp
qed

subsection \<open>Loops that keep or establish a property of the state\<close>

lemma foldE_invariant:
  assumes "foldE f xs s = Inr s'"
    and "\<And>x s s'. x \<in> set xs \<Longrightarrow> f x s = Inr s' \<Longrightarrow> I s \<Longrightarrow> I s'"
    and "I s"
  shows "I s'"
  using assms
proof (induction xs arbitrary: s)
  case Nil
  then show ?case by simp
next
  case (Cons x xs)
  from Cons.prems(1) obtain s1 where s1: "f x s = Inr s1" and r: "foldE f xs s1 = Inr s'"
    by (auto simp: bindE_eq_Inr)
  have i1: "I s1"
    by (rule Cons.prems(2) [of x s s1]) (simp_all add: s1 Cons.prems(3))
  show ?case
  proof (rule Cons.IH [OF r _ i1])
    fix y t t'
    assume "y \<in> set xs" "f y t = Inr t'" "I t"
    then show "I t'"
      using Cons.prems(2) [of y t t'] by simp
  qed
qed

lemma foldE_establish:
  assumes "foldE f xs s = Inr s'" and "x \<in> set xs"
    and p: "\<And>y s s'. y \<in> set xs \<Longrightarrow> f y s = Inr s' \<Longrightarrow> P s \<Longrightarrow> P s'"
    and q: "\<And>y s s'. y \<in> set xs \<Longrightarrow> f y s = Inr s' \<Longrightarrow> Q s \<Longrightarrow> Q s'"
    and e: "\<And>s s'. f x s = Inr s' \<Longrightarrow> P s \<Longrightarrow> Q s'"
    and "P s"
  shows "Q s'"
  using assms
proof (induction xs arbitrary: s)
  case Nil
  then show ?case by simp
next
  case (Cons y ys)
  from Cons.prems(1) obtain s1 where s1: "f y s = Inr s1" and r: "foldE f ys s1 = Inr s'"
    by (auto simp: bindE_eq_Inr)
  show ?case
  proof (cases "x = y")
    case True
    with s1 Cons.prems(5,6) have q1: "Q s1" by blast
    show ?thesis
    proof (rule foldE_invariant [where I = Q, OF r _ q1])
      fix z t t'
      assume "z \<in> set ys" "f z t = Inr t'" "Q t"
      then show "Q t'"
        using Cons.prems(4) [of z t t'] by simp
    qed
  next
    case False
    with Cons.prems(2) have mem: "x \<in> set ys" by simp
    have p1: "P s1"
      by (rule Cons.prems(3) [of y s s1]) (simp_all add: s1 Cons.prems(6))
    show ?thesis
    proof (rule Cons.IH [OF r mem _ _ _ p1])
      fix z t t'
      assume "z \<in> set ys" "f z t = Inr t'" "P t"
      then show "P t'"
        using Cons.prems(3) [of z t t'] by simp
    next
      fix z t t'
      assume "z \<in> set ys" "f z t = Inr t'" "Q t"
      then show "Q t'"
        using Cons.prems(4) [of z t t'] by simp
    next
      fix t t'
      assume "f x t = Inr t'" "P t"
      then show "Q t'"
        by (rule Cons.prems(5))
    qed
  qed
qed

lemma foldE_total:
  assumes "\<And>x s. x \<in> set xs \<Longrightarrow> \<exists>s'. f x s = Inr s'"
  shows "\<exists>s'. foldE f xs s = Inr s'"
  using assms
proof (induction xs arbitrary: s)
  case Nil
  then show ?case by simp
next
  case (Cons x xs)
  then obtain s1 where "f x s = Inr s1" by fastforce
  with Cons show ?case by simp
qed

subsection \<open>Seeding the group controls\<close>

lemma setCmodeGroup_total:
  "acyclicWithin fuel schedule grp \<Longrightarrow>
   \<exists>ws'. setCmodeGroup fuel grp schedule wellState group_state = Inr ws'"
proof (induction fuel arbitrary: grp wellState)
  case 0
  then show ?case by simp
next
  case (Suc fuel)
  have "\<exists>s'. foldE (\<lambda>groupName ws. bindE (getGroup schedule groupName)
            (\<lambda>g. setCmodeGroup fuel g schedule ws group_state)) (groups grp) wellState = Inr s'"
  proof (rule foldE_total)
    fix c s
    assume "c \<in> set (groups grp)"
    with Suc.prems obtain cg where "sched_groups schedule c = Some cg"
      "acyclicWithin fuel schedule cg"
      by (auto simp: list_all_iff split: option.splits)
    with Suc.IH [of cg s]
    show "\<exists>s'. bindE (getGroup schedule c) (\<lambda>g. setCmodeGroup fuel g schedule s group_state) = Inr s'"
      by (simp add: getGroup_def)
  qed
  then show ?case by auto
qed

lemma setCmodeGroup_preserves:
  assumes "setCmodeGroup fuel grp schedule ws group_state = Inr ws'"
    and "\<And>h w. h \<in> set (subtreeGroups fuel schedule grp) \<Longrightarrow> I w
           \<Longrightarrow> I (setCmodeGroup_local h schedule group_state w)"
    and "I ws"
  shows "I ws'"
  using assms
proof (induction fuel arbitrary: grp ws ws')
  case 0
  then show ?case by simp
next
  case (Suc fuel)
  let ?step = "\<lambda>groupName ws. bindE (getGroup schedule groupName)
            (\<lambda>g. setCmodeGroup fuel g schedule ws group_state)"
  from Suc.prems(1) obtain w1 where f: "foldE ?step (groups grp) ws = Inr w1"
    and w: "ws' = setCmodeGroup_local grp schedule group_state w1"
    by (auto simp: bindE_eq_Inr)
  have "I w1"
  proof (rule foldE_invariant [where I = I, OF f _ Suc.prems(3)])
    fix c s s'
    assume c: "c \<in> set (groups grp)" and st: "?step c s = Inr s'" and i: "I s"
    from st obtain cg where cg: "sched_groups schedule c = Some cg"
      and r: "setCmodeGroup fuel cg schedule s group_state = Inr s'"
      by (auto simp: getGroup_def bindE_eq_Inr split: option.splits)
    show "I s'"
    proof (rule Suc.IH [OF r _ i])
      fix h w
      assume "h \<in> set (subtreeGroups fuel schedule cg)" and "I w"
      with c cg Suc.prems(2) [of h w] show "I (setCmodeGroup_local h schedule group_state w)"
        by (fastforce simp: cg)
    qed
  qed
  with Suc.prems(2) [of grp w1] w show ?case
    by simp
qed

lemma setCmodeGroup_establishes:
  assumes "setCmodeGroup fuel grp schedule ws group_state = Inr ws'"
    and "g \<in> set (subtreeGroups fuel schedule grp)"
    and p: "\<And>h w. h \<in> set (subtreeGroups fuel schedule grp) \<Longrightarrow> P w
           \<Longrightarrow> P (setCmodeGroup_local h schedule group_state w)"
    and q: "\<And>h w. h \<in> set (subtreeGroups fuel schedule grp) \<Longrightarrow> Q w
           \<Longrightarrow> Q (setCmodeGroup_local h schedule group_state w)"
    and e: "\<And>w. P w \<Longrightarrow> Q (setCmodeGroup_local g schedule group_state w)"
    and "P ws"
  shows "Q ws'"
  using assms
proof (induction fuel arbitrary: grp ws ws')
  case 0
  then show ?case by simp
next
  case (Suc fuel)
  let ?step = "\<lambda>groupName ws. bindE (getGroup schedule groupName)
            (\<lambda>g. setCmodeGroup fuel g schedule ws group_state)"
  from Suc.prems(1) obtain w1 where f: "foldE ?step (groups grp) ws = Inr w1"
    and w: "ws' = setCmodeGroup_local grp schedule group_state w1"
    by (auto simp: bindE_eq_Inr)
  have sub: "h \<in> set (subtreeGroups (Suc fuel) schedule grp)"
    if "c \<in> set (groups grp)" "sched_groups schedule c = Some cg"
      "h \<in> set (subtreeGroups fuel schedule cg)" for c cg h
    using that by (fastforce simp: that(2))
  have pstep: "P s'" if "c \<in> set (groups grp)" "?step c s = Inr s'" "P s" for c s s'
  proof -
    from that(2) obtain cg where cg: "sched_groups schedule c = Some cg"
      and r: "setCmodeGroup fuel cg schedule s group_state = Inr s'"
      by (auto simp: getGroup_def bindE_eq_Inr split: option.splits)
    show ?thesis
      by (rule setCmodeGroup_preserves [where I = P, OF r _ that(3)])
        (rule Suc.prems(3) [OF sub [OF that(1) cg]])
  qed
  have qstep: "Q s'" if "c \<in> set (groups grp)" "?step c s = Inr s'" "Q s" for c s s'
  proof -
    from that(2) obtain cg where cg: "sched_groups schedule c = Some cg"
      and r: "setCmodeGroup fuel cg schedule s group_state = Inr s'"
      by (auto simp: getGroup_def bindE_eq_Inr split: option.splits)
    show ?thesis
      by (rule setCmodeGroup_preserves [where I = Q, OF r _ that(3)])
        (rule Suc.prems(4) [OF sub [OF that(1) cg]])
  qed
  have "P w1"
    by (rule foldE_invariant [where I = P, OF f _ Suc.prems(6)]) (rule pstep)
  show ?case
  proof (cases "g = grp")
    case True
    with \<open>P w1\<close> Suc.prems(5) w show ?thesis by simp
  next
    case False
    with Suc.prems(2) obtain c cg where c: "c \<in> set (groups grp)"
      and cg: "sched_groups schedule c = Some cg"
      and g: "g \<in> set (subtreeGroups fuel schedule cg)"
      by (auto split: option.splits) metis
    have "Q w1"
    proof (rule foldE_establish [where P = P and Q = Q, OF f c pstep qstep _ Suc.prems(6)])
      fix s s'
      assume st: "?step c s = Inr s'" and ps: "P s"
      from st cg have r: "setCmodeGroup fuel cg schedule s group_state = Inr s'"
        by (simp add: getGroup_def)
      show "Q s'"
      proof (rule Suc.IH [OF r g _ _ Suc.prems(5) ps])
        fix h w
        assume "h \<in> set (subtreeGroups fuel schedule cg)" "P w"
        then show "P (setCmodeGroup_local h schedule group_state w)"
          using Suc.prems(3) [OF sub [OF c cg]] by simp
      next
        fix h w
        assume "h \<in> set (subtreeGroups fuel schedule cg)" "Q w"
        then show "Q (setCmodeGroup_local h schedule group_state w)"
          using Suc.prems(4) [OF sub [OF c cg]] by simp
      qed
    qed
    with Suc.prems(4) [of grp w1] w show ?thesis by simp
  qed
qed

lemma seed_fold_prod:
  "productionGroupControl
     (fold (\<lambda>phase ws. if \<not> hasInjectionGroupControl ws phase k
                         then setCurrentInjectionGroupControl phase k Inj_NONE ws else ws) ps w)
   = productionGroupControl w"
  by (induction ps arbitrary: w) (simp_all add: setCurrentInjectionGroupControl_def)

lemma event_fold_prod:
  "productionGroupControl
     (fold (\<lambda>phase ws. case injectionControls h phase of
                          None \<Rightarrow> ws
                        | Some controls \<Rightarrow>
                            setCurrentInjectionGroupControl phase k (inj_cmode controls) ws) ps w)
   = productionGroupControl w"
  by (induction ps arbitrary: w)
    (simp_all add: setCurrentInjectionGroupControl_def split: option.splits)

lemma seed_fold_inj:
  "injectionGroupControl
     (fold (\<lambda>phase ws. if \<not> hasInjectionGroupControl ws phase k
                         then setCurrentInjectionGroupControl phase k Inj_NONE ws else ws) ps w)
     (phase, k')
   = (if k' = k \<and> phase \<in> set ps \<and> injectionGroupControl w (phase, k') = None
      then Some Inj_NONE else injectionGroupControl w (phase, k'))"
  by (induction ps arbitrary: w)
    (auto simp: setCurrentInjectionGroupControl_def hasInjectionGroupControl_def)

lemma event_fold_inj:
  "injectionGroupControl
     (fold (\<lambda>phase ws. case injectionControls h phase of
                          None \<Rightarrow> ws
                        | Some controls \<Rightarrow>
                            setCurrentInjectionGroupControl phase k (inj_cmode controls) ws) ps w)
     (phase, k')
   = (if k' = k \<and> phase \<in> set ps
      then (case injectionControls h phase of
              None \<Rightarrow> injectionGroupControl w (phase, k')
            | Some controls \<Rightarrow> Some (inj_cmode controls))
      else injectionGroupControl w (phase, k'))"
  by (induction ps arbitrary: w)
    (auto simp: setCurrentInjectionGroupControl_def split: option.splits)

lemma all_phases: "phase \<in> set [WATER, OIL, GAS]"
  by (cases phase) simp_all

lemma inj_of_setProd:
  "injectionGroupControl (setCurrentProductionGroupControl n c ws) = injectionGroupControl ws"
  by (simp add: setCurrentProductionGroupControl_def)

lemma prod_of_setInj:
  "productionGroupControl (setCurrentInjectionGroupControl p n c ws) = productionGroupControl ws"
  by (simp add: setCurrentInjectionGroupControl_def)

lemma prod_of_setProd:
  "productionGroupControl (setCurrentProductionGroupControl n c ws)
   = (productionGroupControl ws)(n \<mapsto> c)"
  by (simp add: setCurrentProductionGroupControl_def)

lemma inj_of_setInj:
  "injectionGroupControl (setCurrentInjectionGroupControl p n c ws)
   = (injectionGroupControl ws)((p, n) \<mapsto> c)"
  by (simp add: setCurrentInjectionGroupControl_def)

lemma local_prod:
  "productionGroupControl (setCmodeGroup_local h schedule gs w) k
   = (if k = gname h then
        (if isProductionGroup h \<and> hasEvent schedule (gname h) GROUP_PRODUCTION_UPDATE
         then Some (prod_cmode (productionControls h))
         else if \<not> has_production_control gs (gname h) then Some Prod_NONE
         else productionGroupControl w k)
      else productionGroupControl w k)"
  unfolding setCmodeGroup_local_def Let_def
  by (simp add: seed_fold_prod event_fold_prod prod_of_setInj prod_of_setProd del: fold.simps)

lemma local_inj:
  "injectionGroupControl (setCmodeGroup_local h schedule gs w) (phase, k)
   = (if k = gname h then
        (if phase = GAS \<and> gconsale schedule (gname h) \<noteq> None then Some Inj_SALE
         else if isInjectionGroup h \<and> hasEvent schedule (gname h) GROUP_INJECTION_UPDATE
                 \<and> injectionControls h phase \<noteq> None
         then map_option inj_cmode (injectionControls h phase)
         else if injectionGroupControl w (phase, k) = None then Some Inj_NONE
         else injectionGroupControl w (phase, k))
      else injectionGroupControl w (phase, k))"
  unfolding setCmodeGroup_local_def Let_def
  using all_phases [of phase]
  by (auto simp add: seed_fold_inj event_fold_inj inj_of_setInj inj_of_setProd
      simp del: fold.simps set_simps)

lemma local_inj_keeps:
  "injectionGroupControl w k \<noteq> None \<Longrightarrow>
   injectionGroupControl (setCmodeGroup_local h schedule gs w) k \<noteq> None"
  by (cases k) (auto simp: local_inj)

lemma local_inj_defined:
  "injectionGroupControl (setCmodeGroup_local h schedule gs w) (phase, gname h) \<noteq> None"
  by (auto simp: local_inj)

lemma local_inj_other:
  "gname h \<noteq> k \<Longrightarrow>
   injectionGroupControl (setCmodeGroup_local h schedule gs w) (phase, k)
     = injectionGroupControl w (phase, k)"
  by (simp add: local_inj)

lemma local_inj_none:
  assumes "\<not> suppliesInjectionControl schedule h phase"
    and "injectionGroupControl w (phase, gname h) = None
         \<or> injectionGroupControl w (phase, gname h) = Some Inj_NONE"
  shows "injectionGroupControl (setCmodeGroup_local h schedule gs w) (phase, gname h) = Some Inj_NONE"
  using assms
  by (auto simp: local_inj suppliesInjectionControl_def)

lemma local_prod_keeps:
  "productionGroupControl w k \<noteq> None \<Longrightarrow>
   productionGroupControl (setCmodeGroup_local h schedule gs w) k \<noteq> None"
  by (auto simp: local_prod)

lemma local_prod_defined:
  "\<not> has_production_control gs (gname h) \<Longrightarrow>
   productionGroupControl (setCmodeGroup_local h schedule gs w) (gname h) \<noteq> None"
  by (simp add: local_prod)

lemma local_prod_other:
  "gname h \<noteq> k \<Longrightarrow>
   productionGroupControl (setCmodeGroup_local h schedule gs w) k = productionGroupControl w k"
  by (simp add: local_prod)

lemma local_prod_none:
  "\<not> has_production_control gs (gname h) \<Longrightarrow> \<not> suppliesProductionControl schedule h \<Longrightarrow>
   productionGroupControl (setCmodeGroup_local h schedule gs w) (gname h) = Some Prod_NONE"
  by (auto simp: local_prod suppliesProductionControl_def)

lemma setCmodeGroup_inj_defined:
  assumes "setCmodeGroup fuel grp schedule ws gs = Inr ws'"
    and "g \<in> set (subtreeGroups fuel schedule grp)"
  shows "hasInjectionGroupControl ws' phase (gname g)"
  unfolding hasInjectionGroupControl_def
  by (rule setCmodeGroup_establishes
        [where P = "\<lambda>w. True" and Q = "\<lambda>w. injectionGroupControl w (phase, gname g) \<noteq> None",
         OF assms])
     (simp_all add: local_inj_keeps local_inj_defined)

lemma setCmodeGroup_inj_none:
  assumes "setCmodeGroup fuel grp schedule ws gs = Inr ws'"
    and "g \<in> set (subtreeGroups fuel schedule grp)"
    and "\<not> hasInjectionGroupControl ws phase (gname g)"
    and "\<forall>h\<in>set (subtreeGroups fuel schedule grp).
           gname h = gname g \<longrightarrow> \<not> suppliesInjectionControl schedule h phase"
  shows "injectionGroupControl ws' (phase, gname g) = Some Inj_NONE"
proof (rule setCmodeGroup_establishes
        [where P = "\<lambda>w. injectionGroupControl w (phase, gname g) = None
                       \<or> injectionGroupControl w (phase, gname g) = Some Inj_NONE"
           and Q = "\<lambda>w. injectionGroupControl w (phase, gname g) = Some Inj_NONE",
         OF assms(1,2)])
  fix h and w :: WellState
  assume h: "h \<in> set (subtreeGroups fuel schedule grp)"
    and w: "injectionGroupControl w (phase, gname g) = None
              \<or> injectionGroupControl w (phase, gname g) = Some Inj_NONE"
  show "injectionGroupControl (setCmodeGroup_local h schedule gs w) (phase, gname g) = None
        \<or> injectionGroupControl (setCmodeGroup_local h schedule gs w) (phase, gname g) = Some Inj_NONE"
  proof (cases "gname h = gname g")
    case True
    with h assms(4) w local_inj_none [of schedule h phase w gs] show ?thesis by simp
  next
    case False
    with w show ?thesis by (simp add: local_inj_other)
  qed
next
  fix h and w :: WellState
  assume h: "h \<in> set (subtreeGroups fuel schedule grp)"
    and w: "injectionGroupControl w (phase, gname g) = Some Inj_NONE"
  show "injectionGroupControl (setCmodeGroup_local h schedule gs w) (phase, gname g) = Some Inj_NONE"
  proof (cases "gname h = gname g")
    case True
    with h assms(4) w local_inj_none [of schedule h phase w gs] show ?thesis by simp
  next
    case False
    with w show ?thesis by (simp add: local_inj_other)
  qed
next
  fix w :: WellState
  assume "injectionGroupControl w (phase, gname g) = None
            \<or> injectionGroupControl w (phase, gname g) = Some Inj_NONE"
  with assms(2,4) show "injectionGroupControl (setCmodeGroup_local g schedule gs w) (phase, gname g)
      = Some Inj_NONE"
    by (simp add: local_inj_none)
next
  from assms(3) show "injectionGroupControl ws (phase, gname g) = None
      \<or> injectionGroupControl ws (phase, gname g) = Some Inj_NONE"
    by (simp add: hasInjectionGroupControl_def)
qed

lemma setCmodeGroup_prod_defined:
  assumes "setCmodeGroup fuel grp schedule ws gs = Inr ws'"
    and "g \<in> set (subtreeGroups fuel schedule grp)"
    and "\<not> has_production_control gs (gname g)"
  shows "hasProductionGroupControl ws' (gname g)"
  unfolding hasProductionGroupControl_def
  by (rule setCmodeGroup_establishes
        [where P = "\<lambda>w. True" and Q = "\<lambda>w. productionGroupControl w (gname g) \<noteq> None",
         OF assms(1,2)])
     (simp_all add: local_prod_keeps local_prod_defined assms(3))

lemma setCmodeGroup_prod_none:
  assumes "setCmodeGroup fuel grp schedule ws gs = Inr ws'"
    and "g \<in> set (subtreeGroups fuel schedule grp)"
    and "\<not> has_production_control gs (gname g)"
    and "\<forall>h\<in>set (subtreeGroups fuel schedule grp).
           gname h = gname g \<longrightarrow> \<not> suppliesProductionControl schedule h"
  shows "productionGroupControl ws' (gname g) = Some Prod_NONE"
proof (rule setCmodeGroup_establishes
        [where P = "\<lambda>w. True" and Q = "\<lambda>w. productionGroupControl w (gname g) = Some Prod_NONE",
         OF assms(1,2)])
  fix h and w :: WellState
  assume h: "h \<in> set (subtreeGroups fuel schedule grp)"
    and w: "productionGroupControl w (gname g) = Some Prod_NONE"
  show "productionGroupControl (setCmodeGroup_local h schedule gs w) (gname g) = Some Prod_NONE"
  proof (cases "gname h = gname g")
    case True
    with h assms(3,4) local_prod_none [of gs h schedule w] show ?thesis by simp
  next
    case False
    with w show ?thesis by (simp add: local_prod_other)
  qed
next
  fix w :: WellState
  from assms(2,3,4) show "productionGroupControl (setCmodeGroup_local g schedule gs w) (gname g)
      = Some Prod_NONE"
    by (simp add: local_prod_none)
qed simp_all

text \<open>
  Claim C10. For an acyclic group tree \<open>setCmodeGroup\<close> returns. When it has
  returned, every group \<open>g\<close> of the subtree has an injection group control in the
  well state for each of the three phases, and a production group control: one that
  the group state handed to the function holds, or one in the well state. The
  injection control of a phase is \<^verbatim>\<open>NONE\<close> when the well state held none before
  the call and the schedule supplies none for a group of that name; the production
  control is \<^verbatim>\<open>NONE\<close> when the group state held none and the schedule supplies
  none.
\<close>

theorem setCmodeGroup_controls_defined:
  "(acyclicWithin fuel schedule grp \<longrightarrow>
      (\<exists>ws. setCmodeGroup fuel grp schedule wellState group_state = Inr ws))
   \<and> (setCmodeGroup fuel grp schedule wellState group_state = Inr ws'
        \<and> g \<in> set (subtreeGroups fuel schedule grp) \<longrightarrow>
      (\<forall>phase. hasInjectionGroupControl ws' phase (gname g)
         \<and> (\<not> hasInjectionGroupControl wellState phase (gname g)
              \<and> (\<forall>h\<in>set (subtreeGroups fuel schedule grp).
                    gname h = gname g \<longrightarrow> \<not> suppliesInjectionControl schedule h phase)
            \<longrightarrow> injectionGroupControl ws' (phase, gname g) = Some Inj_NONE))
      \<and> (has_production_control group_state (gname g) \<or> hasProductionGroupControl ws' (gname g))
      \<and> (\<not> has_production_control group_state (gname g)
           \<and> (\<forall>h\<in>set (subtreeGroups fuel schedule grp).
                 gname h = gname g \<longrightarrow> \<not> suppliesProductionControl schedule h)
         \<longrightarrow> productionGroupControl ws' (gname g) = Some Prod_NONE))"
  using setCmodeGroup_total [of fuel schedule grp wellState group_state]
    setCmodeGroup_inj_defined [of fuel grp schedule wellState group_state ws' g]
    setCmodeGroup_inj_none [of fuel grp schedule wellState group_state ws' g]
    setCmodeGroup_prod_defined [of fuel grp schedule wellState group_state ws' g]
    setCmodeGroup_prod_none [of fuel grp schedule wellState group_state ws' g]
  by blast

theorem setCmodeGroup_controls_defined_witness:
  "\<exists>ws'. setCmodeGroup (Suc (Suc 0)) scn_FIELD (scn_schedule Prod_NONE)
            ((scn_wellState Prod_NONE [] [])\<lparr>productionGroupControl := Map.empty\<rparr>)
            \<lparr>production_controls = Map.empty\<rparr> = Inr ws'
     \<and> (\<forall>phase. injectionGroupControl ws' (phase, ''G1'') = Some Inj_NONE)
     \<and> productionGroupControl ws' ''G1'' = Some Prod_NONE"
proof -
  let ?s = "scn_schedule Prod_NONE"
  let ?w = "(scn_wellState Prod_NONE [] [])\<lparr>productionGroupControl := Map.empty\<rparr>"
  let ?gs = "\<lparr>production_controls = Map.empty\<rparr>"
  have sub: "subtreeGroups (Suc (Suc 0)) ?s scn_FIELD = [scn_FIELD, scn_G1 Prod_NONE]"
    by (simp add: scn_defs)
  have ac: "acyclicWithin (Suc (Suc 0)) ?s scn_FIELD"
    by (simp add: scn_defs)
  have n: "gname (scn_G1 Prod_NONE) = ''G1''" "gname scn_FIELD = ''FIELD''"
    by (simp_all add: scn_defs)
  have mem: "scn_G1 Prod_NONE \<in> set (subtreeGroups (Suc (Suc 0)) ?s scn_FIELD)"
    unfolding sub by simp
  have noinj: "\<not> hasInjectionGroupControl ?w phase ''G1''" for phase
    by (simp add: hasInjectionGroupControl_def scn_defs)
  have noprod: "\<not> has_production_control ?gs ''G1''"
    by (simp add: has_production_control_def)
  have nosup: "\<not> suppliesInjectionControl ?s (scn_G1 Prod_NONE) phase"
    "\<not> suppliesProductionControl ?s (scn_G1 Prod_NONE)" for phase
    by (simp_all add: suppliesInjectionControl_def suppliesProductionControl_def scn_defs)
  have supi: "\<forall>h\<in>set (subtreeGroups (Suc (Suc 0)) ?s scn_FIELD).
                gname h = gname (scn_G1 Prod_NONE) \<longrightarrow> \<not> suppliesInjectionControl ?s h phase"
    for phase
    unfolding sub using nosup n by simp
  have supp: "\<forall>h\<in>set (subtreeGroups (Suc (Suc 0)) ?s scn_FIELD).
                gname h = gname (scn_G1 Prod_NONE) \<longrightarrow> \<not> suppliesProductionControl ?s h"
    unfolding sub using nosup n by simp
  from setCmodeGroup_controls_defined [of "Suc (Suc 0)" ?s scn_FIELD ?w ?gs, THEN conjunct1] ac
  obtain ws' where r: "setCmodeGroup (Suc (Suc 0)) scn_FIELD ?s ?w ?gs = Inr ws'"
    by blast
  from setCmodeGroup_controls_defined
         [of "Suc (Suc 0)" ?s scn_FIELD ?w ?gs ws' "scn_G1 Prod_NONE", THEN conjunct2]
       r mem noinj noprod supi supp
  have "(\<forall>phase. injectionGroupControl ws' (phase, ''G1'') = Some Inj_NONE)
     \<and> productionGroupControl ws' ''G1'' = Some Prod_NONE"
    by (simp add: n)
  with r show ?thesis
    by blast
qed

subsection \<open>Network pressures\<close>

lemma foldE_append: "foldE f (xs @ ys) s = bindE (foldE f xs s) (foldE f ys)"
  by (induction xs arbitrary: s) (simp_all add: bindE_def split: sum.splits)

lemma network_pressure_keeps:
  assumes "network_pressure bhp network node_inflows nd np = Inr np'"
    and "k \<noteq> nd" and "np k = Some v"
  shows "np' k = Some v"
  using assms
  by (auto simp: network_pressure_def Let_def bindE_eq_Inr split: option.splits if_splits)

lemma network_pressure_fold_keeps:
  assumes "foldE (network_pressure bhp network node_inflows) xs np = Inr np'"
    and "k \<notin> set xs" and "np k = Some v"
  shows "np' k = Some v"
proof (rule foldE_invariant [where I = "\<lambda>m. m k = Some v", OF assms(1) _ assms(3)])
  fix x and s s' :: "name \<rightharpoonup> real"
  assume "x \<in> set xs" "network_pressure bhp network node_inflows x s = Inr s'" "s k = Some v"
  with assms(2) show "s' k = Some v"
    using network_pressure_keeps [of bhp network node_inflows x s s' k v] by auto
qed

lemma network_pressure_no_table:
  assumes "network_pressure bhp network node_inflows nd np = Inr np'"
    and "net_node network nd = Some nn" and "terminal_pressure nn = None"
    and "uptree_branch network nd = Some upbranch" and "vfp_table upbranch = None"
  shows "\<exists>p. np' nd = Some p \<and> np' (uptree_node upbranch) = Some p"
  using assms
  by (auto simp: network_pressure_def Let_def split: option.splits)

lemma computeNetworkPressures_no_table:
  assumes "computeNetworkPressures fuel bhp network well_state schedule = Inr node_pressures"
    and "net_active network"
    and "network_discover fuel network [net_root network] [] []
           = Inr (leaf_nodes, before @ nd # after)"
    and "nd \<notin> set after" and "uptree_node upbranch \<notin> set after"
    and "net_node network nd = Some nn" and "terminal_pressure nn = None"
    and "uptree_branch network nd = Some upbranch" and "vfp_table upbranch = None"
  shows "node_pressures nd = node_pressures (uptree_node upbranch) \<and> node_pressures nd \<noteq> None"
proof -
  from assms(1,2,3) obtain node_inflows where
    f: "foldE (network_pressure bhp network node_inflows) (before @ nd # after) Map.empty
          = Inr node_pressures"
    by (auto simp: computeNetworkPressures_def bindE_eq_Inr)
  then obtain np1 np2 where
      "foldE (network_pressure bhp network node_inflows) before Map.empty = Inr np1"
    and st: "network_pressure bhp network node_inflows nd np1 = Inr np2"
    and rest: "foldE (network_pressure bhp network node_inflows) after np2 = Inr node_pressures"
    by (auto simp: foldE_append bindE_eq_Inr)
  from network_pressure_no_table [OF st assms(6-9)] obtain p where
    p: "np2 nd = Some p" "np2 (uptree_node upbranch) = Some p"
    by blast
  from network_pressure_fold_keeps [OF rest assms(4) p(1)]
       network_pressure_fold_keeps [OF rest assms(5) p(2)]
  show ?thesis by simp
qed

lemma scn_network_pressures:
  "computeNetworkPressures (Suc (Suc fuel)) bhp scn_network (scn_net_wellState rates) schedule
   = Inr [''PLAT'' \<mapsto> 50, ''G1'' \<mapsto> 50]"
proof -
  have d: "network_discover (Suc (Suc fuel)) scn_network [''PLAT''] [] []
             = Inr ([''G1''], [''PLAT'', ''G1''])"
    by (simp add: scn_network_def scn_branch_def)
  have l: "foldE (network_leaf scn_network (scn_net_wellState rates) schedule) [''G1''] (\<lambda>nd. [])
             = Inr ((\<lambda>nd. [])(''G1'' := rates))"
    by (simp add: network_leaf_def currentProductionGroupRates_def lookupE_def
        scn_net_wellState_def scn_network_def)
  have a: "foldE (network_accumulate scn_network) [''G1'', ''PLAT''] ((\<lambda>nd. [])(''G1'' := rates))
             = Inr ((\<lambda>nd. [])(''G1'' := rates, ''PLAT'' := rates))"
    by (simp add: network_accumulate_def scn_network_def scn_branch_def)
  have p: "foldE (network_pressure bhp scn_network ((\<lambda>nd. [])(''G1'' := rates, ''PLAT'' := rates)))
             [''PLAT'', ''G1''] Map.empty = Inr [''PLAT'' \<mapsto> 50, ''G1'' \<mapsto> 50]"
    by (simp add: network_pressure_def scn_network_def scn_branch_def)
  have r: "net_root scn_network = ''PLAT''" "net_active scn_network"
    by (simp_all add: scn_network_def)
  show ?thesis
    by (simp add: computeNetworkPressures_def r d l a p del: network_discover.simps foldE.simps)
qed

text \<open>
  Claim C9. A node of the network that has no terminal pressure of its own and whose
  uptree branch carries no VFP table gets the pressure of its parent, whatever flows
  into it, provided the parent is not visited again after the node in the order from
  the root to the leaves (in a tree no node is). In the network of the root \<open>PLAT\<close>
  with terminal pressure 50 and the single leaf \<open>G1\<close> on a branch without a table,
  the pressure of the leaf is 50 for all rates of the group.
\<close>

theorem no_table_passes_parent_pressure:
  "(computeNetworkPressures fuel bhp network well_state schedule = Inr node_pressures
      \<and> net_active network
      \<and> network_discover fuel network [net_root network] [] []
           = Inr (leaf_nodes, before @ nd # after)
      \<and> nd \<notin> set after \<and> uptree_node upbranch \<notin> set after
      \<and> net_node network nd = Some nn \<and> terminal_pressure nn = None
      \<and> uptree_branch network nd = Some upbranch \<and> vfp_table upbranch = None
    \<longrightarrow> node_pressures nd = node_pressures (uptree_node upbranch) \<and> node_pressures nd \<noteq> None)
   \<and> (\<forall>rates fuel'. \<exists>pressures.
         computeNetworkPressures (Suc (Suc fuel')) bhp scn_network (scn_net_wellState rates) schedule
           = Inr pressures
         \<and> pressures ''PLAT'' = Some 50 \<and> pressures ''G1'' = Some 50)"
proof (rule conjI)
  show "computeNetworkPressures fuel bhp network well_state schedule = Inr node_pressures
      \<and> net_active network
      \<and> network_discover fuel network [net_root network] [] []
           = Inr (leaf_nodes, before @ nd # after)
      \<and> nd \<notin> set after \<and> uptree_node upbranch \<notin> set after
      \<and> net_node network nd = Some nn \<and> terminal_pressure nn = None
      \<and> uptree_branch network nd = Some upbranch \<and> vfp_table upbranch = None
    \<longrightarrow> node_pressures nd = node_pressures (uptree_node upbranch) \<and> node_pressures nd \<noteq> None"
    using computeNetworkPressures_no_table
      [of fuel bhp network well_state schedule node_pressures leaf_nodes before nd after upbranch nn]
    by blast
next
  show "\<forall>rates fuel'. \<exists>pressures.
         computeNetworkPressures (Suc (Suc fuel')) bhp scn_network (scn_net_wellState rates) schedule
           = Inr pressures
         \<and> pressures ''PLAT'' = Some 50 \<and> pressures ''G1'' = Some 50"
    by (simp add: scn_network_pressures)
qed

theorem no_table_passes_parent_pressure_witness:
  "computeNetworkPressures (Suc (Suc 0)) (\<lambda>t a l v p alq. 0) scn_network
     (scn_net_wellState [0, 10, 0]) (scn_schedule Prod_NONE)
   = Inr [''PLAT'' \<mapsto> 50, ''G1'' \<mapsto> 50]
   \<and> [''PLAT'' \<mapsto> 50, ''G1'' \<mapsto> (50::real)] ''G1'' = [''PLAT'' \<mapsto> 50, ''G1'' \<mapsto> 50] ''PLAT''"
proof -
  let ?bhp = "\<lambda>(t::int) (a::real) (l::real) (v::real) (p::real) (alq::real). 0::real"
  have c: "computeNetworkPressures (Suc (Suc 0)) ?bhp scn_network
     (scn_net_wellState [0, 10, 0]) (scn_schedule Prod_NONE) = Inr [''PLAT'' \<mapsto> 50, ''G1'' \<mapsto> 50]"
    by (rule scn_network_pressures)
  have d: "network_discover (Suc (Suc 0)) scn_network [net_root scn_network] [] []
             = Inr ([''G1''], [''PLAT''] @ ''G1'' # [])"
    by (simp add: scn_network_def scn_branch_def)
  have h: "net_active scn_network" "''G1'' \<notin> set []" "uptree_node scn_branch \<notin> set []"
    "net_node scn_network ''G1'' = Some \<lparr>terminal_pressure = None, add_gas_lift_gas = False\<rparr>"
    "terminal_pressure \<lparr>terminal_pressure = None, add_gas_lift_gas = False\<rparr> = None"
    "uptree_branch scn_network ''G1'' = Some scn_branch" "vfp_table scn_branch = None"
    by (simp_all add: scn_network_def scn_branch_def)
  have u: "uptree_node scn_branch = ''PLAT''"
    by (simp add: scn_branch_def)
  from no_table_passes_parent_pressure
      [where fuel = "Suc (Suc 0)" and bhp = ?bhp and network = scn_network
        and well_state = "scn_net_wellState [0, 10, 0]" and schedule = "scn_schedule Prod_NONE"
        and node_pressures = "[''PLAT'' \<mapsto> 50, ''G1'' \<mapsto> 50]"
        and leaf_nodes = "[''G1'']" and before = "[''PLAT'']" and nd = "''G1''" and after = "[]"
        and nn = "\<lparr>terminal_pressure = None, add_gas_lift_gas = False\<rparr>"
        and upbranch = scn_branch, THEN conjunct1] c d h
  have "[''PLAT'' \<mapsto> 50, ''G1'' \<mapsto> (50::real)] ''G1''
          = [''PLAT'' \<mapsto> 50, ''G1'' \<mapsto> 50] (uptree_node scn_branch)"
    by blast
  with c u show ?thesis by simp
qed

subsection \<open>The sum over a group tree\<close>

lemma treeRateSum_append:
  "treeRateSum rates schedule wellState phasePos injector (xs @ ys)
   = treeRateSum rates schedule wellState phasePos injector xs
     + treeRateSum rates schedule wellState phasePos injector ys"
  by (simp add: treeRateSum_def)

lemma treeRateSum_Nil: "treeRateSum rates schedule wellState phasePos injector [] = 0"
  by (simp add: treeRateSum_def)

lemma sumWellPhaseRates_well_value:
  assumes "wellReadable rates schedule wellState phasePos injector w"
  shows "sumWellPhaseRates_well rates schedule wellState phasePos injector w rate
         = Inr (rate + (if wellCounts schedule wellState injector w
                        then wellTerm rates schedule wellState phasePos injector w else 0))"
  using assms
  by (auto simp: sumWellPhaseRates_well_def wellReadable_def wellCounts_def wellTerm_def
      getWell_def at_vec_def isInjector_def Let_def split: option.splits)

lemma wells_fold:
  assumes "\<forall>w\<in>set ws. wellReadable rates schedule wellState phasePos injector w"
  shows "foldE (sumWellPhaseRates_well rates schedule wellState phasePos injector) ws rate
         = Inr (rate + sum_list (map (wellTerm rates schedule wellState phasePos injector)
                                  (filter (wellCounts schedule wellState injector) ws)))"
  using assms
proof (induction ws arbitrary: rate)
  case Nil
  then show ?case by simp
next
  case (Cons w ws)
  then show ?case
    by (simp add: sumWellPhaseRates_well_value)
qed

lemma groups_fold:
  assumes "\<And>c. c \<in> set cs \<Longrightarrow> \<exists>v. f c = Inr v \<and> a * v = g c"
  shows "\<exists>t. foldE (\<lambda>c rate. bindE (f c) (\<lambda>r. Inr (rate + r))) cs (rate :: real) = Inr (rate + t)
           \<and> a * t = sum_list (map g cs)"
  using assms
proof (induction cs arbitrary: rate)
  case Nil
  then show ?case by simp
next
  case (Cons c cs)
  from Cons.prems [of c] obtain v where v: "f c = Inr v" "a * v = g c"
    by auto
  from Cons.IH [of "rate + v"] Cons.prems obtain t where
    t: "foldE (\<lambda>c rate. bindE (f c) (\<lambda>r. Inr (rate + r))) cs (rate + v) = Inr (rate + v + t)"
      "a * t = sum_list (map g cs)"
    by auto
  show ?case
  proof (intro exI conjI)
    show "foldE (\<lambda>c rate. bindE (f c) (\<lambda>r. Inr (rate + r))) (c # cs) rate = Inr (rate + (v + t))"
      using v t by (simp add: add.assoc)
    show "a * (v + t) = sum_list (map g (c # cs))"
      using v t by (simp add: distrib_left)
  qed
qed

lemma treeRateSum_concat:
  "treeRateSum rates schedule wellState phasePos injector (concat (map h cs))
   = sum_list (map (\<lambda>c. treeRateSum rates schedule wellState phasePos injector (h c)) cs)"
  by (induction cs) (simp_all add: treeRateSum_Nil treeRateSum_append)

lemma treeRateSum_wells:
  "treeRateSum rates schedule wellState phasePos injector (map (\<lambda>w. (w, a)) ws)
   = a * sum_list (map (wellTerm rates schedule wellState phasePos injector)
                     (filter (wellCounts schedule wellState injector) ws))"
  by (induction ws) (simp_all add: treeRateSum_def distrib_left)

lemma sumWellPhaseRates_tree:
  assumes "acyclicWithin fuel schedule grp"
    and "\<forall>(w, f)\<in>set (treeWells fuel schedule a grp).
           wellReadable rates schedule wellState phasePos injector w"
  shows "\<exists>v. sumWellPhaseRates fuel rates grp schedule wellState phasePos injector = Inr v
           \<and> a * v = treeRateSum rates schedule wellState phasePos injector
                       (treeWells fuel schedule a grp)"
  using assms
proof (induction fuel arbitrary: grp a)
  case 0
  then show ?case by simp
next
  case (Suc fuel)
  define a' where "a' = a * getGroupEfficiencyFactor grp"
  define sub where "sub = (\<lambda>c. case sched_groups schedule c of
                                  None \<Rightarrow> [] | Some cg \<Rightarrow> treeWells fuel schedule a' cg)"
  define f where "f = (\<lambda>c. bindE (getGroup schedule c) (\<lambda>groupTmp.
                         sumWellPhaseRates fuel rates groupTmp schedule wellState phasePos injector))"
  have tw: "treeWells (Suc fuel) schedule a grp
              = concat (map sub (groups grp)) @ map (\<lambda>w. (w, a')) (wells grp)"
    unfolding sub_def a'_def by simp
  have child: "\<exists>v. f c = Inr v
                 \<and> a' * v = treeRateSum rates schedule wellState phasePos injector (sub c)"
    if c: "c \<in> set (groups grp)" for c
  proof -
    from c Suc.prems(1) obtain cg where cg: "sched_groups schedule c = Some cg"
      and ac: "acyclicWithin fuel schedule cg"
      by (auto simp: list_all_iff split: option.splits)
    have sc: "sub c = treeWells fuel schedule a' cg"
      by (simp add: sub_def cg)
    note rd = Suc.prems(2) [unfolded tw]
    have "\<forall>(w, f)\<in>set (sub c). wellReadable rates schedule wellState phasePos injector w"
    proof clarify
      fix w f
      assume "(w, f) \<in> set (sub c)"
      with c have "(w, f) \<in> set (concat (map sub (groups grp)) @ map (\<lambda>w. (w, a')) (wells grp))"
        by auto
      with rd show "wellReadable rates schedule wellState phasePos injector w"
        by blast
    qed
    then have "\<forall>(w, f)\<in>set (treeWells fuel schedule a' cg).
           wellReadable rates schedule wellState phasePos injector w"
      unfolding sc .
    from Suc.IH [OF ac this] show ?thesis
      by (simp add: f_def getGroup_def cg sub_def)
  qed
  from groups_fold [of "groups grp" f a'
      "\<lambda>c. treeRateSum rates schedule wellState phasePos injector (sub c)" 0] child
  obtain t where t: "foldE (\<lambda>c rate. bindE (f c) (\<lambda>r. Inr (rate + r))) (groups grp) 0 = Inr t"
    "a' * t = treeRateSum rates schedule wellState phasePos injector (concat (map sub (groups grp)))"
    by (auto simp: treeRateSum_concat)
  have step: "(\<lambda>groupName rate.
              bindE (getGroup schedule groupName) (\<lambda>groupTmp.
              bindE (sumWellPhaseRates fuel rates groupTmp schedule wellState phasePos injector) (\<lambda>r.
              Inr (rate + r)))) = (\<lambda>c rate. bindE (f c) (\<lambda>r. Inr (rate + r)))"
    by (intro ext) (simp add: f_def bindE_def split: sum.splits)
  have "\<forall>w\<in>set (wells grp).
      wellReadable rates schedule wellState phasePos injector w"
  proof
    fix w
    assume "w \<in> set (wells grp)"
    then have "(w, a') \<in> set (concat (map sub (groups grp)) @ map (\<lambda>w. (w, a')) (wells grp))"
      by auto
    with Suc.prems(2) [unfolded tw] show "wellReadable rates schedule wellState phasePos injector w"
      by blast
  qed
  note wf = wells_fold [OF this, of t]
  have "sumWellPhaseRates (Suc fuel) rates grp schedule wellState phasePos injector
        = Inr (getGroupEfficiencyFactor grp
               * (t + sum_list (map (wellTerm rates schedule wellState phasePos injector)
                                  (filter (wellCounts schedule wellState injector) (wells grp)))))"
    by (simp add: step t wf del: foldE.simps)
  moreover have "a * (getGroupEfficiencyFactor grp
               * (t + sum_list (map (wellTerm rates schedule wellState phasePos injector)
                                  (filter (wellCounts schedule wellState injector) (wells grp)))))
        = treeRateSum rates schedule wellState phasePos injector (treeWells (Suc fuel) schedule a grp)"
    unfolding tw treeRateSum_append treeRateSum_wells t(2) [symmetric]
    by (simp add: a'_def algebra_simps)
  ultimately show ?case
    by blast
qed

text \<open>
  Claim C4. For an acyclic group tree whose owned wells are wells of the schedule and
  have their rates in the rate vector, \<open>sumWellRates\<close> of the root equals the sum,
  over the wells of the tree that match the role, are not shut, are in the well-state
  map and are owned, of the sign-normalised phase rate times the well's efficiency
  factor times the product of the efficiency factors of the groups above the well,
  each taken once.
\<close>

theorem sumWellRates_is_tree_sum:
  assumes "acyclicWithin fuel schedule grp"
    and "\<forall>(w, f)\<in>set (treeWells fuel schedule 1 grp).
           wellReadable (wellRates wellState) schedule wellState phasePos injector w"
  shows "sumWellRates fuel grp schedule wellState phasePos injector
         = Inr (treeRateSum (wellRates wellState) schedule wellState phasePos injector
                  (treeWells fuel schedule 1 grp))"
  using sumWellPhaseRates_tree [OF assms]
  by (auto simp: sumWellRates_def)

theorem sumWellRates_is_tree_sum_witness:
  "sumWellRates (Suc (Suc 0)) scn_eff_FIELD scn_eff_schedule
     (scn_wellState Prod_ORAT [0, 40, 0] [0, 10, 0]) 1 False = Inr (15 / 4)"
proof -
  let ?ws = "scn_wellState Prod_ORAT [0, 40, 0] [0, 10, 0]"
  have tw: "treeWells (Suc (Suc 0)) scn_eff_schedule 1 scn_eff_FIELD
              = [(''W1'', 1 / 8), (''W2'', 1 / 8)]"
    by (simp add: scn_eff_schedule_def scn_eff_FIELD_def scn_eff_G1_def scn_defs)
  have ac: "acyclicWithin (Suc (Suc 0)) scn_eff_schedule scn_eff_FIELD"
    by (simp add: scn_eff_schedule_def scn_eff_FIELD_def scn_eff_G1_def scn_defs)
  have rd: "\<forall>(w, f)\<in>set (treeWells (Suc (Suc 0)) scn_eff_schedule 1 scn_eff_FIELD).
              wellReadable (wellRates ?ws) scn_eff_schedule ?ws 1 False w"
    unfolding tw
    by (simp add: wellReadable_def wellCounts_def scn_eff_schedule_def scn_defs isInjector_def)
  have s: "treeRateSum (wellRates ?ws) scn_eff_schedule ?ws 1 False
             [(''W1'', 1 / 8), (''W2'', 1 / 8)] = 15 / 4"
    by (simp add: treeRateSum_def wellCounts_def wellTerm_def scn_eff_schedule_def scn_defs
        isInjector_def)
  from sumWellRates_is_tree_sum [OF ac rd] show ?thesis
    unfolding tw s .
qed

subsection \<open>The range of a fraction\<close>

lemma guideRateSumWith_nonneg:
  assumes "guideRateSumWith childGuideRate fc grp always_included_child = Inr t"
    and "\<And>c v. childGuideRate c = Inr v \<Longrightarrow> 0 \<le> v"
  shows "0 \<le> t"
proof -
  from assms(1) obtain t1 where
    g: "foldE (\<lambda>child_group total_guide_rate.
              bindE (childGroupIncluded (fc_well_state fc) (fc_is_producer fc) (fc_injection_phase fc)
                       always_included_child child_group) (\<lambda>included.
              if included then
                bindE (childGuideRate child_group) (\<lambda>v. Inr (total_guide_rate + v))
              else Inr total_guide_rate))
            (groups grp) 0 = Inr t1"
    and w: "foldE (\<lambda>child_well total_guide_rate.
              if childWellIncluded (fc_well_state fc) (fc_is_producer fc) always_included_child child_well
              then bindE (childGuideRate child_well) (\<lambda>v. Inr (total_guide_rate + v))
              else Inr total_guide_rate)
           (wells grp) t1 = Inr t"
    by (auto simp: guideRateSumWith_def bindE_eq_Inr)
  have "0 \<le> t1"
  proof (rule foldE_invariant [where I = "\<lambda>x. 0 \<le> x", OF g])
    fix x and s s' :: real
    assume "bindE (childGroupIncluded (fc_well_state fc) (fc_is_producer fc) (fc_injection_phase fc)
                       always_included_child x) (\<lambda>included.
              if included then bindE (childGuideRate x) (\<lambda>v. Inr (s + v)) else Inr s) = Inr s'"
      and "0 \<le> s"
    then show "0 \<le> s'"
      using assms(2) [of x] by (auto simp: bindE_eq_Inr split: if_splits)
  qed simp
  show ?thesis
  proof (rule foldE_invariant [where I = "\<lambda>x. 0 \<le> x", OF w _ \<open>0 \<le> t1\<close>])
    fix x and s s' :: real
    assume "(if childWellIncluded (fc_well_state fc) (fc_is_producer fc) always_included_child x
              then bindE (childGuideRate x) (\<lambda>v. Inr (s + v)) else Inr s) = Inr s'"
      and "0 \<le> s"
    then show "0 \<le> s'"
      using assms(2) [of x] by (auto simp: bindE_eq_Inr split: if_splits)
  qed
qed

lemma guideRate_nonneg:
  assumes "\<forall>n t rv. 0 \<le> gr_get (fc_guide_rate fc) n t rv"
    and "\<forall>n p. 0 \<le> gr_get_inj (fc_guide_rate fc) n p"
    and "guideRate fuel fc n always_included_child = Inr v"
  shows "0 \<le> v"
  using assms(3)
proof (induction fuel arbitrary: n v)
  case 0
  then show ?case by simp
next
  case (Suc fuel)
  show ?case
  proof (cases "hasWell (fc_schedule fc) n")
    case True
    with Suc.prems assms(1) show ?thesis
      by (auto simp: bindE_eq_Inr)
  next
    case False
    with Suc.prems obtain num :: int where
      r: "(if num > 0 then
          (if fc_is_producer fc \<and> gr_has (fc_guide_rate fc) n then
             bindE (getProductionGroupRateVector (fc_well_state fc) (fc_pu fc) n) (\<lambda>rv.
               Inr (gr_get (fc_guide_rate fc) n (fc_target fc) rv))
           else if \<not> fc_is_producer fc \<and> gr_has_inj (fc_guide_rate fc) n (fc_injection_phase fc) then
             Inr (gr_get_inj (fc_guide_rate fc) n (fc_injection_phase fc))
           else
             bindE (getGroup (fc_schedule fc) n) (\<lambda>grp.
               guideRateSumWith (\<lambda>child. guideRate fuel fc child always_included_child)
                 fc grp always_included_child))
        else Inr 0) = Inr v"
      by (auto simp: bindE_eq_Inr simp del: groupControlledWells.simps)
    show ?thesis
    proof (cases "num > 0")
      case pos: True
      show ?thesis
      proof (cases "fc_is_producer fc \<and> gr_has (fc_guide_rate fc) n")
        case True
        with r pos assms(1) show ?thesis
          by (auto simp: bindE_eq_Inr)
      next
        case np: False
        show ?thesis
        proof (cases "\<not> fc_is_producer fc \<and> gr_has_inj (fc_guide_rate fc) n (fc_injection_phase fc)")
          case True
          with r pos np assms(2) show ?thesis
            by (auto simp: bindE_eq_Inr)
        next
          case False
          with r pos np obtain grp where
            "guideRateSumWith (\<lambda>child. guideRate fuel fc child always_included_child)
                 fc grp always_included_child = Inr v"
            by (auto simp: bindE_eq_Inr)
          then show ?thesis
            by (rule guideRateSumWith_nonneg) (rule Suc.IH)
        qed
      qed
    next
      case False
      with r show ?thesis by simp
    qed
  qed
qed

lemma localFraction_range:
  assumes "\<forall>n t rv. 0 \<le> gr_get (fc_guide_rate fc) n t rv"
    and "\<forall>n p. 0 \<le> gr_get_inj (fc_guide_rate fc) n p"
    and "localFraction_assertion fuel fc n always_included_child"
    and "localFraction fuel fc n always_included_child = Inr f"
  shows "0 \<le> f \<and> f \<le> 1"
proof -
  from assms(4) obtain my p parent_group total where
    my: "guideRate fuel fc n always_included_child = Inr my"
    and p: "fc_parent fc n = Inr p" "getGroup (fc_schedule fc) p = Inr parent_group"
    and total: "guideRateSum fuel fc parent_group always_included_child = Inr total"
    and f: "f = (if total > guide_rate_epsilon then my / total else 0)"
    by (auto simp: localFraction_def bindE_eq_Inr)
  from assms(3) my p total have le: "my \<le> total"
    by (simp add: localFraction_assertion_def)
  from guideRate_nonneg [OF assms(1,2) my] have "0 \<le> my" .
  with le f show ?thesis
    by (auto simp: guide_rate_epsilon_def divide_le_eq_1)
qed

lemma foldE_counts:
  assumes "foldE f xs s = Inr t"
    and "\<And>y a b. f y a = Inr b \<Longrightarrow> a \<le> b"
    and "x \<in> set xs"
    and "\<And>a b. f x a = Inr b \<Longrightarrow> a + (v :: real) \<le> b"
  shows "s + v \<le> t"
  using assms(1,3)
proof (induction xs arbitrary: s)
  case Nil
  then show ?case by simp
next
  case (Cons y ys)
  from Cons.prems(1) obtain s1 where s1: "f y s = Inr s1" and r: "foldE f ys s1 = Inr t"
    by (auto simp: bindE_eq_Inr)
  show ?case
  proof (cases "x \<in> set ys")
    case True
    from Cons.IH [OF r True] assms(2) [OF s1] show ?thesis
      by simp
  next
    case False
    with Cons.prems(2) have "y = x"
      by simp
    with s1 assms(4) have "s + v \<le> s1"
      by simp
    moreover have "s1 \<le> t"
      by (rule foldE_invariant [where I = "\<lambda>a. s1 \<le> a", OF r]) (use assms(2) in force)+
    ultimately show ?thesis
      by simp
  qed
qed

lemma guideRateSumWith_counts:
  assumes t: "guideRateSumWith childGuideRate fc grp always_included_child = Inr t"
    and nonneg: "\<And>c v. childGuideRate c = Inr v \<Longrightarrow> 0 \<le> v"
    and my: "childGuideRate n = Inr my"
    and counted: "(n \<in> set (groups grp)
           \<and> childGroupIncluded (fc_well_state fc) (fc_is_producer fc) (fc_injection_phase fc)
                always_included_child n = Inr True)
          \<or> (n \<in> set (wells grp)
              \<and> childWellIncluded (fc_well_state fc) (fc_is_producer fc) always_included_child n)"
  shows "my \<le> t"
proof -
  define G where "G = (\<lambda>child_group total_guide_rate.
              bindE (childGroupIncluded (fc_well_state fc) (fc_is_producer fc) (fc_injection_phase fc)
                       always_included_child child_group) (\<lambda>included.
              if included then
                bindE (childGuideRate child_group) (\<lambda>v. Inr (total_guide_rate + v))
              else Inr total_guide_rate))"
  define W where "W = (\<lambda>child_well total_guide_rate.
              if childWellIncluded (fc_well_state fc) (fc_is_producer fc) always_included_child child_well
              then bindE (childGuideRate child_well) (\<lambda>v. Inr (total_guide_rate + v))
              else Inr total_guide_rate)"
  from t obtain t1 where g: "foldE G (groups grp) 0 = Inr t1" and w: "foldE W (wells grp) t1 = Inr t"
    by (auto simp: guideRateSumWith_def bindE_eq_Inr G_def W_def)
  have Gm: "a \<le> b" if "G y a = Inr b" for y a b
    using that nonneg [of y] by (auto simp: G_def bindE_eq_Inr split: if_splits)
  have Wm: "a \<le> b" if "W y a = Inr b" for y a b
    using that nonneg [of y] by (auto simp: W_def bindE_eq_Inr split: if_splits)
  have t1: "0 \<le> t1"
    by (rule foldE_invariant [where I = "\<lambda>a. 0 \<le> a", OF g]) (use Gm in force)+
  have tt: "t1 \<le> t"
    by (rule foldE_invariant [where I = "\<lambda>a. t1 \<le> a", OF w]) (use Wm in force)+
  from counted show ?thesis
  proof
    assume c: "n \<in> set (groups grp)
           \<and> childGroupIncluded (fc_well_state fc) (fc_is_producer fc) (fc_injection_phase fc)
                always_included_child n = Inr True"
    have "0 + my \<le> t1"
    proof (rule foldE_counts [where f = G and x = n, OF g])
      show "a + my \<le> b" if "G n a = Inr b" for a b
        using that c my by (simp add: G_def)
    qed (use Gm c in auto)
    then have "my \<le> t1"
      by simp
    with tt show ?thesis
      by simp
  next
    assume c: "n \<in> set (wells grp)
              \<and> childWellIncluded (fc_well_state fc) (fc_is_producer fc) always_included_child n"
    have "t1 + my \<le> t"
    proof (rule foldE_counts [where f = W and x = n, OF w])
      show "a + my \<le> b" if "W n a = Inr b" for a b
        using that c my by (simp add: W_def)
    qed (use Wm c in auto)
    with t1 show ?thesis
      by simp
  qed
qed

lemma counted_meets_assertion:
  assumes "\<forall>n t rv. 0 \<le> gr_get (fc_guide_rate fc) n t rv"
    and "\<forall>n p. 0 \<le> gr_get_inj (fc_guide_rate fc) n p"
    and "countedByParent fc n always_included_child"
  shows "localFraction_assertion fuel fc n always_included_child"
proof -
  have "my \<le> total"
    if my: "guideRate fuel fc n always_included_child = Inr my"
      and p: "fc_parent fc n = Inr p" "getGroup (fc_schedule fc) p = Inr parent_group"
      and total: "guideRateSum fuel fc parent_group always_included_child = Inr total"
    for my p parent_group total
  proof (rule guideRateSumWith_counts [OF total [unfolded guideRateSum_def] _ my])
    show "0 \<le> v" if "guideRate fuel fc c always_included_child = Inr v" for c v
      using guideRate_nonneg [OF assms(1,2) that] .
    from assms(3) p
    show "(n \<in> set (groups parent_group)
           \<and> childGroupIncluded (fc_well_state fc) (fc_is_producer fc) (fc_injection_phase fc)
                always_included_child n = Inr True)
          \<or> (n \<in> set (wells parent_group)
              \<and> childWellIncluded (fc_well_state fc) (fc_is_producer fc) always_included_child n)"
      by (simp add: countedByParent_def)
  qed
  then show ?thesis
    by (auto simp: localFraction_assertion_def bindE_eq_Inr split: sum.splits)
qed

lemma fraction_loop_range:
  assumes "\<forall>n t rv. 0 \<le> gr_get (fc_guide_rate fc) n t rv"
    and "\<forall>n p. 0 \<le> gr_get_inj (fc_guide_rate fc) n p"
    and "fraction_counted k fc control_group_name included current"
    and "fraction_loop k fuel fc control_group_name included current acc = Inr v"
    and "0 \<le> acc" and "acc \<le> 1"
  shows "0 \<le> v \<and> v \<le> 1"
  using assms(3-)
proof (induction k arbitrary: current acc)
  case 0
  then show ?case by (auto split: if_splits)
next
  case (Suc k)
  show ?case
  proof (cases "current = control_group_name")
    case True
    with Suc.prems show ?thesis by simp
  next
    case False
    with Suc.prems(2) obtain f p where
      f: "localFraction fuel fc current included = Inr f"
      and p: "fc_parent fc current = Inr p"
      and r: "fraction_loop k fuel fc control_group_name included p (acc * f) = Inr v"
      by (auto simp: bindE_eq_Inr)
    from False Suc.prems(1) p have c: "countedByParent fc current included"
      and cs: "fraction_counted k fc control_group_name included p"
      by simp_all
    from counted_meets_assertion [OF assms(1,2) c]
    have a: "localFraction_assertion fuel fc current included" .
    from localFraction_range [OF assms(1,2) a f] have "0 \<le> f" "f \<le> 1"
      by simp_all
    with Suc.prems(3,4) have "0 \<le> acc * f" "acc * f \<le> 1"
      by (simp_all add: mult_le_one)
    with Suc.IH [OF cs r] show ?thesis
      by simp
  qed
qed

text \<open>
  Where the assertion of \<open>localFraction\<close> cannot fail, the fraction is in range. If
  every guide rate that the registry gives is non-negative and, at every step of the
  walk from the name up to the control group, the name at which \<open>localFraction\<close> is
  called is counted by the sum of its parent, then a value that \<open>fraction\<close> returns
  lies between 0 and 1. With \<open>always_include_this\<close> set the name itself is counted
  at the first step whatever its control is.
\<close>

theorem fraction_range_when_counted:
  assumes "\<forall>n t rv. 0 \<le> gr_get (fc_guide_rate fc) n t rv"
    and "\<forall>n p. 0 \<le> gr_get_inj (fc_guide_rate fc) n p"
    and "fraction_counted fuel fc control_group_name (if always_include_this then n else []) n"
    and "fraction fuel fc n control_group_name always_include_this = Inr v"
  shows "0 \<le> v \<and> v \<le> 1"
  using fraction_loop_range [OF assms(1,2,3), of fuel 1 v] assms(4)
  by (simp add: fraction_def)

lemma scn_fcalc_fields:
  "fc_schedule (scn_fcalc grup) = scn_schedule Prod_ORAT"
  "fc_guide_rate (scn_fcalc grup) = scn_guideRate"
  "fc_pu (scn_fcalc grup) = scn_pu"
  "fc_is_producer (scn_fcalc grup)"
  "fc_target (scn_fcalc grup) = Target_OIL"
  "isProductionGrup (fc_well_state (scn_fcalc grup)) = grup"
  "wellRatesByName (fc_well_state (scn_fcalc grup)) = [''W1'' \<mapsto> [0, 40, 0], ''W2'' \<mapsto> [0, 10, 0]]"
  by (simp_all add: scn_fcalc_def scn_wellState_def)

lemma scn_fcalc_guideRate:
  "guideRate (Suc fuel) (scn_fcalc grup) ''W1'' aic = Inr 3"
  "guideRate (Suc fuel) (scn_fcalc grup) ''W2'' aic = Inr 1"
  by (simp_all add: scn_fcalc_fields fc_defs scn_schedule_def scn_guideRate_def scn_pu_def)

lemma scn_fcalc_parent:
  "fc_parent (scn_fcalc grup) ''W1'' = Inr ''G1''"
  "getGroup (scn_schedule Prod_ORAT) ''G1'' = Inr (scn_G1 Prod_ORAT)"
  by (simp_all add: scn_fcalc_fields fc_defs scn_schedule_def scn_well_def)

lemma scn_fcalc_sum:
  "guideRateSum (Suc fuel) (scn_fcalc grup) (scn_G1 Prod_ORAT) aic
   = Inr ((if ''W1'' = aic \<or> grup ''W1'' then 3 else 0) + (if ''W2'' = aic \<or> grup ''W2'' then 1 else 0))"
  by (simp add: guideRateSum_def guideRateSumWith_def scn_fcalc_guideRate childWellIncluded_def
      scn_fcalc_fields scn_G1_def del: guideRate.simps)

lemma scn_fcalc_nonneg:
  "\<forall>n t rv. 0 \<le> gr_get (fc_guide_rate (scn_fcalc grup)) n t rv"
  "\<forall>n p. 0 \<le> gr_get_inj (fc_guide_rate (scn_fcalc grup)) n p"
  by (simp_all add: scn_fcalc_fields scn_guideRate_def)

theorem fraction_range_when_counted_witness:
  "fraction (Suc 0) (scn_fcalc (\<lambda>n. True)) ''W1'' ''G1'' False = Inr (3 / 4)
   \<and> fraction (Suc 0) (scn_fcalc (\<lambda>n. n = ''W2'')) ''W1'' ''G1'' True = Inr (3 / 4)
   \<and> 0 \<le> (3 / 4 :: real) \<and> (3 / 4 :: real) \<le> 1"
proof -
  let ?fc = "scn_fcalc (\<lambda>n. True)"
  let ?fd = "scn_fcalc (\<lambda>n. n = ''W2'')"
  have lf: "localFraction (Suc 0) ?fc ''W1'' [] = Inr (3 / 4)"
    by (simp add: localFraction_def scn_fcalc_guideRate scn_fcalc_parent scn_fcalc_sum
        scn_fcalc_fields guide_rate_epsilon_def del: guideRate.simps)
  have f: "fraction (Suc 0) ?fc ''W1'' ''G1'' False = Inr (3 / 4)"
    by (simp add: fraction_def lf scn_fcalc_parent)
  have c: "fraction_counted (Suc 0) ?fc ''G1'' (if False then ''W1'' else []) ''W1''"
    by (simp add: countedByParent_def scn_fcalc_parent scn_fcalc_fields scn_G1_def
        childWellIncluded_def)
  have ld: "localFraction (Suc 0) ?fd ''W1'' ''W1'' = Inr (3 / 4)"
    by (simp add: localFraction_def scn_fcalc_guideRate scn_fcalc_parent scn_fcalc_sum
        scn_fcalc_fields guide_rate_epsilon_def del: guideRate.simps)
  have d: "fraction (Suc 0) ?fd ''W1'' ''G1'' True = Inr (3 / 4)"
    by (simp add: fraction_def ld scn_fcalc_parent)
  have cd: "fraction_counted (Suc 0) ?fd ''G1'' (if True then ''W1'' else []) ''W1''"
    by (simp add: countedByParent_def scn_fcalc_parent scn_fcalc_fields scn_G1_def
        childWellIncluded_def)
  from fraction_range_when_counted [OF scn_fcalc_nonneg c f]
    fraction_range_when_counted [OF scn_fcalc_nonneg cd d] f d
  show ?thesis
    by simp
qed

text \<open>
  Claim C2. A value that \<open>fraction(name, control_group_name, always_include_this)\<close>
  returns is to lie between 0 and 1 when the guide rates of the registry are
  non-negative, and \<^verbatim>\<open>localFraction\<close> asserts as much of each factor:
  \<^verbatim>\<open>assert(total_guide_rate >= my_guide_rate)\<close>. The code does not keep to it. In the
  tree \<open>FIELD\<close>, \<open>G1\<close>, \<open>W1\<close>, \<open>W2\<close> with the guide rates 3 of \<open>W1\<close> and 1 of \<open>W2\<close>,
  \<open>W2\<close> under group control and \<open>W1\<close> under a control of its own,
  \<open>fraction(W1, G1, false)\<close> takes the guide rate 3 of \<open>W1\<close> from the registry while
  the sum over \<open>G1\<close> leaves \<open>W1\<close> out and is 1: the assertion fails, and with the
  assertion compiled out the call returns 3.
\<close>

theorem fraction_exceeds_one:
  "fraction (Suc 0) (scn_fcalc (\<lambda>n. n = ''W2'')) ''W1'' ''G1'' False = Inr 3
   \<and> guideRate (Suc 0) (scn_fcalc (\<lambda>n. n = ''W2'')) ''W1'' [] = Inr 3
   \<and> guideRateSum (Suc 0) (scn_fcalc (\<lambda>n. n = ''W2'')) (scn_G1 Prod_ORAT) [] = Inr 1
   \<and> \<not> localFraction_assertion (Suc 0) (scn_fcalc (\<lambda>n. n = ''W2'')) ''W1'' []"
proof -
  let ?fc = "scn_fcalc (\<lambda>n. n = ''W2'')"
  have lf: "localFraction (Suc 0) ?fc ''W1'' [] = Inr 3"
    by (simp add: localFraction_def scn_fcalc_guideRate scn_fcalc_parent scn_fcalc_sum
        scn_fcalc_fields guide_rate_epsilon_def del: guideRate.simps)
  have la: "\<not> localFraction_assertion (Suc 0) ?fc ''W1'' []"
    by (simp add: localFraction_assertion_def scn_fcalc_guideRate scn_fcalc_parent scn_fcalc_sum
        scn_fcalc_fields del: guideRate.simps)
  have f: "fraction (Suc 0) ?fc ''W1'' ''G1'' False = Inr 3"
    by (simp add: fraction_def lf scn_fcalc_parent)
  have s: "guideRateSum (Suc 0) ?fc (scn_G1 Prod_ORAT) [] = Inr 1"
    by (simp add: scn_fcalc_sum)
  from f la s scn_fcalc_guideRate(1) [of 0 "\<lambda>n. n = ''W2''" "[]"] show ?thesis
    by simp
qed

subsection \<open>Functions that write one aggregate and do not read it\<close>

lemma map_add_twice: "m ++ U ++ U = m ++ U"
  by (rule ext) (simp add: map_add_def split: option.splits)

lemma writesOnly_idem:
  assumes "writesOnly put h" and "\<And>ws. \<exists>m. ws = put m ws" and "h ws = Inr ws1"
  shows "h ws1 = Inr ws1"
proof -
  from assms(2) obtain m0 where m0: "ws = put m0 ws" by blast
  from assms(1) consider e where "\<forall>m. h (put m ws) = Inl e"
    | U where "\<forall>m. h (put m ws) = Inr (put (m ++ U) ws)"
    unfolding writesOnly_def by blast
  then show ?thesis
  proof cases
    case 1
    then have "h (put m0 ws) = Inl e" by simp
    with m0 assms(3) show ?thesis by simp
  next
    case 2
    then have "h (put m0 ws) = Inr (put (m0 ++ U) ws)" by simp
    with m0 assms(3) have ws1: "ws1 = put (m0 ++ U) ws" by simp
    from 2 have "h (put (m0 ++ U) ws) = Inr (put ((m0 ++ U) ++ U) ws)" by simp
    then show ?thesis by (simp add: ws1 map_add_twice)
  qed
qed

lemma writesOnly_return: "writesOnly put Inr"
  unfolding writesOnly_def
proof (intro allI disjI2)
  fix ws
  have "\<forall>m. Inr (put m ws) = Inr (put (m ++ Map.empty) ws)" by simp
  then show "\<exists>U. \<forall>m. Inr (put m ws) = Inr (put (m ++ U) ws)" by blast
qed

lemma writesOnly_bind:
  assumes "writesOnly put h1" and "writesOnly put h2"
  shows "writesOnly put (\<lambda>ws. bindE (h1 ws) h2)"
  unfolding writesOnly_def
proof
  fix ws
  from assms(1) consider e where "\<forall>m. h1 (put m ws) = Inl e"
    | U where "\<forall>m. h1 (put m ws) = Inr (put (m ++ U) ws)"
    unfolding writesOnly_def by blast
  then show "(\<exists>e. \<forall>m. bindE (h1 (put m ws)) h2 = Inl e)
       \<or> (\<exists>U. \<forall>m. bindE (h1 (put m ws)) h2 = Inr (put (m ++ U) ws))"
  proof cases
    case 1
    then show ?thesis by simp
  next
    case u1: 2
    from assms(2) consider e where "\<forall>m. h2 (put m ws) = Inl e"
      | V where "\<forall>m. h2 (put m ws) = Inr (put (m ++ V) ws)"
      unfolding writesOnly_def by blast
    then show ?thesis
    proof cases
      case 1
      with u1 show ?thesis by simp
    next
      case 2
      with u1 have "\<forall>m. bindE (h1 (put m ws)) h2 = Inr (put (m ++ (U ++ V)) ws)"
        by simp
      then show ?thesis by blast
    qed
  qed
qed

lemma writesOnly_foldE:
  assumes "\<And>x. x \<in> set xs \<Longrightarrow> writesOnly put (f x)"
  shows "writesOnly put (foldE f xs)"
  using assms
proof (induction xs)
  case Nil
  have "foldE f [] = Inr" by (intro ext) simp
  then show ?case by (simp add: writesOnly_return)
next
  case (Cons x xs)
  have "foldE f (x # xs) = (\<lambda>ws. bindE (f x ws) (foldE f xs))" by (intro ext) simp
  with Cons show ?case by (simp add: writesOnly_bind)
qed

lemma writesOnly_read:
  assumes "\<And>m ws. r (put m ws) = r ws" and "\<And>x. writesOnly put (h x)"
  shows "writesOnly put (\<lambda>ws. h (r ws) ws)"
  unfolding writesOnly_def
proof
  fix ws
  from assms(2) [of "r ws"] show "(\<exists>e. \<forall>m. h (r (put m ws)) (put m ws) = Inl e)
       \<or> (\<exists>U. \<forall>m. h (r (put m ws)) (put m ws) = Inr (put (m ++ U) ws))"
    unfolding writesOnly_def assms(1) by blast
qed

lemma writesOnly_error: "writesOnly put (\<lambda>ws. Inl e)"
  unfolding writesOnly_def by blast

lemma writesOnly_readE:
  fixes h :: "'x \<Rightarrow> WellState \<Rightarrow> error + WellState"
  assumes "\<And>m ws. r (put m ws) = r ws" and "\<And>x. writesOnly put (h x)"
  shows "writesOnly put (\<lambda>ws. bindE (r ws) (\<lambda>x. h x ws))"
proof -
  have "writesOnly put (\<lambda>ws. (\<lambda>y ws. case y of Inl e \<Rightarrow> Inl e | Inr x \<Rightarrow> h x ws) (r ws) ws)"
  proof (rule writesOnly_read [where r = r, OF assms(1)])
    fix y :: "error + 'x"
    show "writesOnly put (\<lambda>ws. case y of Inl e \<Rightarrow> Inl e | Inr x \<Rightarrow> h x ws)"
      by (cases y) (simp_all add: writesOnly_error assms(2))
  qed
  then show ?thesis
    by (simp add: bindE_def)
qed

lemma writesOnly_write:
  assumes "\<And>m ws. get (put m ws) = m" and "\<And>m m' ws. put m (put m' ws) = put m ws"
  shows "writesOnly put (\<lambda>ws. Inr (put ((get ws)(k \<mapsto> x)) ws))"
  unfolding writesOnly_def
proof (intro allI disjI2)
  fix ws
  have "\<forall>m. Inr (put ((get (put m ws))(k \<mapsto> x)) (put m ws)) = Inr (put (m ++ [k \<mapsto> x]) ws)"
    by (simp add: assms)
  then show "\<exists>U. \<forall>m. Inr (put ((get (put m ws))(k \<mapsto> x)) (put m ws)) = Inr (put (m ++ U) ws)"
    by blast
qed

lemma sumWellPhaseRates_well_reads:
  assumes "wellMap ws' = wellMap ws" and "wellIsOwned ws' = wellIsOwned ws"
    and "numPhases ws' = numPhases ws"
  shows "sumWellPhaseRates_well rates schedule ws' phasePos injector
         = sumWellPhaseRates_well rates schedule ws phasePos injector"
  unfolding sumWellPhaseRates_well_def assms ..

lemma sumWellPhaseRates_reads:
  assumes "wellMap ws' = wellMap ws" and "wellIsOwned ws' = wellIsOwned ws"
    and "numPhases ws' = numPhases ws"
  shows "sumWellPhaseRates fuel rates grp schedule ws' phasePos injector
         = sumWellPhaseRates fuel rates grp schedule ws phasePos injector"
proof (induction fuel arbitrary: grp)
  case 0
  then show ?case by simp
next
  case (Suc fuel)
  then show ?case
    by (simp add: sumWellPhaseRates_well_reads [OF assms])
qed

lemma children_writesOnly:
  assumes "\<And>g. writesOnly put (f g)"
  shows "writesOnly put (foldE (\<lambda>groupName ws. bindE (getGroup schedule groupName) (\<lambda>g. f g ws)) cs)"
proof (rule writesOnly_foldE)
  fix c
  show "writesOnly put (\<lambda>ws. bindE (getGroup schedule c) (\<lambda>g. f g ws))"
    by (cases "getGroup schedule c") (simp_all add: writesOnly_error assms)
qed

lemma updateVREPForGroups_writesOnly:
  "writesOnly (\<lambda>m ws. ws\<lparr>injectionVREPRates := m\<rparr>)
     (updateVREPForGroups fuel grp schedule wellStateNupcol)"
proof (induction fuel arbitrary: grp)
  case 0
  have "updateVREPForGroups 0 grp schedule wellStateNupcol = (\<lambda>ws. Inl OutOfFuel)"
    by (intro ext) simp
  then show ?case by (simp add: writesOnly_error)
next
  case (Suc fuel)
  let ?put = "\<lambda>m ws. ws\<lparr>injectionVREPRates := m\<rparr>"
  let ?v = "\<lambda>wellState. foldE (\<lambda>phase resv.
                 bindE (sumWellPhaseRates (Suc fuel) (wellReservoirRates wellStateNupcol) grp schedule
                          wellState phase False) (\<lambda>v. Inr (resv + v)))
               [0..<numPhases wellState] 0"
  have eq: "updateVREPForGroups (Suc fuel) grp schedule wellStateNupcol
      = (\<lambda>ws. bindE (foldE (\<lambda>groupName ws. bindE (getGroup schedule groupName)
                  (\<lambda>g. updateVREPForGroups fuel g schedule wellStateNupcol ws)) (groups grp) ws)
            (\<lambda>ws. bindE (?v ws) (\<lambda>resv.
               Inr (?put ((injectionVREPRates ws)(gname grp \<mapsto> resv)) ws))))"
    by (intro ext) (simp add: Let_def setCurrentInjectionVREPRates_def)
  have r: "?v (?put m ws) = ?v ws" for m ws
    by (simp add: sumWellPhaseRates_reads [of "?put m ws" ws] del: sumWellPhaseRates.simps)
  show ?case
    unfolding eq
    by (intro writesOnly_bind children_writesOnly Suc.IH writesOnly_readE [where r = ?v, OF r]
        writesOnly_write [where get = injectionVREPRates]) simp_all
qed

lemma updateReservoirRatesInjectionGroups_writesOnly:
  "writesOnly (\<lambda>m ws. ws\<lparr>injectionGroupReservoirRates := m\<rparr>)
     (updateReservoirRatesInjectionGroups fuel grp schedule wellStateNupcol)"
proof (induction fuel arbitrary: grp)
  case 0
  have "updateReservoirRatesInjectionGroups 0 grp schedule wellStateNupcol = (\<lambda>ws. Inl OutOfFuel)"
    by (intro ext) simp
  then show ?case by (simp add: writesOnly_error)
next
  case (Suc fuel)
  let ?put = "\<lambda>m ws. ws\<lparr>injectionGroupReservoirRates := m\<rparr>"
  let ?v = "\<lambda>wellState. mapE (\<lambda>phase.
                 sumWellPhaseRates (Suc fuel) (wellReservoirRates wellStateNupcol) grp schedule
                   wellState phase True)
               [0..<numPhases wellState]"
  have eq: "updateReservoirRatesInjectionGroups (Suc fuel) grp schedule wellStateNupcol
      = (\<lambda>ws. bindE (foldE (\<lambda>groupName ws. bindE (getGroup schedule groupName)
                  (\<lambda>g. updateReservoirRatesInjectionGroups fuel g schedule wellStateNupcol ws))
                  (groups grp) ws)
            (\<lambda>ws. bindE (?v ws) (\<lambda>resv.
               Inr (?put ((injectionGroupReservoirRates ws)(gname grp \<mapsto> resv)) ws))))"
    by (intro ext) (simp add: Let_def setCurrentInjectionGroupReservoirRates_def)
  have r: "?v (?put m ws) = ?v ws" for m ws
    by (simp add: sumWellPhaseRates_reads [of "?put m ws" ws] del: sumWellPhaseRates.simps)
  show ?case
    unfolding eq
    by (intro writesOnly_bind children_writesOnly Suc.IH writesOnly_readE [where r = ?v, OF r]
        writesOnly_write [where get = injectionGroupReservoirRates]) simp_all
qed

lemma updateGroupProductionRates_writesOnly:
  "writesOnly (\<lambda>m ws. ws\<lparr>productionGroupRates := m\<rparr>)
     (updateGroupProductionRates fuel grp schedule wellStateNupcol)"
proof (induction fuel arbitrary: grp)
  case 0
  have "updateGroupProductionRates 0 grp schedule wellStateNupcol = (\<lambda>ws. Inl OutOfFuel)"
    by (intro ext) simp
  then show ?case by (simp add: writesOnly_error)
next
  case (Suc fuel)
  let ?put = "\<lambda>m ws. ws\<lparr>productionGroupRates := m\<rparr>"
  let ?v = "\<lambda>wellState. mapE (\<lambda>phase.
                 sumWellPhaseRates (Suc fuel) (wellRates wellStateNupcol) grp schedule
                   wellState phase False)
               [0..<numPhases wellState]"
  have eq: "updateGroupProductionRates (Suc fuel) grp schedule wellStateNupcol
      = (\<lambda>ws. bindE (foldE (\<lambda>groupName ws. bindE (getGroup schedule groupName)
                  (\<lambda>g. updateGroupProductionRates fuel g schedule wellStateNupcol ws))
                  (groups grp) ws)
            (\<lambda>ws. bindE (?v ws) (\<lambda>rates.
               Inr (?put ((productionGroupRates ws)(gname grp \<mapsto> rates)) ws))))"
    by (intro ext) (simp add: Let_def setCurrentProductionGroupRates_def)
  have r: "?v (?put m ws) = ?v ws" for m ws
    by (simp add: sumWellPhaseRates_reads [of "?put m ws" ws] del: sumWellPhaseRates.simps)
  show ?case
    unfolding eq
    by (intro writesOnly_bind children_writesOnly Suc.IH writesOnly_readE [where r = ?v, OF r]
        writesOnly_write [where get = productionGroupRates]) simp_all
qed

lemma updateREINForGroups_writesOnly:
  "writesOnly (\<lambda>m ws. ws\<lparr>injectionREINRates := m\<rparr>)
     (updateREINForGroups fuel grp schedule pu wellStateNupcol)"
proof (induction fuel arbitrary: grp)
  case 0
  have "updateREINForGroups 0 grp schedule pu wellStateNupcol = (\<lambda>ws. Inl OutOfFuel)"
    by (intro ext) simp
  then show ?case by (simp add: writesOnly_error)
next
  case (Suc fuel)
  let ?put = "\<lambda>m ws. ws\<lparr>injectionREINRates := m\<rparr>"
  let ?v = "\<lambda>np wellState.
         bindE (mapE (\<lambda>phase.
                  sumWellPhaseRates (Suc fuel) (wellRates wellStateNupcol) grp schedule wellState
                    phase False)
                [0..<np]) (\<lambda>rein.
         case gconsump schedule (gname grp) of
                  None \<Rightarrow> Inr rein
                | Some gc \<Rightarrow>
                    if phase_used pu Vapour then
                      bindE (add_at rein (phase_pos pu Vapour) (import_rate gc)) (\<lambda>rein.
                      add_at rein (phase_pos pu Vapour) (- consumption_rate gc))
                    else Inr rein)"
  define H where "H = (\<lambda>np ws. bindE (foldE (\<lambda>groupName ws. bindE (getGroup schedule groupName)
                  (\<lambda>g. updateREINForGroups fuel g schedule pu wellStateNupcol ws))
                  (groups grp) ws)
            (\<lambda>ws. bindE (?v np ws) (\<lambda>rein.
               Inr (?put ((injectionREINRates ws)(gname grp \<mapsto> rein)) ws))))"
  have eq: "updateREINForGroups (Suc fuel) grp schedule pu wellStateNupcol
      = (\<lambda>ws. H (numPhases ws) ws)"
    unfolding H_def
    by (intro ext) (simp add: Let_def setCurrentInjectionREINRates_def bindE_def split: sum.splits)
  have r: "?v np (?put m ws) = ?v np ws" for m ws np
    by (simp add: sumWellPhaseRates_reads [of "?put m ws" ws] del: sumWellPhaseRates.simps)
  have "writesOnly ?put (H np)" for np
    unfolding H_def
    by (intro writesOnly_bind children_writesOnly Suc.IH
        writesOnly_readE [where r = "?v np", OF r]
        writesOnly_write [where get = injectionREINRates]) simp_all
  then show ?case
    unfolding eq
    by (intro writesOnly_read [where r = numPhases and h = H]) simp_all
qed

lemma updateWellRates_well_writesOnly:
  "writesOnly (\<lambda>m ws. ws\<lparr>wellRatesByName := m\<rparr>)
     (updateWellRates_well schedule wellStateNupcol np wellName)"
proof -
  let ?put = "\<lambda>m ws. ws\<lparr>wellRatesByName := m\<rparr>"
  let ?v = "\<lambda>wellState. case wellMap wellState wellName of
              None \<Rightarrow> Inr (replicate np 0)
            | Some well_index \<Rightarrow>
                bindE (getWell schedule wellName) (\<lambda>wellTmp.
                let sgn = (if \<not> isInjector wellTmp then - 1 else 1)
                in mapE (\<lambda>phase.
                     bindE (at_vec (wellRates wellStateNupcol) (well_index * np + phase))
                       (\<lambda>r. Inr (sgn * r)))
                   [0..<np])"
  have eq: "updateWellRates_well schedule wellStateNupcol np wellName
      = (\<lambda>ws. bindE (?v ws) (\<lambda>rates. Inr (?put ((wellRatesByName ws)(wellName \<mapsto> rates)) ws)))"
    by (intro ext) (simp add: updateWellRates_well_def setCurrentWellRates_def)
  have r: "?v (?put m ws) = ?v ws" for m ws
    by simp
  show ?thesis
    unfolding eq
    by (intro writesOnly_readE [where r = ?v, OF r] writesOnly_write [where get = wellRatesByName])
      simp_all
qed

lemma updateWellRates_writesOnly:
  "writesOnly (\<lambda>m ws. ws\<lparr>wellRatesByName := m\<rparr>)
     (updateWellRates fuel grp schedule wellStateNupcol)"
proof (induction fuel arbitrary: grp)
  case 0
  have "updateWellRates 0 grp schedule wellStateNupcol = (\<lambda>ws. Inl OutOfFuel)"
    by (intro ext) simp
  then show ?case by (simp add: writesOnly_error)
next
  case (Suc fuel)
  define H where "H = (\<lambda>np. foldE (updateWellRates_well schedule wellStateNupcol np) (wells grp))"
  have eq: "updateWellRates (Suc fuel) grp schedule wellStateNupcol
      = (\<lambda>ws. bindE (foldE (\<lambda>groupName ws. bindE (getGroup schedule groupName)
                  (\<lambda>g. updateWellRates fuel g schedule wellStateNupcol ws)) (groups grp) ws)
            (\<lambda>ws. H (numPhases ws) ws))"
    unfolding H_def by (intro ext) (simp add: Let_def)
  have "writesOnly (\<lambda>m ws. ws\<lparr>wellRatesByName := m\<rparr>) (H np)" for np
    unfolding H_def by (intro writesOnly_foldE updateWellRates_well_writesOnly)
  then have "writesOnly (\<lambda>m ws. ws\<lparr>wellRatesByName := m\<rparr>) (\<lambda>ws. H (numPhases ws) ws)"
    by (intro writesOnly_read [where r = numPhases and h = H]) simp_all
  then show ?case
    unfolding eq
    by (intro writesOnly_bind children_writesOnly Suc.IH)
qed

lemma writesOnlyWith_idem:
  assumes "writesOnlyWith put h" and "\<And>ws. \<exists>m. ws = put m ws" and "h (ws, a) = Inr (ws1, a1)"
  shows "h (ws1, a) = Inr (ws1, a1)"
proof -
  from assms(2) obtain m0 where m0: "ws = put m0 ws" by blast
  from assms(1) consider e where "\<forall>m. h (put m ws, a) = Inl e"
    | U a' where "\<forall>m. h (put m ws, a) = Inr (put (m ++ U) ws, a')"
    unfolding writesOnlyWith_def by blast
  then show ?thesis
  proof cases
    case 1
    then have "h (put m0 ws, a) = Inl e" by simp
    with m0 assms(3) show ?thesis by simp
  next
    case 2
    then have "h (put m0 ws, a) = Inr (put (m0 ++ U) ws, a')" by simp
    with m0 assms(3) have ws1: "ws1 = put (m0 ++ U) ws" "a1 = a'" by simp_all
    from 2 have "h (put (m0 ++ U) ws, a) = Inr (put ((m0 ++ U) ++ U) ws, a')" by simp
    then show ?thesis by (simp add: ws1 map_add_twice)
  qed
qed

lemma writesOnlyWith_return: "writesOnlyWith put Inr"
  unfolding writesOnlyWith_def
proof (intro allI disjI2)
  fix ws a
  have "\<forall>m. Inr (put m ws, a) = Inr (put (m ++ Map.empty) ws, a)" by simp
  then show "\<exists>U a'. \<forall>m. Inr (put m ws, a) = Inr (put (m ++ U) ws, a')" by blast
qed

lemma writesOnlyWith_bind:
  assumes "writesOnlyWith put h1" and "writesOnlyWith put h2"
  shows "writesOnlyWith put (\<lambda>s. bindE (h1 s) h2)"
  unfolding writesOnlyWith_def
proof (intro allI)
  fix ws a
  from assms(1) consider e where "\<forall>m. h1 (put m ws, a) = Inl e"
    | U a' where "\<forall>m. h1 (put m ws, a) = Inr (put (m ++ U) ws, a')"
    unfolding writesOnlyWith_def by blast
  then show "(\<exists>e. \<forall>m. bindE (h1 (put m ws, a)) h2 = Inl e)
       \<or> (\<exists>U a'. \<forall>m. bindE (h1 (put m ws, a)) h2 = Inr (put (m ++ U) ws, a'))"
  proof cases
    case 1
    then show ?thesis by simp
  next
    case u1: 2
    from assms(2) consider e where "\<forall>m. h2 (put m ws, a') = Inl e"
      | V a'' where "\<forall>m. h2 (put m ws, a') = Inr (put (m ++ V) ws, a'')"
      unfolding writesOnlyWith_def by blast
    then show ?thesis
    proof cases
      case 1
      with u1 show ?thesis by simp
    next
      case 2
      with u1 have "\<forall>m. bindE (h1 (put m ws, a)) h2 = Inr (put (m ++ (U ++ V)) ws, a'')"
        by simp
      then show ?thesis by blast
    qed
  qed
qed

lemma writesOnlyWith_foldE:
  assumes "\<And>x. x \<in> set xs \<Longrightarrow> writesOnlyWith put (f x)"
  shows "writesOnlyWith put (foldE f xs)"
  using assms
proof (induction xs)
  case Nil
  have "foldE f [] = Inr" by (intro ext) simp
  then show ?case by (simp add: writesOnlyWith_return)
next
  case (Cons x xs)
  have "foldE f (x # xs) = (\<lambda>s. bindE (f x s) (foldE f xs))" by (intro ext) simp
  with Cons show ?case by (simp add: writesOnlyWith_bind)
qed

lemma writesOnlyWith_value:
  assumes "\<And>m ws a. v (put m ws) a = v ws a"
  shows "writesOnlyWith put (\<lambda>(ws, a). bindE (v ws a) (\<lambda>a'. Inr (ws, a')))"
  unfolding writesOnlyWith_def
proof (intro allI)
  fix ws a
  show "(\<exists>e. \<forall>m. (case (put m ws, a) of (ws, a) \<Rightarrow> bindE (v ws a) (\<lambda>a'. Inr (ws, a'))) = Inl e)
       \<or> (\<exists>U a'. \<forall>m. (case (put m ws, a) of (ws, a) \<Rightarrow> bindE (v ws a) (\<lambda>a'. Inr (ws, a')))
                        = Inr (put (m ++ U) ws, a'))"
  proof (cases "v ws a")
    case (Inl e)
    then show ?thesis by (simp add: assms)
  next
    case (Inr a')
    then have "\<forall>m. (case (put m ws, a) of (ws, a) \<Rightarrow> bindE (v ws a) (\<lambda>a'. Inr (ws, a')))
                 = Inr (put (m ++ Map.empty) ws, a')"
      by (simp add: assms)
    then show ?thesis by blast
  qed
qed

lemma writesOnlyWith_write:
  assumes "\<And>m ws. get (put m ws) = m" and "\<And>m m' ws. put m (put m' ws) = put m ws"
  shows "writesOnlyWith put (\<lambda>(ws, a). Inr (put ((get ws)(k \<mapsto> g a)) ws, g a))"
  unfolding writesOnlyWith_def
proof (intro allI disjI2)
  fix ws a
  have "\<forall>m. (case (put m ws, a) of (ws, a) \<Rightarrow> Inr (put ((get ws)(k \<mapsto> g a)) ws, g a))
          = Inr (put (m ++ [k \<mapsto> g a]) ws, g a)"
    by (simp add: assms)
  then show "\<exists>U a'. \<forall>m. (case (put m ws, a) of (ws, a) \<Rightarrow> Inr (put ((get ws)(k \<mapsto> g a)) ws, g a))
          = Inr (put (m ++ U) ws, a')"
    by blast
qed

lemma writesOnlyWith_read:
  assumes "\<And>m ws a. r (put m ws) = r ws" and "\<And>x. writesOnlyWith put (h x)"
  shows "writesOnlyWith put (\<lambda>(ws, a). h (r ws) (ws, a))"
  unfolding writesOnlyWith_def
proof (intro allI)
  fix ws a
  from assms(2) [of "r ws"]
  show "(\<exists>e. \<forall>m. (case (put m ws, a) of (ws, a) \<Rightarrow> h (r ws) (ws, a)) = Inl e)
       \<or> (\<exists>U a'. \<forall>m. (case (put m ws, a) of (ws, a) \<Rightarrow> h (r ws) (ws, a))
                        = Inr (put (m ++ U) ws, a'))"
    unfolding writesOnlyWith_def by (simp add: assms(1))
qed

lemma writesOnlyWith_subGroup:
  fixes f :: "Group \<Rightarrow> WellState \<Rightarrow> real list \<Rightarrow> error + WellState \<times> real list"
  assumes ih: "\<And>g. writesOnlyWith put (\<lambda>(ws, red). f g ws red)"
    and inv: "\<And>m ws g sr red. R (put m ws) g sr red = R ws g sr red"
  shows "writesOnlyWith put (\<lambda>(ws, red).
           bindE (getGroup schedule c) (\<lambda>subGroup.
           bindE (f subGroup ws z) (\<lambda>(ws, subGroupTargetReduction).
           bindE (R ws subGroup subGroupTargetReduction red) (\<lambda>red.
           Inr (ws, red)))))"
  unfolding writesOnlyWith_def
proof (intro allI)
  fix ws red
  let ?h = "\<lambda>s. case s of (ws, red) \<Rightarrow>
           bindE (getGroup schedule c) (\<lambda>subGroup.
           bindE (f subGroup ws z) (\<lambda>(ws, subGroupTargetReduction).
           bindE (R ws subGroup subGroupTargetReduction red) (\<lambda>red.
           Inr (ws, red))))"
  show "(\<exists>e. \<forall>m. ?h (put m ws, red) = Inl e)
      \<or> (\<exists>U a'. \<forall>m. ?h (put m ws, red) = Inr (put (m ++ U) ws, a'))"
  proof (cases "getGroup schedule c")
    case (Inl e)
    then show ?thesis by simp
  next
    case (Inr g)
    from ih [of g] consider e where "\<forall>m. f g (put m ws) z = Inl e"
      | U sr where "\<forall>m. f g (put m ws) z = Inr (put (m ++ U) ws, sr)"
      unfolding writesOnlyWith_def by fastforce
    then show ?thesis
    proof cases
      case 1
      with Inr show ?thesis by simp
    next
      case 2
      show ?thesis
      proof (cases "R ws g sr red")
        case (Inl e)
        with Inr 2 have "\<forall>m. ?h (put m ws, red) = Inl e"
          by (simp add: inv)
        then show ?thesis by blast
      next
        case r: (Inr red')
        with Inr 2 have "\<forall>m. ?h (put m ws, red) = Inr (put (m ++ U) ws, red')"
          by (simp add: inv)
        then show ?thesis by blast
      qed
    qed
  qed
qed

lemma putReduction_laws:
  "(if is_injector then injectionGroupReductionRates (putReduction is_injector m ws)
    else productionGroupReductionRates (putReduction is_injector m ws)) = m"
  "putReduction is_injector m (putReduction is_injector m' ws) = putReduction is_injector m ws"
  "numPhases (putReduction is_injector m ws) = numPhases ws"
  by (simp_all add: putReduction_def)

lemma reduction_subGroup_reads:
  "reduction_subGroup fuel schedule is_injector pu guide_rate wellStateNupcol
     (putReduction b m ws) np subGroupName subGroup sr red
   = reduction_subGroup fuel schedule is_injector pu guide_rate wellStateNupcol
       ws np subGroupName subGroup sr red"
  unfolding reduction_subGroup_def currentInjectionGroupControl_def
    currentProductionGroupControl_def putReduction_def
  by (cases b) simp_all

lemma reduction_well_reads:
  "reduction_well schedule is_injector wellStateNupcol (putReduction b m ws) np
   = reduction_well schedule is_injector wellStateNupcol ws np"
  by (cases b; intro ext)
    (simp_all add: reduction_well_def putReduction_def cong: if_cong option.case_cong)

lemma updateGroupTargetReduction_writesOnly:
  "writesOnlyWith (putReduction is_injector)
     (\<lambda>(ws, red). updateGroupTargetReduction fuel grp schedule is_injector pu guide_rate
                     wellStateNupcol ws red)"
proof (induction fuel arbitrary: grp)
  case 0
  have "(\<lambda>(ws, red). updateGroupTargetReduction 0 grp schedule is_injector pu guide_rate
                     wellStateNupcol ws red) = (\<lambda>s. bindE (Inl OutOfFuel) Inr)"
    by (intro ext) auto
  moreover have "writesOnlyWith (putReduction is_injector)
      (\<lambda>s :: WellState \<times> real list. Inl OutOfFuel :: error + WellState \<times> real list)"
    unfolding writesOnlyWith_def by blast
  ultimately show ?case by simp
next
  case (Suc fuel)
  let ?put = "putReduction is_injector"
  let ?get = "\<lambda>ws. if is_injector then injectionGroupReductionRates ws
                    else productionGroupReductionRates ws"
  define step :: "nat \<Rightarrow> name \<Rightarrow> WellState \<times> real list \<Rightarrow> error + WellState \<times> real list"
    where "step = (\<lambda>np subGroupName (ws, red).
                  bindE (getGroup schedule subGroupName) (\<lambda>subGroup.
                  bindE (updateGroupTargetReduction fuel subGroup schedule is_injector pu guide_rate
                           wellStateNupcol ws (replicate np 0)) (\<lambda>(ws, subGroupTargetReduction).
                  bindE (reduction_subGroup fuel schedule is_injector pu guide_rate wellStateNupcol
                           ws np subGroupName subGroup subGroupTargetReduction red) (\<lambda>red.
                  Inr (ws, red)))))"
  define wellsPart :: "nat \<Rightarrow> WellState \<times> real list \<Rightarrow> error + WellState \<times> real list"
    where "wellsPart = (\<lambda>np (ws, red).
         bindE (foldE (reduction_well schedule is_injector wellStateNupcol ws np)
                  (wells grp) red) (\<lambda>red. Inr (ws, red)))"
  define final :: "WellState \<times> real list \<Rightarrow> error + WellState \<times> real list"
    where "final = (\<lambda>(ws, red).
         Inr (?put ((?get ws)(gname grp \<mapsto> map (\<lambda>elem. elem * getGroupEfficiencyFactor grp) red)) ws,
              map (\<lambda>elem. elem * getGroupEfficiencyFactor grp) red))"
  define H where "H = (\<lambda>np s. bindE (foldE (step np) (groups grp) s)
                          (\<lambda>s. bindE (wellsPart np s) final))"
  have eq: "(\<lambda>(ws, red). updateGroupTargetReduction (Suc fuel) grp schedule is_injector pu
                guide_rate wellStateNupcol ws red)
      = (\<lambda>(ws, red). H (numPhases ws) (ws, red))"
    unfolding H_def step_def wellsPart_def final_def
    by (intro ext)
      (auto simp: Let_def putReduction_def setCurrentInjectionGroupReductionRates_def
        setCurrentProductionGroupReductionRates_def bindE_def split: sum.splits prod.splits)
  have s: "writesOnlyWith ?put (step np c)" for np c
    unfolding step_def
    by (rule writesOnlyWith_subGroup
          [where f = "\<lambda>g ws red. updateGroupTargetReduction fuel g schedule is_injector pu
                        guide_rate wellStateNupcol ws red"
             and R = "\<lambda>ws g sr red. reduction_subGroup fuel schedule is_injector pu guide_rate
                        wellStateNupcol ws np c g sr red"])
       (simp_all add: Suc.IH reduction_subGroup_reads)
  have w: "writesOnlyWith ?put (wellsPart np)" for np
    unfolding wellsPart_def
    by (rule writesOnlyWith_value
          [where v = "\<lambda>ws red. foldE (reduction_well schedule is_injector wellStateNupcol ws np)
                                 (wells grp) red"])
       (simp add: reduction_well_reads)
  have f: "writesOnlyWith ?put final"
    unfolding final_def
    by (rule writesOnlyWith_write [where get = ?get])
       (simp_all add: putReduction_def)
  have "writesOnlyWith ?put (H np)" for np
    unfolding H_def
    by (intro writesOnlyWith_bind writesOnlyWith_foldE s w f)
  then show ?case
    unfolding eq
    by (intro writesOnlyWith_read [where r = numPhases and h = H]) (simp_all add: putReduction_laws)
qed

text \<open>
  Claim C8. Each of the six update functions, called a second time on the well state
  that its first call returned, with the same schedule, the same frozen state and, for
  \<open>updateGroupTargetReduction\<close>, the same initial reduction vector, returns that
  well state again: a function writes one aggregate of the well state and reads none
  of what it writes.
\<close>

theorem update_functions_idempotent:
  "(updateGroupTargetReduction fuel grp schedule is_injector pu guide_rate wellStateNupcol
      wellState groupTargetReduction = Inr (ws1, red1) \<longrightarrow>
    updateGroupTargetReduction fuel grp schedule is_injector pu guide_rate wellStateNupcol
      ws1 groupTargetReduction = Inr (ws1, red1))
   \<and> (updateREINForGroups fuel grp schedule pu wellStateNupcol wellState = Inr ws2 \<longrightarrow>
      updateREINForGroups fuel grp schedule pu wellStateNupcol ws2 = Inr ws2)
   \<and> (updateVREPForGroups fuel grp schedule wellStateNupcol wellState = Inr ws3 \<longrightarrow>
      updateVREPForGroups fuel grp schedule wellStateNupcol ws3 = Inr ws3)
   \<and> (updateReservoirRatesInjectionGroups fuel grp schedule wellStateNupcol wellState = Inr ws4 \<longrightarrow>
      updateReservoirRatesInjectionGroups fuel grp schedule wellStateNupcol ws4 = Inr ws4)
   \<and> (updateWellRates fuel grp schedule wellStateNupcol wellState = Inr ws5 \<longrightarrow>
      updateWellRates fuel grp schedule wellStateNupcol ws5 = Inr ws5)
   \<and> (updateGroupProductionRates fuel grp schedule wellStateNupcol wellState = Inr ws6 \<longrightarrow>
      updateGroupProductionRates fuel grp schedule wellStateNupcol ws6 = Inr ws6)"
proof (intro conjI impI)
  assume a: "updateGroupTargetReduction fuel grp schedule is_injector pu guide_rate
               wellStateNupcol wellState groupTargetReduction = Inr (ws1, red1)"
  have l: "\<exists>m. ws = putReduction is_injector m ws" for ws
  proof (cases is_injector)
    case True
    then show ?thesis
      by (intro exI [of _ "injectionGroupReductionRates ws"]) (simp add: putReduction_def)
  next
    case False
    then show ?thesis
      by (intro exI [of _ "productionGroupReductionRates ws"]) (simp add: putReduction_def)
  qed
  from writesOnlyWith_idem
         [OF updateGroupTargetReduction_writesOnly
               [of is_injector fuel grp schedule pu guide_rate wellStateNupcol] l,
          of wellState groupTargetReduction ws1 red1] a
  show "updateGroupTargetReduction fuel grp schedule is_injector pu guide_rate wellStateNupcol
          ws1 groupTargetReduction = Inr (ws1, red1)"
    by simp
next
  assume a: "updateREINForGroups fuel grp schedule pu wellStateNupcol wellState = Inr ws2"
  have l: "\<exists>m. ws = ws\<lparr>injectionREINRates := m\<rparr>" for ws :: WellState
    by (rule exI [of _ "injectionREINRates ws"]) simp
  show "updateREINForGroups fuel grp schedule pu wellStateNupcol ws2 = Inr ws2"
    by (rule writesOnly_idem [OF updateREINForGroups_writesOnly l a])
next
  assume a: "updateVREPForGroups fuel grp schedule wellStateNupcol wellState = Inr ws3"
  have l: "\<exists>m. ws = ws\<lparr>injectionVREPRates := m\<rparr>" for ws :: WellState
    by (rule exI [of _ "injectionVREPRates ws"]) simp
  show "updateVREPForGroups fuel grp schedule wellStateNupcol ws3 = Inr ws3"
    by (rule writesOnly_idem [OF updateVREPForGroups_writesOnly l a])
next
  assume a: "updateReservoirRatesInjectionGroups fuel grp schedule wellStateNupcol wellState
               = Inr ws4"
  have l: "\<exists>m. ws = ws\<lparr>injectionGroupReservoirRates := m\<rparr>" for ws :: WellState
    by (rule exI [of _ "injectionGroupReservoirRates ws"]) simp
  show "updateReservoirRatesInjectionGroups fuel grp schedule wellStateNupcol ws4 = Inr ws4"
    by (rule writesOnly_idem [OF updateReservoirRatesInjectionGroups_writesOnly l a])
next
  assume a: "updateWellRates fuel grp schedule wellStateNupcol wellState = Inr ws5"
  have l: "\<exists>m. ws = ws\<lparr>wellRatesByName := m\<rparr>" for ws :: WellState
    by (rule exI [of _ "wellRatesByName ws"]) simp
  show "updateWellRates fuel grp schedule wellStateNupcol ws5 = Inr ws5"
    by (rule writesOnly_idem [OF updateWellRates_writesOnly l a])
next
  assume a: "updateGroupProductionRates fuel grp schedule wellStateNupcol wellState = Inr ws6"
  have l: "\<exists>m. ws = ws\<lparr>productionGroupRates := m\<rparr>" for ws :: WellState
    by (rule exI [of _ "productionGroupRates ws"]) simp
  show "updateGroupProductionRates fuel grp schedule wellStateNupcol ws6 = Inr ws6"
    by (rule writesOnly_idem [OF updateGroupProductionRates_writesOnly l a])
qed

lemmas upd_defs = getGroup_def getWell_def at_vec_def add_at_def lookupE_def isInjector_def
  sumWellPhaseRates_well_def reduction_subGroup_def reduction_well_def reduction_phasePos_def
  updateWellRates_well_def currentProductionGroupControl_def currentInjectionGroupControl_def
  childGroupIncluded_def childWellIncluded_def sumWellRates_def Let_def
  setCurrentInjectionGroupReductionRates_def setCurrentProductionGroupReductionRates_def
  setCurrentInjectionVREPRates_def setCurrentInjectionGroupReservoirRates_def
  setCurrentWellRates_def setCurrentProductionGroupRates_def setCurrentInjectionREINRates_def

lemma upt_three: "[0..<3] = [0, 1, 2]"
  by (simp add: upt_rec)

theorem update_functions_idempotent_witness:
  "(\<exists>ws1 red1.
      updateGroupTargetReduction (Suc (Suc 0)) scn_FIELD (scn_schedule Prod_ORAT) False scn_pu
        scn_guideRate (scn_wellState Prod_ORAT [0, 40, 0] [0, 10, 0])
        (scn_wellState Prod_ORAT [0, 40, 0] [0, 10, 0]) [0, 0, 0] = Inr (ws1, red1)
      \<and> updateGroupTargetReduction (Suc (Suc 0)) scn_FIELD (scn_schedule Prod_ORAT) False scn_pu
          scn_guideRate (scn_wellState Prod_ORAT [0, 40, 0] [0, 10, 0]) ws1 [0, 0, 0]
        = Inr (ws1, red1))
   \<and> (\<exists>ws2.
      updateREINForGroups (Suc (Suc 0)) scn_FIELD (scn_schedule Prod_ORAT) scn_pu
        (scn_wellState Prod_ORAT [0, 40, 0] [0, 10, 0])
        (scn_wellState Prod_ORAT [0, 40, 0] [0, 10, 0]) = Inr ws2
      \<and> updateREINForGroups (Suc (Suc 0)) scn_FIELD (scn_schedule Prod_ORAT) scn_pu
          (scn_wellState Prod_ORAT [0, 40, 0] [0, 10, 0]) ws2 = Inr ws2)
   \<and> (\<exists>ws3.
      updateVREPForGroups (Suc (Suc 0)) scn_FIELD (scn_schedule Prod_ORAT)
        (scn_wellState Prod_ORAT [0, 40, 0] [0, 10, 0])
        (scn_wellState Prod_ORAT [0, 40, 0] [0, 10, 0]) = Inr ws3
      \<and> updateVREPForGroups (Suc (Suc 0)) scn_FIELD (scn_schedule Prod_ORAT)
          (scn_wellState Prod_ORAT [0, 40, 0] [0, 10, 0]) ws3 = Inr ws3)
   \<and> (\<exists>ws4.
      updateReservoirRatesInjectionGroups (Suc (Suc 0)) scn_FIELD (scn_schedule Prod_ORAT)
        (scn_wellState Prod_ORAT [0, 40, 0] [0, 10, 0])
        (scn_wellState Prod_ORAT [0, 40, 0] [0, 10, 0]) = Inr ws4
      \<and> updateReservoirRatesInjectionGroups (Suc (Suc 0)) scn_FIELD (scn_schedule Prod_ORAT)
          (scn_wellState Prod_ORAT [0, 40, 0] [0, 10, 0]) ws4 = Inr ws4)
   \<and> (\<exists>ws5.
      updateWellRates (Suc (Suc 0)) scn_FIELD (scn_schedule Prod_ORAT)
        (scn_wellState Prod_ORAT [0, 40, 0] [0, 10, 0])
        (scn_wellState Prod_ORAT [0, 40, 0] [0, 10, 0]) = Inr ws5
      \<and> updateWellRates (Suc (Suc 0)) scn_FIELD (scn_schedule Prod_ORAT)
          (scn_wellState Prod_ORAT [0, 40, 0] [0, 10, 0]) ws5 = Inr ws5)
   \<and> (\<exists>ws6.
      updateGroupProductionRates (Suc (Suc 0)) scn_FIELD (scn_schedule Prod_ORAT)
        (scn_wellState Prod_ORAT [0, 40, 0] [0, 10, 0])
        (scn_wellState Prod_ORAT [0, 40, 0] [0, 10, 0]) = Inr ws6
      \<and> updateGroupProductionRates (Suc (Suc 0)) scn_FIELD (scn_schedule Prod_ORAT)
          (scn_wellState Prod_ORAT [0, 40, 0] [0, 10, 0]) ws6 = Inr ws6)"
proof -
  let ?s = "scn_schedule Prod_ORAT"
  let ?w = "scn_wellState Prod_ORAT [0, 40, 0] [0, 10, 0]"
  have "\<exists>r. updateGroupTargetReduction (Suc (Suc 0)) scn_FIELD ?s False scn_pu scn_guideRate
              ?w ?w [0, 0, 0] = Inr r"
    by (simp add: upd_defs scn_defs upt_three)
  then obtain ws1 red1 where r1: "updateGroupTargetReduction (Suc (Suc 0)) scn_FIELD ?s False
      scn_pu scn_guideRate ?w ?w [0, 0, 0] = Inr (ws1, red1)"
    by fastforce
  have "\<exists>r. updateREINForGroups (Suc (Suc 0)) scn_FIELD ?s scn_pu ?w ?w = Inr r"
    by (simp add: upd_defs scn_defs upt_three)
  then obtain ws2 where r2: "updateREINForGroups (Suc (Suc 0)) scn_FIELD ?s scn_pu ?w ?w = Inr ws2"
    by blast
  have "\<exists>r. updateVREPForGroups (Suc (Suc 0)) scn_FIELD ?s ?w ?w = Inr r"
    by (simp add: upd_defs scn_defs upt_three)
  then obtain ws3 where r3: "updateVREPForGroups (Suc (Suc 0)) scn_FIELD ?s ?w ?w = Inr ws3"
    by blast
  have "\<exists>r. updateReservoirRatesInjectionGroups (Suc (Suc 0)) scn_FIELD ?s ?w ?w = Inr r"
    by (simp add: upd_defs scn_defs upt_three)
  then obtain ws4 where
    r4: "updateReservoirRatesInjectionGroups (Suc (Suc 0)) scn_FIELD ?s ?w ?w = Inr ws4"
    by blast
  have "\<exists>r. updateWellRates (Suc (Suc 0)) scn_FIELD ?s ?w ?w = Inr r"
    by (simp add: upd_defs scn_defs upt_three)
  then obtain ws5 where r5: "updateWellRates (Suc (Suc 0)) scn_FIELD ?s ?w ?w = Inr ws5"
    by blast
  have "\<exists>r. updateGroupProductionRates (Suc (Suc 0)) scn_FIELD ?s ?w ?w = Inr r"
    by (simp add: upd_defs scn_defs upt_three)
  then obtain ws6 where r6: "updateGroupProductionRates (Suc (Suc 0)) scn_FIELD ?s ?w ?w = Inr ws6"
    by blast
  note t = update_functions_idempotent
             [where fuel = "Suc (Suc 0)" and grp = scn_FIELD and schedule = ?s
                and is_injector = False and pu = scn_pu and guide_rate = scn_guideRate
                and wellStateNupcol = ?w and wellState = ?w and groupTargetReduction = "[0, 0, 0]"
                and ?ws1.0 = ws1 and ?red1.0 = red1 and ?ws2.0 = ws2 and ?ws3.0 = ws3
                and ?ws4.0 = ws4 and ?ws5.0 = ws5 and ?ws6.0 = ws6]
  from t r1 r2 r3 r4 r5 r6 show ?thesis
    by blast
qed

end
